(* ===== verification/Prelude.thy ===== *)
theory Prelude
  imports
    Main
    "HOL-Library.Sublist"
    "HOL-Library.State_Monad"
begin

text \<open>
  Shared vocabulary of the development: the names of the model's basic types, the
  theorem collections the component theories fill, and the generic facts about
  lists, sums, the state monad and machines with fuel that their proofs rest on.

  A Python statement that reads or changes the outside world is a computation in the
  state monad of \<open>HOL-Library.State_Monad\<close>; a statement that may raise returns a sum,
  \<open>Inl\<close> the exception and \<open>Inr\<close> the value. \<open>run_state m s\<close> is the pair of the
  result and the state after \<open>m\<close>; \<open>result_of\<close> and \<open>state_of\<close> name its two parts.
\<close>

section \<open>Types and collections\<close>

type_synonym path = string
type_synonym argv = "string list"

named_theorems py_defs \<open>unfolding equations of the modelled operations\<close>
named_theorems frame_simps \<open>what an operation leaves unchanged\<close>
named_theorems io_intros \<open>rules that build a relation between the states before and after\<close>

abbreviation result_of :: "('s, 'a) state \<Rightarrow> 's \<Rightarrow> 'a" where
  "result_of m s \<equiv> fst (run_state m s)"

abbreviation state_of :: "('s, 'a) state \<Rightarrow> 's \<Rightarrow> 's" where
  "state_of m s \<equiv> snd (run_state m s)"

text \<open>
  A machine is a function that gives a configuration its successor, if it has one.
  \<open>fuel_run nxt n c\<close> makes at most \<open>n\<close> transitions from \<open>c\<close> and stops where there
  is no successor; \<open>successor nxt\<close> is the transition relation of the machine.
\<close>

fun fuel_run :: "('c \<Rightarrow> 'c option) \<Rightarrow> nat \<Rightarrow> 'c \<Rightarrow> 'c" where
  "fuel_run nxt 0 c = c"
| "fuel_run nxt (Suc n) c = (case nxt c of None \<Rightarrow> c | Some c' \<Rightarrow> fuel_run nxt n c')"

abbreviation successor :: "('c \<Rightarrow> 'c option) \<Rightarrow> 'c \<Rightarrow> 'c \<Rightarrow> bool" where
  "successor nxt a b \<equiv> nxt a = Some b"

section \<open>State monad\<close>

lemma run_state_update [simp]: "run_state (State_Monad.update f) s = ((), f s)"
  by (simp add: State_Monad.update_def)

lemma run_state_bind_pair:
  "run_state m s = (a, s') \<Longrightarrow> run_state (State_Monad.bind m f) s = run_state (f a) s'"
  by simp

lemma run_state_case_sum:
  "run_state (case r of Inl e \<Rightarrow> f e | Inr x \<Rightarrow> g x) s =
     (case r of Inl e \<Rightarrow> run_state (f e) s | Inr x \<Rightarrow> run_state (g x) s)"
  by (cases r) simp_all

lemma run_state_if:
  "run_state (if b then m else n) s = (if b then run_state m s else run_state n s)"
  by simp

text \<open>
  A relation between the state before and the state after (\<open>state_io_rel\<close> of the
  library) that is reflexive and transitive holds of a computation when it holds of
  its parts. The rules below take a computation apart along its syntax.
\<close>

lemma state_io_rel_return [io_intros]:
  "reflp P \<Longrightarrow> state_io_rel P (State_Monad.return x)"
  by (auto simp: state_io_rel_def reflp_def)

lemma state_io_rel_bind [io_intros]:
  assumes "transp P" and "state_io_rel P m" and "\<And>x. state_io_rel P (f x)"
  shows "state_io_rel P (State_Monad.bind m f)"
proof (rule state_io_relI)
  fix a s s' assume run: "run_state (State_Monad.bind m f) s = (a, s')"
  obtain b t where m: "run_state m s = (b, t)" by (cases "run_state m s")
  with run have f: "run_state (f b) t = (a, s')" by simp
  from assms(2) m have "P s t" by (rule state_io_relD)
  moreover from assms(3) f have "P t s'" by (rule state_io_relD)
  ultimately show "P s s'" using assms(1) by (blast dest: transpD)
qed

lemma state_io_rel_case_sum [io_intros]:
  "(\<And>e. state_io_rel P (f e)) \<Longrightarrow> (\<And>x. state_io_rel P (g x)) \<Longrightarrow>
   state_io_rel P (case r of Inl e \<Rightarrow> f e | Inr x \<Rightarrow> g x)"
  by (cases r) simp_all

lemma state_io_rel_case_prod [io_intros]:
  "(\<And>a b. state_io_rel P (f a b)) \<Longrightarrow> state_io_rel P (case p of (a, b) \<Rightarrow> f a b)"
  by (cases p) simp

lemma state_io_rel_if [io_intros]:
  "state_io_rel P m \<Longrightarrow> state_io_rel P n \<Longrightarrow> state_io_rel P (if b then m else n)"
  by simp

lemma state_io_rel_update [io_intros]:
  "(\<And>s. P s (f s)) \<Longrightarrow> state_io_rel P (State_Monad.update f)"
  by (simp add: state_io_rel_def)

lemma state_io_rel_weaken:
  "state_io_rel P m \<Longrightarrow> (\<And>s s'. P s s' \<Longrightarrow> Q s s') \<Longrightarrow> state_io_rel Q m"
  by (simp add: state_io_rel_def)

section \<open>Machines\<close>

text \<open>
  When a measure decreases with every transition, fuel of the size of the measure
  reaches the end of the run, and the end of a run is unique.
\<close>

lemma fuel_run_stuck [simp]: "nxt c = None \<Longrightarrow> fuel_run nxt n c = c"
  by (cases n) simp_all

lemma fuel_run_rtranclp: "(successor nxt)\<^sup>*\<^sup>* c (fuel_run nxt n c)"
proof (induction n arbitrary: c)
  case 0
  show ?case by simp
next
  case (Suc n)
  show ?case
  proof (cases "nxt c")
    case None
    then show ?thesis by simp
  next
    case (Some c')
    with Suc.IH [of c'] show ?thesis by (simp add: converse_rtranclp_into_rtranclp)
  qed
qed

lemma fuel_run_ends:
  assumes "\<And>a b. nxt a = Some b \<Longrightarrow> rank b < (rank a :: nat)" and "rank c \<le> n"
  shows "nxt (fuel_run nxt n c) = None"
  using assms(2)
proof (induction n arbitrary: c)
  case 0
  with assms(1) [of c] show ?case by (cases "nxt c") auto
next
  case (Suc n)
  show ?case
  proof (cases "nxt c")
    case None
    then show ?thesis by simp
  next
    case (Some c')
    with assms(1) Suc.prems have "rank c' \<le> n" by fastforce
    with Some Suc.IH show ?thesis by simp
  qed
qed

text \<open>A deterministic relation reaches at most one configuration without successor.\<close>

lemma rtranclp_final_unique:
  assumes det: "\<And>a b c. R a b \<Longrightarrow> R a c \<Longrightarrow> b = c"
    and "R\<^sup>*\<^sup>* a b" and "R\<^sup>*\<^sup>* a c" and "\<And>x. \<not> R b x" and "\<And>x. \<not> R c x"
  shows "b = c"
  using assms(2,3,4)
proof (induction rule: converse_rtranclp_induct)
  case base
  with assms(3) show ?case by (auto elim: converse_rtranclpE)
next
  case (step a a')
  from step.prems(1) show ?case
  proof (cases rule: converse_rtranclpE)
    case base
    with step.hyps(1) assms(5) show ?thesis by blast
  next
    case (step a'')
    with det step.hyps(1) have "a'' = a'" by blast
    with step step.IH step.prems show ?thesis by blast
  qed
qed

text \<open>
  The configurations that a deterministic relation reaches lie on one line, and when a
  measure decreases along it no two of them have the same measure.
\<close>

lemma rtranclp_linear:
  assumes det: "\<And>a b c. R a b \<Longrightarrow> R a c \<Longrightarrow> b = c" and "R\<^sup>*\<^sup>* a b" and "R\<^sup>*\<^sup>* a c"
  shows "R\<^sup>*\<^sup>* b c \<or> R\<^sup>*\<^sup>* c b"
  using assms(2,3)
proof (induction rule: converse_rtranclp_induct)
  case base
  then show ?case by simp
next
  case (step a a')
  from step.prems show ?case
  proof (cases rule: converse_rtranclpE)
    case base
    with step.hyps show ?thesis by (auto intro: converse_rtranclp_into_rtranclp)
  next
    case (step a'')
    with det step.hyps(1) have "a'' = a'" by blast
    with step step.IH show ?thesis by blast
  qed
qed

lemma rtranclp_rank:
  assumes "\<And>a b. R a b \<Longrightarrow> rank b < (rank a :: nat)" and "R\<^sup>*\<^sup>* a b"
  shows "a = b \<or> rank b < rank a"
  using assms(2) by (induction rule: rtranclp_induct) (auto dest: assms(1))

lemma rtranclp_same_rank:
  assumes "\<And>a b c. R a b \<Longrightarrow> R a c \<Longrightarrow> b = c"
    and "\<And>a b. R a b \<Longrightarrow> rank b < (rank a :: nat)"
    and "R\<^sup>*\<^sup>* a b" and "R\<^sup>*\<^sup>* a c" and "rank b = rank c"
  shows "b = c"
proof -
  from assms(1,3,4) have "R\<^sup>*\<^sup>* b c \<or> R\<^sup>*\<^sup>* c b" by (rule rtranclp_linear)
  then show ?thesis
  proof
    assume "R\<^sup>*\<^sup>* b c"
    with assms(2) have "b = c \<or> rank c < rank b" by (rule rtranclp_rank)
    with assms(5) show ?thesis by simp
  next
    assume "R\<^sup>*\<^sup>* c b"
    with assms(2) have "c = b \<or> rank b < rank c" by (rule rtranclp_rank)
    with assms(5) show ?thesis by simp
  qed
qed

lemma fuel_run_unique:
  assumes "\<And>a b. nxt a = Some b \<Longrightarrow> rank b < (rank a :: nat)" and "rank c \<le> n"
    and "(successor nxt)\<^sup>*\<^sup>* c d" and "nxt d = None"
  shows "fuel_run nxt n c = d"
proof (rule rtranclp_final_unique [where R = "successor nxt" and a = c])
  show "(successor nxt)\<^sup>*\<^sup>* c (fuel_run nxt n c)" by (rule fuel_run_rtranclp)
  show "\<not> successor nxt (fuel_run nxt n c) x" for x
    using fuel_run_ends [of nxt rank c n] assms(1,2) by simp
qed (use assms(3,4) in auto)

section \<open>Lists\<close>

lemma prefix_append_drop: "prefix xs ys \<Longrightarrow> xs @ drop (length xs) ys = ys"
  by (auto simp: prefix_def)

lemma prefix_length_drop:
  "prefix xs ys \<Longrightarrow> length (drop (length xs) ys) + length xs = length ys"
  by (auto simp: prefix_def)

lemma not_sublist_Cons: "\<not> sublist xs (y # ys) \<Longrightarrow> \<not> sublist xs ys"
  by (auto simp: sublist_Cons_right)

lemma not_sublist_not_prefix: "\<not> sublist xs ys \<Longrightarrow> \<not> prefix xs ys"
  by (auto simp: sublist_def prefix_def)

lemma sublist_drop_trans: "sublist xs (drop n ys) \<Longrightarrow> sublist xs ys"
  by (meson sublist_drop sublist_order.order_trans)

lemma length_concat_replicate [simp]:
  "length (concat (replicate n xs)) = n * length xs"
  by (induction n) simp_all

section \<open>Sums\<close>

lemma isl_iff: "isl r \<longleftrightarrow> (\<exists>e. r = Inl e)"
  by (cases r) simp_all

lemma not_isl_iff: "\<not> isl r \<longleftrightarrow> (\<exists>x. r = Inr x)"
  by (cases r) simp_all

end
