(* ===== verification/PyStr.thy ===== *)
theory PyStr
  imports Prelude
begin

text \<open>
  The string operations of Python that \<open>src/convert_to_pdf.py\<close> relies on:
  \<open>str.replace\<close> (line 16 derives the name of the HTML file with it), string repetition
  (the rules of \<open>=\<close> signs), \<open>str\<close> of an integer inside an f-string (the two counters
  of the summary) and the format specification \<open>.2f\<close> (the size of a PDF in MB).

  A Python string is modelled as a \<open>string\<close>, the list of the bytes of its UTF-8
  encoding. Every pattern the script searches for is ASCII, and an ASCII byte never
  occurs inside a multi-byte UTF-8 sequence, so replacing on bytes and replacing on
  code points give the same result.
\<close>

section \<open>\<open>str.replace\<close>\<close>

text \<open>
  \<open>replace_scan old new s\<close> is the left-to-right scan of \<open>s.replace(old, new)\<close> for a
  non-empty \<open>old\<close>: at an occurrence of \<open>old\<close> it emits \<open>new\<close> and continues behind the
  occurrence (so occurrences do not overlap), elsewhere it copies one character.
  For the empty pattern Python puts \<open>new\<close> in front of every character and at the end.
\<close>

function replace_scan :: "'a list \<Rightarrow> 'a list \<Rightarrow> 'a list \<Rightarrow> 'a list" where
  "replace_scan old new [] = []"
| "replace_scan old new (c # cs) =
     (if old \<noteq> [] \<and> prefix old (c # cs)
      then new @ replace_scan old new (drop (length old) (c # cs))
      else c # replace_scan old new cs)"
  by pat_completeness auto
termination
  by (relation "measure (\<lambda>(old, new, s). length s)") auto

definition py_replace :: "'a list \<Rightarrow> 'a list \<Rightarrow> 'a list \<Rightarrow> 'a list" where
  "py_replace old new s =
     (if old = [] then new @ concat (map (\<lambda>c. c # new) s) else replace_scan old new s)"

text \<open>
  \<open>count_scan old s\<close> is \<open>s.count(old)\<close> for a non-empty \<open>old\<close>: the number of
  occurrences the scan above replaces.
\<close>

function count_scan :: "'a list \<Rightarrow> 'a list \<Rightarrow> nat" where
  "count_scan old [] = 0"
| "count_scan old (c # cs) =
     (if old \<noteq> [] \<and> prefix old (c # cs)
      then Suc (count_scan old (drop (length old) (c # cs)))
      else count_scan old cs)"
  by pat_completeness auto
termination
  by (relation "measure (\<lambda>(old, s). length s)") auto

text \<open>
  The reference definition of replacement: split at the separator, join with the new
  text. \<open>split_scan sep acc s\<close> is \<open>s.split(sep)\<close> for a non-empty \<open>sep\<close>, with the piece
  read so far in \<open>acc\<close>; \<open>py_join\<close> is \<open>sep.join(pieces)\<close>.
\<close>

function split_scan :: "'a list \<Rightarrow> 'a list \<Rightarrow> 'a list \<Rightarrow> 'a list list" where
  "split_scan sep acc [] = [acc]"
| "split_scan sep acc (c # cs) =
     (if sep \<noteq> [] \<and> prefix sep (c # cs)
      then acc # split_scan sep [] (drop (length sep) (c # cs))
      else split_scan sep (acc @ [c]) cs)"
  by pat_completeness auto
termination
  by (relation "measure (\<lambda>(sep, acc, s). length s)") auto

fun py_join :: "'a list \<Rightarrow> 'a list list \<Rightarrow> 'a list" where
  "py_join sep [] = []"
| "py_join sep [x] = x"
| "py_join sep (x # y # ys) = x @ sep @ py_join sep (y # ys)"

section \<open>Repetition\<close>

text \<open>\<open>s * n\<close>: \<open>n\<close> copies of \<open>s\<close>, none when \<open>n\<close> is negative.\<close>

definition py_repeat :: "'a list \<Rightarrow> int \<Rightarrow> 'a list" where
  "py_repeat s n = concat (replicate (nat n) s)"

section \<open>Numbers in f-strings\<close>

definition digit_char :: "nat \<Rightarrow> char" where
  "digit_char d = ''0123456789'' ! d"

fun str_nat :: "nat \<Rightarrow> string" where
  "str_nat n = (if n < 10 then [digit_char n] else str_nat (n div 10) @ [digit_char (n mod 10)])"

declare str_nat.simps [simp del]

text \<open>\<open>str(i)\<close> for a Python integer, as \<open>{success_count}\<close> formats it.\<close>

definition py_str_int :: "int \<Rightarrow> string" where
  "py_str_int i = (if i < 0 then CHR ''-'' # str_nat (nat (- i)) else str_nat (nat i))"

text \<open>
  \<open>round_half_even n d\<close> is the integer nearest to \<open>n / d\<close>, the even one of two
  equally near: the rounding of \<open>format\<close> on the exact value of a float.
\<close>

definition round_half_even :: "nat \<Rightarrow> nat \<Rightarrow> nat" where
  "round_half_even n d =
     (let q = n div d; r = n mod d
      in if d < 2 * r \<or> (2 * r = d \<and> odd q) then q + 1 else q)"

text \<open>
  \<open>format_2f n d\<close> is \<open>f"{x:.2f}"\<close> for a float \<open>x\<close> whose exact value is \<open>n / d\<close>:
  the hundredths nearest to \<open>x\<close>, printed with two decimals.
\<close>

definition format_2f :: "nat \<Rightarrow> nat \<Rightarrow> string" where
  "format_2f n d =
     (let h = round_half_even (100 * n) d
      in str_nat (h div 100) @ ''.'' @ [digit_char (h div 10 mod 10), digit_char (h mod 10)])"

text \<open>
  \<open>bit_length n\<close> is \<open>n.bit_length()\<close>, the number of binary digits of \<open>n\<close>.
  \<open>nearest_double n\<close> is the value of the double nearest to \<open>n\<close>, the even one of two
  equally near: \<open>n\<close> rounded to 53 significant binary digits. The quotient \<open>n / d\<close> of
  two Python integers is the double nearest to the exact quotient; for a power of two
  \<open>d\<close> its exact value is \<open>nearest_double n / d\<close>, as long as the result is in the
  range of the normal doubles.
\<close>

fun bit_length :: "nat \<Rightarrow> nat" where
  "bit_length n = (if n = 0 then 0 else Suc (bit_length (n div 2)))"

definition nearest_double :: "nat \<Rightarrow> nat" where
  "nearest_double n =
     (let e = bit_length n - 53 in round_half_even n (2 ^ e) * 2 ^ e)"

text \<open>Readers for the printed numbers, used to state the round trips.\<close>

definition digit_val :: "char \<Rightarrow> nat" where
  "digit_val c = of_char c - 48"

definition nat_of_str :: "string \<Rightarrow> nat" where
  "nat_of_str s = foldl (\<lambda>a c. 10 * a + digit_val c) 0 s"

definition int_of_str :: "string \<Rightarrow> int" where
  "int_of_str s =
     (case s of
        [] \<Rightarrow> 0
      | c # cs \<Rightarrow> if c = CHR ''-'' then - int (nat_of_str cs) else int (nat_of_str s))"

section \<open>Facts about \<open>replace_scan\<close>\<close>

lemma replace_scan_no_occ: "\<not> sublist old s \<Longrightarrow> replace_scan old new s = s"
proof (induction s)
  case Nil
  show ?case by simp
next
  case (Cons c cs)
  from Cons.prems have "\<not> prefix old (c # cs)" and "\<not> sublist old cs"
    by (auto simp: sublist_Cons_right)
  with Cons.IH show ?case by simp
qed

lemma replace_scan_at_occ:
  "old \<noteq> [] \<Longrightarrow> replace_scan old new (old @ rest) = new @ replace_scan old new rest"
  by (cases old) simp_all

lemma replace_scan_skip:
  assumes "\<forall>k < length pre. \<not> prefix old (drop k (pre @ rest))"
  shows "replace_scan old new (pre @ rest) = pre @ replace_scan old new rest"
  using assms
proof (induction pre)
  case Nil
  show ?case by simp
next
  case (Cons c pre)
  from Cons.prems have "\<not> prefix old (drop 0 ((c # pre) @ rest))" by blast
  then have here: "\<not> prefix old (c # pre @ rest)" by simp
  have "\<forall>k < length pre. \<not> prefix old (drop k (pre @ rest))"
  proof (intro allI impI)
    fix k assume "k < length pre"
    then have "Suc k < length (c # pre)" by simp
    with Cons.prems have "\<not> prefix old (drop (Suc k) ((c # pre) @ rest))" by blast
    then show "\<not> prefix old (drop k (pre @ rest))" by simp
  qed
  then have "replace_scan old new (pre @ rest) = pre @ replace_scan old new rest"
    by (rule Cons.IH)
  with here show ?case by simp
qed

text \<open>
  An occurrence cannot straddle the end of \<open>base\<close> when the first character of the
  pattern does not occur again inside the pattern (as in \<open>.md\<close>): the last occurrence
  of such a pattern is replaced where it stands.
\<close>

lemma no_straddle:
  assumes hd_fresh: "c \<notin> set t"
    and no_occ: "\<not> sublist (c # t) base"
    and k: "k < length base"
  shows "\<not> prefix (c # t) (drop k (base @ (c # t) @ rest))"
proof
  let ?old = "c # t" and ?u = "drop k base"
  assume "prefix ?old (drop k (base @ ?old @ rest))"
  with k have "prefix ?old (?u @ (?old @ rest))" by simp
  then have "prefix ?old ?u \<or> (\<exists>us. ?old = ?u @ us \<and> prefix us (?old @ rest))"
    by (rule iffD1 [OF prefix_append])
  then consider "prefix ?old ?u" | us where "?old = ?u @ us" "prefix us (?old @ rest)"
    by blast
  then show False
  proof cases
    case 1
    then have "sublist ?old ?u" by (auto simp: prefix_def)
    then have "sublist ?old base" by (rule sublist_drop_trans)
    with no_occ show False by contradiction
  next
    case 2
    from k obtain x u' where u: "?u = x # u'" by (cases ?u) auto
    with 2(1) have t: "t = u' @ us" by simp
    show False
    proof (cases us)
      case Nil
      with 2(1) have "sublist ?old ?u" by simp
      then have "sublist ?old base" by (rule sublist_drop_trans)
      with no_occ show False by contradiction
    next
      case (Cons y us')
      with 2(2) have "y = c" by simp
      with Cons t have "c \<in> set t" by simp
      with hd_fresh show False by contradiction
    qed
  qed
qed

lemma replace_scan_last_occ:
  assumes "c \<notin> set t" and "\<not> sublist (c # t) base"
  shows "replace_scan (c # t) new (base @ (c # t) @ rest) = base @ new @ replace_scan (c # t) new rest"
proof -
  have "\<forall>k < length base. \<not> prefix (c # t) (drop k (base @ (c # t) @ rest))"
  proof (intro allI impI)
    fix k assume "k < length base"
    with assms show "\<not> prefix (c # t) (drop k (base @ (c # t) @ rest))"
      by (rule no_straddle)
  qed
  then have "replace_scan (c # t) new (base @ (c # t) @ rest)
      = base @ replace_scan (c # t) new ((c # t) @ rest)"
    by (rule replace_scan_skip)
  also have "replace_scan (c # t) new ((c # t) @ rest) = new @ replace_scan (c # t) new rest"
    by (rule replace_scan_at_occ) simp
  finally show ?thesis .
qed

text \<open>Replacing a pattern by itself changes nothing; the length of the result.\<close>

lemma replace_scan_same: "new = old \<Longrightarrow> replace_scan old new s = s"
proof (induction old new s rule: replace_scan.induct)
  case (1 old new)
  show ?case by simp
next
  case (2 old new c cs)
  then show ?case by (auto simp: prefix_append_drop)
qed

lemma count_scan_zero_iff: "old \<noteq> [] \<Longrightarrow> count_scan old s = 0 \<longleftrightarrow> \<not> sublist old s"
  by (induction old s rule: count_scan.induct) (auto simp: sublist_Cons_right)

lemma length_replace_scan:
  "int (length (replace_scan old new s)) =
     int (length s) + int (count_scan old s) * (int (length new) - int (length old))"
proof (induction old new s rule: replace_scan.induct)
  case (1 old new)
  show ?case by simp
next
  case (2 old new c cs)
  show ?case
  proof (cases "old \<noteq> [] \<and> prefix old (c # cs)")
    case True
    then have "length (drop (length old) (c # cs)) + length old = length (c # cs)"
      by (intro prefix_length_drop) simp
    with True "2.IH"(1) show ?thesis
      by (simp add: algebra_simps)
  next
    case False
    with "2.IH"(2) show ?thesis by auto
  qed
qed

section \<open>Replacement is split and join\<close>

lemma split_scan_not_Nil [simp]: "split_scan sep acc s \<noteq> []"
  by (induction sep acc s rule: split_scan.induct) auto

lemma py_join_Cons: "ps \<noteq> [] \<Longrightarrow> py_join sep (p # ps) = p @ sep @ py_join sep ps"
  by (cases ps) simp_all

lemma replace_is_split_join_gen:
  "old \<noteq> [] \<Longrightarrow> py_join new (split_scan old acc s) = acc @ replace_scan old new s"
proof (induction old acc s rule: split_scan.induct)
  case (1 sep acc)
  show ?case by simp
next
  case (2 sep acc c cs)
  then show ?case by (auto simp: py_join_Cons)
qed

lemma join_split_gen:
  "sep \<noteq> [] \<Longrightarrow> py_join sep (split_scan sep acc s) = acc @ s"
  by (simp add: replace_is_split_join_gen replace_scan_same)

section \<open>Facts about the printed numbers\<close>

lemma digit_val_digit_char [simp]: "d < 10 \<Longrightarrow> digit_val (digit_char d) = d"
proof -
  assume "d < 10"
  then have "d \<in> {0, 1, 2, 3, 4, 5, 6, 7, 8, 9}" by auto
  then show ?thesis by (auto simp: digit_val_def digit_char_def)
qed

lemma digit_char_is_digit: "d < 10 \<Longrightarrow> digit_char d \<in> set ''0123456789''"
proof -
  assume "d < 10"
  then have "d \<in> {0, 1, 2, 3, 4, 5, 6, 7, 8, 9}" by auto
  then show ?thesis by (auto simp: digit_char_def)
qed

lemma digit_char_zero_iff: "d < 10 \<Longrightarrow> digit_char d = CHR ''0'' \<longleftrightarrow> d = 0"
proof -
  assume "d < 10"
  then have "d \<in> {0, 1, 2, 3, 4, 5, 6, 7, 8, 9}" by auto
  then show ?thesis by (auto simp: digit_char_def)
qed

lemma nat_of_str_snoc: "nat_of_str (s @ [c]) = 10 * nat_of_str s + digit_val c"
  by (simp add: nat_of_str_def)

lemma nat_of_str_str_nat: "nat_of_str (str_nat n) = n"
proof (induction n rule: str_nat.induct)
  case (1 n)
  show ?case
  proof (cases "n < 10")
    case True
    then show ?thesis by (simp add: str_nat.simps [of n] nat_of_str_def)
  next
    case False
    with "1.IH" show ?thesis
      by (simp add: str_nat.simps [of n] nat_of_str_snoc)
  qed
qed

lemma str_nat_digits: "set (str_nat n) \<subseteq> set ''0123456789''"
proof (induction n rule: str_nat.induct)
  case (1 n)
  show ?case
  proof (cases "n < 10")
    case True
    with digit_char_is_digit [of n] show ?thesis by (simp add: str_nat.simps [of n])
  next
    case False
    have "n mod 10 < 10" by simp
    from digit_char_is_digit [OF this] False "1.IH" show ?thesis
      by (simp add: str_nat.simps [of n])
  qed
qed

lemma str_nat_not_Nil [simp]: "str_nat n \<noteq> []"
  by (simp add: str_nat.simps [of n])

lemma hd_str_nat_nonzero: "0 < n \<Longrightarrow> hd (str_nat n) \<noteq> CHR ''0''"
proof (induction n rule: str_nat.induct)
  case (1 n)
  show ?case
  proof (cases "n < 10")
    case True
    with "1.prems" show ?thesis
      by (simp add: str_nat.simps [of n] digit_char_zero_iff)
  next
    case False
    then have "0 < n div 10" by simp
    with False "1.IH" show ?thesis
      by (simp add: str_nat.simps [of n])
  qed
qed

lemma str_nat_inj: "str_nat m = str_nat n \<Longrightarrow> m = n"
  by (metis nat_of_str_str_nat)

lemma hd_str_nat_not_minus: "hd (str_nat n) \<noteq> CHR ''-''"
proof -
  have "hd (str_nat n) \<in> set (str_nat n)" by simp
  with str_nat_digits [of n] have "hd (str_nat n) \<in> set ''0123456789''" by blast
  then show ?thesis by auto
qed

lemma int_of_str_py_str_int: "int_of_str (py_str_int i) = i"
proof (cases "i < 0")
  case True
  then show ?thesis by (simp add: int_of_str_def py_str_int_def nat_of_str_str_nat)
next
  case False
  obtain c cs where s: "str_nat (nat i) = c # cs" by (cases "str_nat (nat i)") auto
  with hd_str_nat_not_minus [of "nat i"] have "c \<noteq> CHR ''-''" by simp
  with False s nat_of_str_str_nat [of "nat i"] show ?thesis
    by (simp add: int_of_str_def py_str_int_def)
qed

lemma round_half_even_error:
  assumes "0 < d"
  shows "2 * \<bar>int (round_half_even n d) * int d - int n\<bar> \<le> int d"
proof -
  define q r where "q = n div d" and "r = n mod d"
  have n: "int n = int q * int d + int r"
    unfolding q_def r_def by (metis div_mult_mod_eq of_nat_add of_nat_mult)
  have r: "r < d" using assms by (simp add: r_def)
  show ?thesis
  proof (cases "d < 2 * r \<or> (2 * r = d \<and> odd q)")
    case True
    then have "round_half_even n d = q + 1"
      by (simp add: round_half_even_def Let_def q_def r_def)
    with n r True show ?thesis by (auto simp: algebra_simps)
  next
    case False
    then have "round_half_even n d = q"
      by (auto simp add: round_half_even_def Let_def q_def r_def)
    with n r False show ?thesis by (auto simp: algebra_simps)
  qed
qed

lemma round_half_even_one [simp]: "round_half_even n (Suc 0) = n"
  by (simp add: round_half_even_def)

section \<open>Facts about doubles\<close>

declare bit_length.simps [simp del]

lemma bit_length_le: "n < 2 ^ k \<Longrightarrow> bit_length n \<le> k"
proof (induction k arbitrary: n)
  case 0
  then show ?case by (simp add: bit_length.simps)
next
  case (Suc k)
  from Suc.prems have "n div 2 < 2 ^ k" by auto
  with Suc.IH [of "n div 2"] show ?case by (subst bit_length.simps) simp
qed

text \<open>Below \<open>2 ^ 53\<close> every integer is a double.\<close>

lemma nearest_double_exact [simp]: "n < 9007199254740992 \<Longrightarrow> nearest_double n = n"
  using bit_length_le [of n 53] by (simp add: nearest_double_def)

text \<open>The nearest double is at most half a unit in the last place away.\<close>

lemma nearest_double_error:
  "2 * \<bar>int (nearest_double n) - int n\<bar> \<le> 2 ^ (bit_length n - 53)"
  using round_half_even_error [of "2 ^ (bit_length n - 53)" n]
  by (simp add: nearest_double_def Let_def)

lemma round_half_even_tie:
  "2 * (n mod d) = d \<Longrightarrow> even (round_half_even n d)"
  by (auto simp: round_half_even_def Let_def)

lemma round_half_even_exact: "0 < d \<Longrightarrow> round_half_even (q * d) d = q"
  by (simp add: round_half_even_def Let_def)

end
