(* ===== verification/PyExn.thy ===== *)
theory PyExn
  imports Prelude
begin

text \<open>
  Python exceptions as far as \<open>markdown_to_pdf\<close> depends on them: its \<open>try\<close> statement
  (lines 40 to 58 of \<open>src/convert_to_pdf.py\<close>) has the clauses \<open>except ImportError\<close> and
  \<open>except Exception as e\<close>, in this order, and which clause handles a raised exception
  is decided by the class of the exception and the subclass relation.

  \<open>exn_class\<close> holds the built-in classes that the calls of the script can raise and,
  with \<open>Derived name base\<close>, any class defined by a library (WeasyPrint defines its
  own). Every class has one direct base class; multiple inheritance is not modelled.
  An exception is its class and the text that \<open>str(e)\<close> returns.
\<close>

section \<open>Classes\<close>

datatype exn_class =
    BaseException
  | Exception
  | SystemExit
  | KeyboardInterrupt
  | ImportError
  | ModuleNotFoundError
  | OSError
  | FileNotFoundError
  | PermissionError
  | IsADirectoryError
  | NotADirectoryError
  | ValueError
  | UnicodeError
  | UnicodeDecodeError
  | RuntimeError
  | Derived string exn_class

datatype exn = Exn (exn_class_of: exn_class) (exn_str: string)

fun base_class :: "exn_class \<Rightarrow> exn_class option" where
  "base_class BaseException = None"
| "base_class Exception = Some BaseException"
| "base_class SystemExit = Some BaseException"
| "base_class KeyboardInterrupt = Some BaseException"
| "base_class ImportError = Some Exception"
| "base_class ModuleNotFoundError = Some ImportError"
| "base_class OSError = Some Exception"
| "base_class FileNotFoundError = Some OSError"
| "base_class PermissionError = Some OSError"
| "base_class IsADirectoryError = Some OSError"
| "base_class NotADirectoryError = Some OSError"
| "base_class ValueError = Some Exception"
| "base_class UnicodeError = Some ValueError"
| "base_class UnicodeDecodeError = Some UnicodeError"
| "base_class RuntimeError = Some Exception"
| "base_class (Derived name b) = Some b"

text \<open>The distance of a class from \<open>BaseException\<close>: what shrinks along \<open>base_class\<close>.\<close>

fun depth :: "exn_class \<Rightarrow> nat" where
  "depth BaseException = 0"
| "depth Exception = 1"
| "depth SystemExit = 1"
| "depth KeyboardInterrupt = 1"
| "depth ImportError = 2"
| "depth ModuleNotFoundError = 3"
| "depth OSError = 2"
| "depth FileNotFoundError = 3"
| "depth PermissionError = 3"
| "depth IsADirectoryError = 3"
| "depth NotADirectoryError = 3"
| "depth ValueError = 2"
| "depth UnicodeError = 3"
| "depth UnicodeDecodeError = 4"
| "depth RuntimeError = 2"
| "depth (Derived name b) = Suc (depth b)"

lemma depth_base_class: "base_class c = Some b \<Longrightarrow> depth c = Suc (depth b)"
  by (cases c) auto

text \<open>
  \<open>mro c\<close> is the method resolution order of \<open>c\<close>: the class, its base, the base of
  that, up to \<open>BaseException\<close>. \<open>issubclass\<close> and \<open>isinstance\<close> are Python's.
\<close>

function mro :: "exn_class \<Rightarrow> exn_class list" where
  "mro c = (case base_class c of None \<Rightarrow> [c] | Some b \<Rightarrow> c # mro b)"
  by pat_completeness auto
termination
  by (relation "measure depth") (auto simp: depth_base_class)

declare mro.simps [simp del]

definition issubclass :: "exn_class \<Rightarrow> exn_class \<Rightarrow> bool" where
  "issubclass c d \<longleftrightarrow> d \<in> set (mro c)"

definition isinstance :: "exn \<Rightarrow> exn_class \<Rightarrow> bool" where
  "isinstance e d \<longleftrightarrow> issubclass (exn_class_of e) d"

text \<open>
  The classes outside \<open>Exception\<close> are \<open>BaseException\<close> itself, \<open>SystemExit\<close>,
  \<open>KeyboardInterrupt\<close> and what derives from them.
\<close>

fun escapes :: "exn_class \<Rightarrow> bool" where
  "escapes BaseException = True"
| "escapes SystemExit = True"
| "escapes KeyboardInterrupt = True"
| "escapes (Derived name b) = escapes b"
| "escapes c = False"

section \<open>The subclass relation is an order with top \<open>BaseException\<close>\<close>

lemma mro_Cons: "\<exists>cs. mro c = c # cs"
  by (cases "base_class c") (simp_all add: mro.simps [of c])

lemma mro_base: "base_class c = Some b \<Longrightarrow> mro c = c # mro b"
  by (simp add: mro.simps [of c])

lemma mro_root: "base_class c = None \<Longrightarrow> mro c = [c]"
  by (simp add: mro.simps [of c])

lemma self_in_mro [simp]: "c \<in> set (mro c)"
  using mro_Cons [of c] by auto

lemma mro_depth: "d \<in> set (mro c) \<Longrightarrow> d = c \<or> depth d < depth c"
proof (induction c rule: mro.induct)
  case (1 c)
  show ?case
  proof (cases "base_class c")
    case None
    with "1.prems" show ?thesis by (simp add: mro_root)
  next
    case (Some b)
    with "1.prems" have "d = c \<or> d \<in> set (mro b)" by (simp add: mro_base)
    with "1.IH" [OF Some] depth_base_class [OF Some] show ?thesis by auto
  qed
qed

lemma mro_trans: "d \<in> set (mro c) \<Longrightarrow> set (mro d) \<subseteq> set (mro c)"
proof (induction c rule: mro.induct)
  case (1 c)
  show ?case
  proof (cases "base_class c")
    case None
    with "1.prems" show ?thesis by (simp add: mro_root)
  next
    case (Some b)
    with "1.prems" have "d = c \<or> d \<in> set (mro b)" by (simp add: mro_base)
    with "1.IH" [OF Some] Some show ?thesis by (auto simp: mro_base)
  qed
qed

lemma BaseException_in_mro [simp]: "BaseException \<in> set (mro c)"
proof (induction c rule: mro.induct)
  case (1 c)
  show ?case
  proof (cases "base_class c")
    case None
    then have "c = BaseException" by (cases c) auto
    then show ?thesis by simp
  next
    case (Some b)
    with "1.IH" show ?thesis by (simp add: mro_base)
  qed
qed

lemma issubclass_refl [simp]: "issubclass c c"
  by (simp add: issubclass_def)

lemma issubclass_trans: "issubclass a b \<Longrightarrow> issubclass b c \<Longrightarrow> issubclass a c"
  using mro_trans by (auto simp: issubclass_def)

lemma issubclass_antisym: "issubclass a b \<Longrightarrow> issubclass b a \<Longrightarrow> a = b"
  using mro_depth [of a b] mro_depth [of b a] by (auto simp: issubclass_def)

lemma issubclass_BaseException [simp]: "issubclass c BaseException"
  by (simp add: issubclass_def)

lemma issubclass_base: "base_class c = Some b \<Longrightarrow> issubclass c d \<longleftrightarrow> d = c \<or> issubclass b d"
  by (auto simp: issubclass_def mro_base)

lemma issubclass_Derived [simp]:
  "issubclass (Derived name b) d \<longleftrightarrow> d = Derived name b \<or> issubclass b d"
  by (rule issubclass_base) simp

instantiation exn_class :: order
begin

definition less_eq_exn_class :: "exn_class \<Rightarrow> exn_class \<Rightarrow> bool" where
  "less_eq_exn_class c d \<longleftrightarrow> issubclass c d"

definition less_exn_class :: "exn_class \<Rightarrow> exn_class \<Rightarrow> bool" where
  "less_exn_class c d \<longleftrightarrow> issubclass c d \<and> \<not> issubclass d c"

instance
proof
  fix x y z :: exn_class
  show "x < y \<longleftrightarrow> x \<le> y \<and> \<not> y \<le> x"
    by (simp add: less_exn_class_def less_eq_exn_class_def)
  show "x \<le> x"
    by (simp add: less_eq_exn_class_def)
  show "x \<le> y \<Longrightarrow> y \<le> z \<Longrightarrow> x \<le> z"
    unfolding less_eq_exn_class_def by (rule issubclass_trans)
  show "x \<le> y \<Longrightarrow> y \<le> x \<Longrightarrow> x = y"
    unfolding less_eq_exn_class_def by (rule issubclass_antisym)
qed

end

section \<open>Which classes the two \<open>except\<close> clauses catch\<close>

lemma issubclass_Exception_iff: "issubclass c Exception \<longleftrightarrow> \<not> escapes c"
proof (induction c)
  case (Derived name b)
  then show ?case by simp
qed (simp_all add: issubclass_def mro.simps)

lemma ImportError_is_Exception:
  "issubclass c ImportError \<Longrightarrow> issubclass c Exception"
  by (erule issubclass_trans) (simp add: issubclass_def mro.simps)

lemma OSError_is_Exception: "issubclass c OSError \<Longrightarrow> issubclass c Exception"
  by (erule issubclass_trans) (simp add: issubclass_def mro.simps)

end
