(* ===== verification/FileSys.thy ===== *)
theory FileSys
  imports PyStr PyExn
begin

text \<open>
  The part of the file system that \<open>src/convert_to_pdf.py\<close> observes and changes, and
  the four calls it makes on it: \<open>os.chdir\<close> (line 64), \<open>Path(p).exists()\<close> (lines 81
  and 100), \<open>os.remove\<close> (line 48) and \<open>Path(p).stat().st_size\<close> (line 101).

  The state is the current directory and a map from absolute paths to what \<open>stat\<close>
  reports: the type of the entry and its size. Paths are compared as strings: \<open>.\<close>,
  \<open>..\<close>, repeated slashes, symbolic and hard links are not resolved, and permissions
  are not modelled. The operations work on every record that extends \<open>fs\<close>, so they
  apply to the state of the whole program unchanged.
\<close>

section \<open>State\<close>

datatype ftype = Regular | Directory

record stat_result =
  st_type :: ftype
  st_size :: nat

record fs =
  cwd :: path
  files :: "path \<rightharpoonup> stat_result"

text \<open>
  A relative path is resolved against the current directory, as \<open>posixpath.join\<close>
  joins two components.
\<close>

definition join_path :: "path \<Rightarrow> path \<Rightarrow> path" where
  "join_path a b =
     (if b \<noteq> [] \<and> hd b = CHR ''/'' then b
      else if a = [] \<or> last a = CHR ''/'' then a @ b
      else a @ ''/'' @ b)"

definition abspath :: "'a fs_scheme \<Rightarrow> path \<Rightarrow> path" where
  "abspath s p = join_path (cwd s) p"

definition lookup :: "'a fs_scheme \<Rightarrow> path \<Rightarrow> stat_result option" where
  "lookup s p = files s (abspath s p)"

definition exists_at :: "'a fs_scheme \<Rightarrow> path \<Rightarrow> bool" where
  "exists_at s p \<longleftrightarrow> lookup s p \<noteq> None"

definition is_dir :: "'a fs_scheme \<Rightarrow> path \<Rightarrow> bool" where
  "is_dir s p \<longleftrightarrow>
     (case lookup s p of None \<Rightarrow> False | Some st \<Rightarrow> st_type st = Directory)"

text \<open>The current directory is an existing directory.\<close>

definition cwd_ok :: "'a fs_scheme \<Rightarrow> bool" where
  "cwd_ok s \<longleftrightarrow>
     (case files s (cwd s) of None \<Rightarrow> False | Some st \<Rightarrow> st_type st = Directory)"

section \<open>Errors\<close>

text \<open>
  The text of an \<open>OSError\<close> with a file name, as \<open>str(e)\<close> prints it. The file name is
  put between single quotes, which is its \<open>repr\<close> when it holds printable ASCII
  without quotes and backslashes.
\<close>

definition os_error_text :: "nat \<Rightarrow> string \<Rightarrow> path \<Rightarrow> string" where
  "os_error_text errno strerror p =
     ''[Errno '' @ str_nat errno @ ''] '' @ strerror @ '': '' @ [CHR 0x27] @ p @ [CHR 0x27]"

definition ENOENT :: "path \<Rightarrow> exn" where
  "ENOENT p = Exn FileNotFoundError (os_error_text 2 ''No such file or directory'' p)"

definition EISDIR :: "path \<Rightarrow> exn" where
  "EISDIR p = Exn IsADirectoryError (os_error_text 21 ''Is a directory'' p)"

definition ENOTDIR :: "path \<Rightarrow> exn" where
  "ENOTDIR p = Exn NotADirectoryError (os_error_text 20 ''Not a directory'' p)"

section \<open>Operations\<close>

text \<open>\<open>Path(p).exists()\<close>: whether \<open>stat\<close> finds an entry.\<close>

definition path_exists :: "path \<Rightarrow> ('a fs_scheme, bool) state" where
  "path_exists p = State (\<lambda>s. (exists_at s p, s))"

text \<open>\<open>Path(p).stat()\<close>: the entry, or \<open>FileNotFoundError\<close>.\<close>

definition path_stat :: "path \<Rightarrow> ('a fs_scheme, exn + stat_result) state" where
  "path_stat p = State (\<lambda>s.
     case lookup s p of
       None \<Rightarrow> (Inl (ENOENT p), s)
     | Some st \<Rightarrow> (Inr st, s))"

text \<open>
  \<open>os.remove(p)\<close>: unlinks a file; raises \<open>FileNotFoundError\<close> when there is no entry
  and refuses a directory (with \<open>IsADirectoryError\<close> on Linux; macOS reports
  \<open>PermissionError\<close>, which is an \<open>OSError\<close> as well). A failed call changes nothing.
\<close>

definition os_remove :: "path \<Rightarrow> ('a fs_scheme, exn + unit) state" where
  "os_remove p = State (\<lambda>s.
     case lookup s p of
       None \<Rightarrow> (Inl (ENOENT p), s)
     | Some st \<Rightarrow>
         if st_type st = Directory then (Inl (EISDIR p), s)
         else (Inr (), s\<lparr>files := (files s)(abspath s p := None)\<rparr>))"

text \<open>
  \<open>os.chdir(p)\<close>: makes an existing directory the current one; \<open>FileNotFoundError\<close>
  when there is no entry, \<open>NotADirectoryError\<close> when the entry is a file.
\<close>

definition os_chdir :: "path \<Rightarrow> ('a fs_scheme, exn + unit) state" where
  "os_chdir p = State (\<lambda>s.
     case lookup s p of
       None \<Rightarrow> (Inl (ENOENT p), s)
     | Some st \<Rightarrow>
         if st_type st = Directory then (Inr (), s\<lparr>cwd := abspath s p\<rparr>)
         else (Inl (ENOTDIR p), s))"

text \<open>A directory with an HTML file and a Markdown file, to apply the lemmas to.\<close>

definition sample_fs :: fs where
  "sample_fs =
     \<lparr>cwd = ''/w'',
      files = [''/w'' \<mapsto> \<lparr>st_type = Directory, st_size = 4096\<rparr>,
               ''/w/a.html'' \<mapsto> \<lparr>st_type = Regular, st_size = 10\<rparr>,
               ''/w/a.md'' \<mapsto> \<lparr>st_type = Regular, st_size = 20\<rparr>]\<rparr>"

lemmas fs_defs [py_defs] =
  path_exists_def path_stat_def os_remove_def os_chdir_def
  lookup_def exists_at_def abspath_def join_path_def
  ENOENT_def EISDIR_def ENOTDIR_def os_error_text_def

section \<open>Paths\<close>

lemma join_path_absolute [simp]: "join_path a (CHR ''/'' # p) = CHR ''/'' # p"
  by (simp add: join_path_def)

lemma join_path_relative:
  "a \<noteq> [] \<Longrightarrow> last a \<noteq> CHR ''/'' \<Longrightarrow> b \<noteq> [] \<Longrightarrow> hd b \<noteq> CHR ''/'' \<Longrightarrow>
   join_path a b = a @ ''/'' @ b"
  by (simp add: join_path_def)

text \<open>In a fixed directory, distinct relative names are distinct files.\<close>

lemma join_path_inj:
  assumes "hd p \<noteq> CHR ''/''" and "hd q \<noteq> CHR ''/''" and "join_path a p = join_path a q"
  shows "p = q"
  using assms by (auto simp: join_path_def split: if_splits)

lemma abspath_inj:
  "hd p \<noteq> CHR ''/'' \<Longrightarrow> hd q \<noteq> CHR ''/'' \<Longrightarrow> abspath s p = abspath s q \<Longrightarrow> p = q"
  unfolding abspath_def by (rule join_path_inj)

lemma abspath_cong [frame_simps]: "cwd s' = cwd s \<Longrightarrow> abspath s' p = abspath s p"
  by (simp add: abspath_def)

section \<open>What each operation does\<close>

lemma os_error_isinstance [simp]:
  "isinstance (ENOENT p) Exception" "isinstance (EISDIR p) Exception"
  "isinstance (ENOTDIR p) Exception"
  "\<not> isinstance (ENOENT p) ImportError" "\<not> isinstance (EISDIR p) ImportError"
  "\<not> isinstance (ENOTDIR p) ImportError"
  by (simp_all add: ENOENT_def EISDIR_def ENOTDIR_def isinstance_def issubclass_def mro.simps)

lemma is_dir_iff: "is_dir s p \<longleftrightarrow> (\<exists>st. lookup s p = Some st \<and> st_type st = Directory)"
  by (simp add: is_dir_def split: option.splits)

lemma is_dir_exists: "is_dir s p \<Longrightarrow> exists_at s p"
  by (auto simp: is_dir_iff exists_at_def)

lemma path_exists_run [simp]: "run_state (path_exists p) s = (exists_at s p, s)"
  by (simp add: path_exists_def)

lemma os_remove_missing:
  "\<not> exists_at s p \<Longrightarrow> run_state (os_remove p) s = (Inl (ENOENT p), s)"
  by (simp add: os_remove_def exists_at_def)

lemma os_remove_dir:
  "is_dir s p \<Longrightarrow> run_state (os_remove p) s = (Inl (EISDIR p), s)"
  by (auto simp: os_remove_def is_dir_iff)

lemma os_remove_file:
  "exists_at s p \<Longrightarrow> \<not> is_dir s p \<Longrightarrow>
   run_state (os_remove p) s = (Inr (), s\<lparr>files := (files s)(abspath s p := None)\<rparr>)"
  by (auto simp: os_remove_def exists_at_def is_dir_iff)

lemma os_remove_cases:
  obtains (missing) "\<not> exists_at s p" and "run_state (os_remove p) s = (Inl (ENOENT p), s)"
  | (dir) "is_dir s p" and "run_state (os_remove p) s = (Inl (EISDIR p), s)"
  | (regular) "exists_at s p" and "\<not> is_dir s p"
      and "run_state (os_remove p) s = (Inr (), s\<lparr>files := (files s)(abspath s p := None)\<rparr>)"
  using os_remove_missing os_remove_dir os_remove_file by blast

lemma os_remove_failed: "run_state (os_remove p) s = (Inl e, s') \<Longrightarrow> s' = s"
  by (rule os_remove_cases [where s = s and p = p]) auto

lemma os_remove_raises_OSError:
  "run_state (os_remove p) s = (Inl e, s') \<Longrightarrow> isinstance e OSError"
  by (rule os_remove_cases [where s = s and p = p])
    (auto simp: ENOENT_def EISDIR_def isinstance_def issubclass_def mro.simps)

lemma os_remove_ok_gone:
  "run_state (os_remove p) s = (Inr u, s') \<Longrightarrow> \<not> exists_at s' p"
  by (rule os_remove_cases [where s = s and p = p]) (auto simp: exists_at_def lookup_def abspath_def)

lemma os_remove_ok_was_file:
  "run_state (os_remove p) s = (Inr u, s') \<Longrightarrow> exists_at s p \<and> \<not> is_dir s p"
  by (rule os_remove_cases [where s = s and p = p]) auto

lemma os_remove_cwd [frame_simps]: "cwd (state_of (os_remove p) s) = cwd s"
  by (rule os_remove_cases [where s = s and p = p]) auto

lemma os_remove_other:
  "abspath s q \<noteq> abspath s p \<Longrightarrow> lookup (state_of (os_remove p) s) q = lookup s q"
  by (rule os_remove_cases [where s = s and p = p]) (auto simp: lookup_def abspath_def)

lemma os_remove_twice:
  "run_state (os_remove p) s = (Inr u, s') \<Longrightarrow> run_state (os_remove p) s' = (Inl (ENOENT p), s')"
  by (rule os_remove_missing) (rule os_remove_ok_gone)

lemma os_chdir_ok:
  "is_dir s p \<Longrightarrow> run_state (os_chdir p) s = (Inr (), s\<lparr>cwd := abspath s p\<rparr>)"
  by (auto simp: os_chdir_def is_dir_iff)

lemma os_chdir_missing:
  "\<not> exists_at s p \<Longrightarrow> run_state (os_chdir p) s = (Inl (ENOENT p), s)"
  by (simp add: os_chdir_def exists_at_def)

lemma os_chdir_file:
  "exists_at s p \<Longrightarrow> \<not> is_dir s p \<Longrightarrow> run_state (os_chdir p) s = (Inl (ENOTDIR p), s)"
  by (auto simp: os_chdir_def exists_at_def is_dir_iff)

lemma os_chdir_cases:
  obtains (ok) "is_dir s p" and "run_state (os_chdir p) s = (Inr (), s\<lparr>cwd := abspath s p\<rparr>)"
  | (missing) "\<not> exists_at s p" and "run_state (os_chdir p) s = (Inl (ENOENT p), s)"
  | (regular) "exists_at s p" and "\<not> is_dir s p" and "run_state (os_chdir p) s = (Inl (ENOTDIR p), s)"
  using os_chdir_ok os_chdir_missing os_chdir_file by blast

lemma os_chdir_failed: "run_state (os_chdir p) s = (Inl e, s') \<Longrightarrow> s' = s \<and> \<not> is_dir s p"
  by (rule os_chdir_cases [where s = s and p = p]) (auto dest: is_dir_exists)

lemma os_chdir_ok_cwd: "run_state (os_chdir p) s = (Inr u, s') \<Longrightarrow> cwd s' = abspath s p"
  by (rule os_chdir_cases [where s = s and p = p]) auto

lemma os_chdir_files [frame_simps]: "files (state_of (os_chdir p) s) = files s"
  by (rule os_chdir_cases [where s = s and p = p]) auto

section \<open>The current directory exists\<close>

lemma os_chdir_cwd_ok: "run_state (os_chdir p) s = (Inr u, s') \<Longrightarrow> cwd_ok s'"
  by (rule os_chdir_cases [where s = s and p = p]) (auto simp: cwd_ok_def is_dir_iff lookup_def split: option.splits)

lemma os_remove_cwd_ok: "cwd_ok s \<Longrightarrow> cwd_ok (state_of (os_remove p) s)"
  by (rule os_remove_cases [where s = s and p = p]) (auto simp: cwd_ok_def is_dir_iff lookup_def split: option.splits)

section \<open>The effect of a successful call\<close>

text \<open>
  When \<open>os.remove\<close> returns, the path was a file that is not a directory, it does
  not exist afterwards, the current directory is the same and every other path is as
  it was.
\<close>

theorem os_remove_ok_effect:
  assumes "run_state (os_remove p) s = (Inr u, s')"
  shows "exists_at s p \<and> \<not> is_dir s p \<and> \<not> exists_at s' p \<and> cwd s' = cwd s \<and>
         (\<forall>q. abspath s q \<noteq> abspath s p \<longrightarrow> lookup s' q = lookup s q)"
proof -
  from assms have "s' = state_of (os_remove p) s" by simp
  with os_remove_ok_was_file [OF assms] os_remove_ok_gone [OF assms] show ?thesis
    by (simp add: os_remove_cwd os_remove_other)
qed

theorem os_remove_ok_effect_witness:
  "\<exists>s'. run_state (os_remove ''a.html'') sample_fs = (Inr (), s') \<and>
     exists_at sample_fs ''a.html'' \<and> \<not> is_dir sample_fs ''a.html'' \<and>
     \<not> exists_at s' ''a.html'' \<and> cwd s' = cwd sample_fs \<and>
     (\<forall>q. abspath sample_fs q \<noteq> abspath sample_fs ''a.html''
          \<longrightarrow> lookup s' q = lookup sample_fs q) \<and>
     exists_at s' ''a.md''"
proof -
  obtain s' where run: "run_state (os_remove ''a.html'') sample_fs = (Inr (), s')"
    and md: "exists_at s' ''a.md''"
    by (simp add: fs_defs sample_fs_def)
  from os_remove_ok_effect [OF run] run md show ?thesis by blast
qed

text \<open>
  When \<open>os.chdir\<close> returns, the path was a directory and is the current directory
  afterwards; no file has changed, and relative paths are resolved against the new
  directory.
\<close>

theorem os_chdir_ok_effect:
  assumes "run_state (os_chdir p) s = (Inr u, s')"
  shows "is_dir s p \<and> cwd s' = abspath s p \<and> files s' = files s \<and> cwd_ok s' \<and>
         (\<forall>q. lookup s' q = files s (join_path (abspath s p) q))"
proof -
  from assms have s': "s' = state_of (os_chdir p) s" by simp
  from assms have "is_dir s p \<and> cwd s' = abspath s p"
    by (rule_tac os_chdir_cases [where s = s and p = p]) auto
  with os_chdir_cwd_ok [OF assms] s' show ?thesis
    by (simp add: os_chdir_files lookup_def abspath_def)
qed

theorem os_chdir_ok_effect_witness:
  "\<exists>s'. run_state (os_chdir ''/w'') (sample_fs\<lparr>cwd := ''/''\<rparr>) = (Inr (), s') \<and>
     is_dir (sample_fs\<lparr>cwd := ''/''\<rparr>) ''/w'' \<and> cwd s' = abspath (sample_fs\<lparr>cwd := ''/''\<rparr>) ''/w'' \<and>
     files s' = files (sample_fs\<lparr>cwd := ''/''\<rparr>) \<and> cwd_ok s' \<and>
     (\<forall>q. lookup s' q
          = files (sample_fs\<lparr>cwd := ''/''\<rparr>) (join_path (abspath (sample_fs\<lparr>cwd := ''/''\<rparr>) ''/w'') q)) \<and>
     \<not> exists_at (sample_fs\<lparr>cwd := ''/''\<rparr>) ''a.md'' \<and> exists_at s' ''a.md''"
proof -
  obtain s' where run: "run_state (os_chdir ''/w'') (sample_fs\<lparr>cwd := ''/''\<rparr>) = (Inr (), s')"
    and md: "exists_at s' ''a.md''"
    by (simp add: fs_defs sample_fs_def)
  have before: "\<not> exists_at (sample_fs\<lparr>cwd := ''/''\<rparr>) ''a.md''"
    by (simp add: fs_defs sample_fs_def)
  from os_chdir_ok_effect [OF run] run md before show ?thesis by blast
qed

end
