(* ===== verification/World.thy ===== *)
theory World
  imports FileSys
begin

text \<open>
  The state the script runs in and the two external tools it calls.

  \<open>world\<close> extends the file system by what the script has written to standard
  output: \<open>out\<close> holds the argument of every \<open>print\<close> call so far, in order, and
  \<open>stdout_text\<close> is the text a terminal shows for it.

  The tools are parameters of the model. \<open>tools\<close> holds, for each of the three calls
  that leave the script, a function that says what the call returns or raises and how
  it changes the files: \<open>subprocess.run\<close> (line 31 of \<open>src/convert_to_pdf.py\<close>),
  \<open>from weasyprint import HTML\<close> (line 41) and \<open>HTML(html).write_pdf(pdf)\<close> (line 44).
  A tool sees the current directory and the files and returns new files; it cannot
  move the script to another directory and it does not write to the script's standard
  output (\<open>subprocess.run\<close> captures the output of the child process). Theorems that
  hold for every tool quantify over \<open>tools\<close>; theorems that need a tool to behave
  assume a contract of it.
\<close>

section \<open>Standard output\<close>

record world = fs +
  out :: "string list"

definition py_print :: "string \<Rightarrow> (world, unit) state" where
  "py_print s = State_Monad.update (\<lambda>w. w\<lparr>out := out w @ [s]\<rparr>)"

abbreviation printed :: "world \<Rightarrow> string list \<Rightarrow> world" where
  "printed w ls \<equiv> w\<lparr>out := out w @ ls\<rparr>"

definition stdout_text :: "world \<Rightarrow> string" where
  "stdout_text w = concat (map (\<lambda>s. s @ [CHR 0x0A]) (out w))"

section \<open>External tools\<close>

type_synonym files = "path \<rightharpoonup> stat_result"

record completed_process =
  returncode :: int
  proc_stdout :: string
  proc_stderr :: string

record tools =
  run_process :: "argv \<Rightarrow> path \<Rightarrow> files \<Rightarrow> (exn + completed_process) \<times> files"
  import_module :: "exn + unit"
  write_pdf :: "path \<Rightarrow> path \<Rightarrow> path \<Rightarrow> files \<Rightarrow> (exn + unit) \<times> files"

text \<open>\<open>subprocess.run(args, capture_output=True, text=True)\<close> in the current directory.\<close>

definition subprocess_run :: "tools \<Rightarrow> argv \<Rightarrow> (world, exn + completed_process) state" where
  "subprocess_run T args = State (\<lambda>w.
     case run_process T args (cwd w) (files w) of (r, fs') \<Rightarrow> (r, w\<lparr>files := fs'\<rparr>))"

text \<open>\<open>from weasyprint import HTML\<close>: succeeds or raises, and changes no file.\<close>

definition import_weasyprint :: "tools \<Rightarrow> (world, exn + unit) state" where
  "import_weasyprint T = State_Monad.return (import_module T)"

text \<open>\<open>HTML(html_file).write_pdf(pdf_file)\<close> in the current directory.\<close>

definition html_write_pdf :: "tools \<Rightarrow> path \<Rightarrow> path \<Rightarrow> (world, exn + unit) state" where
  "html_write_pdf T html_file pdf_file = State (\<lambda>w.
     case write_pdf T html_file pdf_file (cwd w) (files w) of (r, fs') \<Rightarrow> (r, w\<lparr>files := fs'\<rparr>))"

section \<open>Relations between the state before and after\<close>

text \<open>
  \<open>extends w w'\<close>: from \<open>w\<close> to \<open>w'\<close> the script stayed in its directory and only
  added to its output. \<open>same_files w w'\<close>: moreover no file changed.
\<close>

definition extends :: "world \<Rightarrow> world \<Rightarrow> bool" where
  "extends w w' \<longleftrightarrow> cwd w' = cwd w \<and> prefix (out w) (out w')"

definition same_files :: "world \<Rightarrow> world \<Rightarrow> bool" where
  "same_files w w' \<longleftrightarrow> extends w w' \<and> files w' = files w"

lemmas world_defs [py_defs] =
  py_print_def subprocess_run_def import_weasyprint_def html_write_pdf_def

section \<open>What each call does to the state\<close>

lemma py_print_run [simp]: "run_state (py_print s) w = ((), printed w [s])"
  by (simp add: py_print_def)

lemma import_weasyprint_run [simp]:
  "run_state (import_weasyprint T) w = (import_module T, w)"
  by (simp add: import_weasyprint_def)

lemma subprocess_run_out [frame_simps]: "out (state_of (subprocess_run T args) w) = out w"
  by (simp add: subprocess_run_def split: prod.splits)

lemma subprocess_run_cwd [frame_simps]: "cwd (state_of (subprocess_run T args) w) = cwd w"
  by (simp add: subprocess_run_def split: prod.splits)

lemma html_write_pdf_out [frame_simps]: "out (state_of (html_write_pdf T h p) w) = out w"
  by (simp add: html_write_pdf_def split: prod.splits)

lemma html_write_pdf_cwd [frame_simps]: "cwd (state_of (html_write_pdf T h p) w) = cwd w"
  by (simp add: html_write_pdf_def split: prod.splits)

lemma os_remove_out [frame_simps]: "out (state_of (os_remove p) (w :: world)) = out w"
  by (rule os_remove_cases [where s = w and p = p]) auto

lemma os_chdir_out [frame_simps]: "out (state_of (os_chdir p) (w :: world)) = out w"
  by (rule os_chdir_cases [where s = w and p = p]) auto

section \<open>The relations are preorders and hold of each call\<close>

lemma extends_refl [simp]: "extends w w"
  by (simp add: extends_def)

lemma extends_trans: "extends w w' \<Longrightarrow> extends w' w'' \<Longrightarrow> extends w w''"
  by (auto simp: extends_def)

lemma reflp_extends [simp]: "reflp extends"
  by (simp add: reflp_def)

lemma transp_extends [simp]: "transp extends"
  by (blast intro: transpI extends_trans)

lemma same_files_refl [simp]: "same_files w w"
  by (simp add: same_files_def)

lemma reflp_same_files [simp]: "reflp same_files"
  by (simp add: reflp_def)

lemma transp_same_files [simp]: "transp same_files"
  by (rule transpI) (auto simp: same_files_def intro: extends_trans)

lemma same_files_lookup: "same_files w w' \<Longrightarrow> lookup w' p = lookup w p"
  by (simp add: same_files_def extends_def lookup_def abspath_def)

lemma same_files_exists: "same_files w w' \<Longrightarrow> exists_at w' p = exists_at w p"
  by (simp add: exists_at_def same_files_lookup)

lemma py_print_same_files [io_intros]: "state_io_rel same_files (py_print s)"
  by (simp add: state_io_rel_def same_files_def extends_def)

lemma py_print_extends [io_intros]: "state_io_rel extends (py_print s)"
  by (simp add: state_io_rel_def extends_def)

lemma path_exists_same_files [io_intros]: "state_io_rel same_files (path_exists p)"
  by (simp add: state_io_rel_def)

lemma path_exists_extends [io_intros]: "state_io_rel extends (path_exists p)"
  by (simp add: state_io_rel_def)

lemma path_stat_same_files [io_intros]: "state_io_rel same_files (path_stat p)"
  by (simp add: state_io_rel_def path_stat_def split: option.splits)

lemma import_weasyprint_extends [io_intros]: "state_io_rel extends (import_weasyprint T)"
  by (simp add: state_io_rel_def)

lemma subprocess_run_extends [io_intros]: "state_io_rel extends (subprocess_run T args)"
  by (simp add: state_io_rel_def extends_def frame_simps)

lemma html_write_pdf_extends [io_intros]: "state_io_rel extends (html_write_pdf T h p)"
  by (simp add: state_io_rel_def extends_def frame_simps)

lemma os_remove_extends [io_intros]: "state_io_rel extends (os_remove p :: (world, exn + unit) state)"
  by (simp add: state_io_rel_def extends_def frame_simps)

text \<open>Printing does not touch the file system.\<close>

lemma lookup_out_update [simp]: "lookup (w\<lparr>out := x\<rparr>) p = lookup w p"
  by (simp add: lookup_def abspath_def)

lemma exists_at_out_update [simp]: "exists_at (w\<lparr>out := x\<rparr>) p = exists_at w p"
  by (simp add: exists_at_def)

lemma is_dir_out_update [simp]: "is_dir (w\<lparr>out := x\<rparr>) p = is_dir w p"
  by (simp add: is_dir_def)

lemma abspath_out_update [simp]: "abspath (w\<lparr>out := x\<rparr>) p = abspath w p"
  by (simp add: abspath_def)

lemma abspath_files_update [simp]: "abspath (w\<lparr>files := x\<rparr>) p = abspath w p"
  by (simp add: abspath_def)

lemma stdout_text_print:
  "stdout_text (state_of (py_print s) w) = stdout_text w @ s @ [CHR 0x0A]"
  by (simp add: stdout_text_def)

end
