(* ===== verification/Tools.thy ===== *)
theory Tools
  imports World
begin

text \<open>
  Sample behaviours of the two external tools, and sample worlds. The script is
  verified for every value of \<open>tools\<close>; the values below are what the external
  interfaces promise in the simplest way, and the theorems are applied to them to
  show that their hypotheses can be met and what the script prints in a concrete run.

  \<open>demo_pandoc\<close> is a converter that reads the sixth argument and writes the eighth
  (the positions of the input and of the output in the command line that
  \<open>markdown_to_pdf\<close> builds): exit code 0 and an output file when the input exists,
  exit code 1 and a message on standard error when it does not. \<open>demo_write_pdf\<close>
  is a renderer that writes the PDF when the HTML file exists and raises otherwise.
  The other values break one tool each: no \<open>pandoc\<close> executable, a \<open>pandoc\<close> that
  always fails, no WeasyPrint module, a renderer that always fails, one that fails on a
  late import, one that deletes its input, and one that is interrupted.
\<close>

section \<open>Files\<close>

definition regular :: "nat \<Rightarrow> stat_result" where
  "regular n = \<lparr>st_type = Regular, st_size = n\<rparr>"

definition directory :: stat_result where
  "directory = \<lparr>st_type = Directory, st_size = 4096\<rparr>"

section \<open>Tools that work\<close>

definition demo_pandoc :: "argv \<Rightarrow> path \<Rightarrow> files \<Rightarrow> (exn + completed_process) \<times> files" where
  "demo_pandoc args dir fs =
     (if length args < 8
      then (Inr \<lparr>returncode = 6, proc_stdout = [], proc_stderr = ''pandoc: missing arguments''\<rparr>, fs)
      else case fs (join_path dir (args ! 5)) of
             None \<Rightarrow>
               (Inr \<lparr>returncode = 1, proc_stdout = [],
                     proc_stderr = ''pandoc: '' @ args ! 5 @ '': withBinaryFile: does not exist''\<rparr>,
                fs)
           | Some st \<Rightarrow>
               (Inr \<lparr>returncode = 0, proc_stdout = [], proc_stderr = []\<rparr>,
                fs(join_path dir (args ! 7) \<mapsto> regular (2 * st_size st + 512))))"

definition demo_write_pdf :: "path \<Rightarrow> path \<Rightarrow> path \<Rightarrow> files \<Rightarrow> (exn + unit) \<times> files" where
  "demo_write_pdf html pdf dir fs =
     (case fs (join_path dir html) of
        None \<Rightarrow> (Inl (ENOENT html), fs)
      | Some st \<Rightarrow> (Inr (), fs(join_path dir pdf \<mapsto> regular (100 * st_size st + 1024))))"

definition demo_tools :: tools where
  "demo_tools =
     \<lparr>run_process = demo_pandoc, import_module = Inr (), write_pdf = demo_write_pdf\<rparr>"

section \<open>Tools that fail\<close>

text \<open>No \<open>pandoc\<close> on the search path: \<open>subprocess.run\<close> itself raises.\<close>

definition no_pandoc_tools :: tools where
  "no_pandoc_tools =
     demo_tools\<lparr>run_process :=
       (\<lambda>args dir fs. (Inl (ENOENT ''pandoc''), fs))\<rparr>"

text \<open>A \<open>pandoc\<close> that cannot read the style sheet: exit code 1 for every document.\<close>

definition broken_pandoc_tools :: tools where
  "broken_pandoc_tools =
     demo_tools\<lparr>run_process :=
       (\<lambda>args dir fs.
          (Inr \<lparr>returncode = 1, proc_stdout = [],
                proc_stderr = ''pandoc: style.css: withBinaryFile: does not exist''\<rparr>, fs))\<rparr>"

text \<open>WeasyPrint is not installed: the import raises \<open>ModuleNotFoundError\<close>.\<close>

definition no_weasyprint_tools :: tools where
  "no_weasyprint_tools =
     demo_tools\<lparr>import_module :=
       Inl (Exn ModuleNotFoundError (''No module named '' @ [CHR 0x27] @ ''weasyprint'' @ [CHR 0x27]))\<rparr>"

text \<open>A renderer that fails on every document, leaving the files as they are.\<close>

definition bad_renderer_tools :: tools where
  "bad_renderer_tools =
     demo_tools\<lparr>write_pdf :=
       (\<lambda>html pdf dir fs. (Inl (Exn RuntimeError ''layout failed''), fs))\<rparr>"

text \<open>A renderer that fails inside \<open>write_pdf\<close> on a module it imports late.\<close>

definition late_import_tools :: tools where
  "late_import_tools =
     demo_tools\<lparr>write_pdf :=
       (\<lambda>html pdf dir fs.
          (Inl (Exn ModuleNotFoundError
                  (''No module named '' @ [CHR 0x27] @ ''fontTools'' @ [CHR 0x27])), fs))\<rparr>"

text \<open>A renderer that writes the PDF and deletes the HTML file it has read.\<close>

definition tidy_renderer_tools :: tools where
  "tidy_renderer_tools =
     demo_tools\<lparr>write_pdf :=
       (\<lambda>html pdf dir fs.
          (Inr (), fs(join_path dir pdf \<mapsto> regular 4096, join_path dir html := None)))\<rparr>"

text \<open>The user presses Ctrl-C while the renderer runs.\<close>

definition interrupted_tools :: tools where
  "interrupted_tools =
     demo_tools\<lparr>write_pdf :=
       (\<lambda>html pdf dir fs. (Inl (Exn KeyboardInterrupt []), fs))\<rparr>"

section \<open>Worlds\<close>

text \<open>A directory \<open>/w\<close> with one Markdown file, and the same directory without it.\<close>

definition one_doc_world :: world where
  "one_doc_world =
     \<lparr>cwd = ''/w'',
      files = [''/w'' \<mapsto> directory, ''/w/b.md'' \<mapsto> regular 2000],
      out = []\<rparr>"

definition empty_world :: world where
  "empty_world = \<lparr>cwd = ''/w'', files = [''/w'' \<mapsto> directory], out = []\<rparr>"

text \<open>The directory \<open>/w\<close> with two Markdown files.\<close>

definition two_doc_world :: world where
  "two_doc_world =
     \<lparr>cwd = ''/w'',
      files = [''/w'' \<mapsto> directory, ''/w/b.md'' \<mapsto> regular 2000, ''/w/c.md'' \<mapsto> regular 700],
      out = []\<rparr>"

text \<open>A directory with a Markdown file whose name does not end in \<open>.md\<close>.\<close>

definition markdown_world :: world where
  "markdown_world =
     \<lparr>cwd = ''/w'',
      files = [''/w'' \<mapsto> directory, ''/w/notes.markdown'' \<mapsto> regular 300],
      out = []\<rparr>"

text \<open>A directory that holds a PDF of an earlier run and no Markdown file.\<close>

definition stale_world :: world where
  "stale_world =
     \<lparr>cwd = ''/w'',
      files = [''/w'' \<mapsto> directory, ''/w/a.pdf'' \<mapsto> regular 8053064],
      out = []\<rparr>"

lemmas tools_defs =
  regular_def directory_def demo_pandoc_def demo_write_pdf_def demo_tools_def
  no_pandoc_tools_def broken_pandoc_tools_def no_weasyprint_tools_def bad_renderer_tools_def late_import_tools_def
  tidy_renderer_tools_def interrupted_tools_def
  one_doc_world_def two_doc_world_def empty_world_def markdown_world_def stale_world_def

text \<open>The equations that evaluate a concrete run.\<close>

lemmas eval_defs =
  py_defs tools_defs Let_def isinstance_def issubclass_def mro.simps
  py_replace_def py_repeat_def py_str_int_def str_nat.simps digit_char_def
  format_2f_def round_half_even_def

end
