(* ===== verification/Converter.thy ===== *)
theory Converter
  imports Tools
begin

text \<open>
  The script itself: \<open>markdown_to_pdf\<close> (lines 10 to 58 of \<open>src/convert_to_pdf.py\<close>)
  and \<open>main\<close> (lines 61 to 104), statement by statement.

  A function of the script is a computation over \<open>world\<close>. Its result is a sum: \<open>Inr\<close>
  the value that the Python function returns, \<open>Inl\<close> the exception that leaves it. The
  two loops of \<open>main\<close> are recursive functions over the list of documents, the two
  counters are Python integers (\<open>int\<close>).
\<close>

section \<open>Constants of the script\<close>

text \<open>The UTF-8 encodings of the check mark, the ballot cross and the warning sign.\<close>

definition tick :: string where
  "tick = [CHR 0xE2, CHR 0x9C, CHR 0x93]"

definition cross :: string where
  "cross = [CHR 0xE2, CHR 0x9C, CHR 0x97]"

definition warning_sign :: string where
  "warning_sign = [CHR 0xE2, CHR 0x9A, CHR 0xA0]"

definition rule60 :: string where
  "rule60 = py_repeat ''='' 60"

definition workdir :: path where
  "workdir = ''/Users/michelebigi/VisualStudioCode/GitHub/IOC_Config''"

definition documents :: "(string \<times> string) list" where
  "documents =
     [(''REFERENCE_MANUAL.md'', ''REFERENCE_MANUAL.pdf''),
      (''IMPLEMENTATION_GUIDE.md'', ''IMPLEMENTATION_GUIDE.pdf''),
      (''ARCHITECTURE.md'', ''ARCHITECTURE.pdf'')]"

section \<open>\<open>markdown_to_pdf\<close>\<close>

definition html_file_of :: "string \<Rightarrow> string" where
  "html_file_of md_file = py_replace ''.md'' ''.html'' md_file"

definition cmd_html :: "string \<Rightarrow> string \<Rightarrow> argv" where
  "cmd_html md_file html_file =
     [''pandoc'',
      ''-f'', ''markdown'',
      ''-t'', ''html'',
      md_file,
      ''-o'', html_file,
      ''--css=style.css'',
      ''--metadata'', ''title='' @ [CHR 0x22] @ ''IOC_Config Documentation'' @ [CHR 0x22],
      ''--metadata'', ''author='' @ [CHR 0x22] @ ''Michele Bigi'' @ [CHR 0x22],
      ''--self-contained'']"

text \<open>The body of the \<open>try\<close> statement, lines 41 to 51.\<close>

definition pdf_step :: "tools \<Rightarrow> string \<Rightarrow> string \<Rightarrow> (world, exn + bool) state" where
  "pdf_step T html_file pdf_file = do {
     imported \<leftarrow> import_weasyprint T;
     case imported of
       Inl e \<Rightarrow> State_Monad.return (Inl e)
     | Inr _ \<Rightarrow> do {
         py_print ''  Step 2: Converting HTML to PDF...'';
         written \<leftarrow> html_write_pdf T html_file pdf_file;
         case written of
           Inl e \<Rightarrow> State_Monad.return (Inl e)
         | Inr _ \<Rightarrow> do {
             py_print (''  '' @ tick @ '' PDF generated: '' @ pdf_file);
             removed \<leftarrow> os_remove html_file;
             case removed of
               Inl e \<Rightarrow> State_Monad.return (Inl e)
             | Inr _ \<Rightarrow> do {
                 py_print (''  '' @ tick @ '' Cleaned up temporary HTML file'');
                 State_Monad.return (Inr True)
               }
           }
       }
   }"

text \<open>
  The two \<open>except\<close> clauses, lines 53 to 58, tried in order; an exception that neither
  clause matches leaves the function.
\<close>

definition pdf_except :: "exn \<Rightarrow> (world, exn + bool) state" where
  "pdf_except e =
     (if isinstance e ImportError then do {
        py_print ''Error: WeasyPrint not installed. Run: pip install weasyprint'';
        State_Monad.return (Inr False)
      }
      else if isinstance e Exception then do {
        py_print (''Error converting to PDF: '' @ exn_str e);
        State_Monad.return (Inr False)
      }
      else State_Monad.return (Inl e))"

definition markdown_to_pdf :: "tools \<Rightarrow> string \<Rightarrow> string \<Rightarrow> (world, exn + bool) state" where
  "markdown_to_pdf T md_file pdf_file = do {
     py_print (''Converting '' @ md_file @ '' to PDF...'');
     let html_file = html_file_of md_file;
     py_print ''  Step 1: Generating HTML from Markdown...'';
     ran \<leftarrow> subprocess_run T (cmd_html md_file html_file);
     case ran of
       Inl e \<Rightarrow> State_Monad.return (Inl e)
     | Inr result \<Rightarrow>
         if returncode result \<noteq> 0 then do {
           py_print (''Error converting to HTML: '' @ proc_stderr result);
           State_Monad.return (Inr False)
         }
         else do {
           py_print (''  '' @ tick @ '' HTML generated: '' @ html_file);
           tried \<leftarrow> pdf_step T html_file pdf_file;
           case tried of
             Inl e \<Rightarrow> pdf_except e
           | Inr b \<Rightarrow> State_Monad.return (Inr b)
         }
   }"

section \<open>\<open>main\<close>\<close>

text \<open>The body of the first loop, lines 81 to 91, on the counters \<open>(success_count, fail_count)\<close>.\<close>

definition convert_one ::
  "tools \<Rightarrow> string \<times> string \<Rightarrow> int \<times> int \<Rightarrow> (world, exn + int \<times> int) state" where
  "convert_one T doc counts =
     (case (doc, counts) of ((md_file, pdf_file), (success_count, fail_count)) \<Rightarrow> do {
        found \<leftarrow> path_exists md_file;
        if found then do {
          converted \<leftarrow> markdown_to_pdf T md_file pdf_file;
          case converted of
            Inl e \<Rightarrow> State_Monad.return (Inl e)
          | Inr ok \<Rightarrow>
              if ok then do {
                py_print [];
                State_Monad.return (Inr (success_count + 1, fail_count))
              }
              else do {
                py_print [];
                State_Monad.return (Inr (success_count, fail_count + 1))
              }
        }
        else do {
          py_print (warning_sign @ '' File not found: '' @ md_file);
          py_print [];
          State_Monad.return (Inr (success_count, fail_count + 1))
        }
      })"

text \<open>The first loop, lines 80 to 91.\<close>

fun convert_loop ::
  "tools \<Rightarrow> (string \<times> string) list \<Rightarrow> int \<times> int \<Rightarrow> (world, exn + int \<times> int) state" where
  "convert_loop T [] counts = State_Monad.return (Inr counts)"
| "convert_loop T (doc # docs) counts = do {
     stepped \<leftarrow> convert_one T doc counts;
     case stepped of
       Inl e \<Rightarrow> State_Monad.return (Inl e)
     | Inr counts' \<Rightarrow> convert_loop T docs counts'
   }"

text \<open>
  The line printed for a PDF of \<open>st_size\<close> bytes, lines 101 and 102: \<open>size_mb\<close> is the
  double that the division of the two integers gives, and the line shows it with two
  decimals.
\<close>

definition found_line :: "string \<Rightarrow> nat \<Rightarrow> string" where
  "found_line pdf_file bytes =
     ''  '' @ tick @ '' '' @ pdf_file @ '' (''
       @ format_2f (nearest_double bytes) (1024 * 1024) @ '' MB)''"

definition not_found_line :: "string \<Rightarrow> string" where
  "not_found_line pdf_file = ''  '' @ cross @ '' '' @ pdf_file @ '' (NOT FOUND)''"

text \<open>The body of the second loop, lines 100 to 104.\<close>

definition list_one :: "string \<times> string \<Rightarrow> (world, exn + unit) state" where
  "list_one doc =
     (case doc of (md_file, pdf_file) \<Rightarrow> do {
        found \<leftarrow> path_exists pdf_file;
        if found then do {
          stat \<leftarrow> path_stat pdf_file;
          case stat of
            Inl e \<Rightarrow> State_Monad.return (Inl e)
          | Inr st \<Rightarrow> do {
              py_print (found_line pdf_file (st_size st));
              State_Monad.return (Inr ())
            }
        }
        else do {
          py_print (not_found_line pdf_file);
          State_Monad.return (Inr ())
        }
      })"

fun list_pdfs :: "(string \<times> string) list \<Rightarrow> (world, exn + unit) state" where
  "list_pdfs [] = State_Monad.return (Inr ())"
| "list_pdfs (doc # docs) = do {
     listed \<leftarrow> list_one doc;
     case listed of
       Inl e \<Rightarrow> State_Monad.return (Inl e)
     | Inr _ \<Rightarrow> list_pdfs docs
   }"

text \<open>What the second loop prints for one document in a state \<open>w\<close>, in closed form.\<close>

definition listing_line :: "'a fs_scheme \<Rightarrow> string \<times> string \<Rightarrow> string" where
  "listing_line w doc =
     (case doc of (md_file, pdf_file) \<Rightarrow>
        (case lookup w pdf_file of
           None \<Rightarrow> not_found_line pdf_file
         | Some st \<Rightarrow> found_line pdf_file (st_size st)))"

definition summary_line :: "int \<Rightarrow> int \<Rightarrow> string" where
  "summary_line success_count fail_count =
     ''Summary: '' @ py_str_int success_count @ '' successful, ''
       @ py_str_int fail_count @ '' failed''"

text \<open>Lines 72 to 104: everything \<open>main\<close> does with the list of documents.\<close>

definition run_batch :: "tools \<Rightarrow> (string \<times> string) list \<Rightarrow> (world, exn + unit) state" where
  "run_batch T docs = do {
     py_print rule60;
     py_print ''IOC_Config Documentation - PDF Generation'';
     py_print rule60;
     py_print [];
     looped \<leftarrow> convert_loop T docs (0, 0);
     case looped of
       Inl e \<Rightarrow> State_Monad.return (Inl e)
     | Inr (success_count, fail_count) \<Rightarrow> do {
         py_print rule60;
         py_print (summary_line success_count fail_count);
         py_print rule60;
         py_print (CHR 0x0A # ''Generated PDF files:'');
         list_pdfs docs
       }
   }"

definition main :: "tools \<Rightarrow> (world, exn + unit) state" where
  "main T = do {
     moved \<leftarrow> os_chdir workdir;
     case moved of
       Inl e \<Rightarrow> State_Monad.return (Inl e)
     | Inr _ \<Rightarrow> run_batch T documents
   }"

text \<open>
  The exit status of the interpreter for \<open>if __name__ == '__main__': main()\<close>: 0 when
  \<open>main\<close> returns, 1 when an instance of \<open>Exception\<close> leaves it and the interpreter
  prints the traceback. For a class outside \<open>Exception\<close> the status depends on the
  exception itself (the argument of \<open>SystemExit\<close>, the signal behind
  \<open>KeyboardInterrupt\<close>), which the model does not hold: the status is \<open>None\<close>.
\<close>

definition exit_status :: "exn + unit \<Rightarrow> int option" where
  "exit_status r =
     (case r of
        Inl e \<Rightarrow> if isinstance e Exception then Some 1 else None
      | Inr _ \<Rightarrow> Some 0)"

text \<open>
  Lines 107 and 108, with the value of \<open>__name__\<close> as a parameter: the module calls
  \<open>main\<close> when it is run as a program and only defines its two functions when it is
  imported.
\<close>

definition run_module :: "tools \<Rightarrow> string \<Rightarrow> (world, exn + unit) state" where
  "run_module T name =
     (if name = ''__main__'' then main T else State_Monad.return (Inr ()))"

section \<open>Assumptions on the tools, and a sample project\<close>

text \<open>
  The tools are \<open>catchable\<close> when the child process can always be started with the
  command line of the script and the import and the renderer raise nothing outside
  \<open>Exception\<close>.
\<close>

definition catchable :: "tools \<Rightarrow> bool" where
  "catchable T \<longleftrightarrow>
     (\<forall>md html dir fs. \<not> isl (fst (run_process T (cmd_html md html) dir fs))) \<and>
     (\<forall>e. import_module T = Inl e \<longrightarrow> isinstance e Exception) \<and>
     (\<forall>h p dir fs e. fst (write_pdf T h p dir fs) = Inl e \<longrightarrow> isinstance e Exception)"

text \<open>The directory of the script with two of its three documents.\<close>

definition project_world :: world where
  "project_world =
     \<lparr>cwd = ''/'',
      files = [workdir \<mapsto> directory,
               workdir @ ''/REFERENCE_MANUAL.md'' \<mapsto> regular 40000,
               workdir @ ''/ARCHITECTURE.md'' \<mapsto> regular 600],
      out = []\<rparr>"

lemmas converter_defs [py_defs] =
  tick_def cross_def warning_sign_def rule60_def workdir_def documents_def
  html_file_of_def cmd_html_def pdf_step_def pdf_except_def markdown_to_pdf_def
  convert_one_def found_line_def not_found_line_def list_one_def listing_line_def summary_line_def
  run_batch_def main_def exit_status_def run_module_def

lemmas run_defs = eval_defs converter_defs

section \<open>Run equations\<close>

text \<open>
  What each function does to a state \<open>w\<close>, with the monad unfolded: the result and the
  state after, by cases on what the tools return. \<open>printed w ls\<close> is \<open>w\<close> with the
  lines \<open>ls\<close> added to its output.
\<close>

lemma subprocess_run_run:
  "run_state (subprocess_run T args) w =
     (case run_process T args (cwd w) (files w) of (r, fs') \<Rightarrow> (r, w\<lparr>files := fs'\<rparr>))"
  by (simp add: subprocess_run_def)

lemma html_write_pdf_run:
  "run_state (html_write_pdf T h p) w =
     (case write_pdf T h p (cwd w) (files w) of (r, fs') \<Rightarrow> (r, w\<lparr>files := fs'\<rparr>))"
  by (simp add: html_write_pdf_def)

lemma pdf_step_run:
  "run_state (pdf_step T h p) w =
     (case import_module T of
        Inl e \<Rightarrow> (Inl e, w)
      | Inr _ \<Rightarrow>
          (case run_state (html_write_pdf T h p) (printed w [''  Step 2: Converting HTML to PDF...'']) of
             (Inl e, w2) \<Rightarrow> (Inl e, w2)
           | (Inr _, w2) \<Rightarrow>
               (case run_state (os_remove h) (printed w2 [''  '' @ tick @ '' PDF generated: '' @ p]) of
                  (Inl e, w3) \<Rightarrow> (Inl e, w3)
                | (Inr _, w3) \<Rightarrow>
                    (Inr True, printed w3 [''  '' @ tick @ '' Cleaned up temporary HTML file'']))))"
  by (simp add: pdf_step_def split: sum.splits prod.splits)

lemma pdf_except_run:
  "run_state (pdf_except e) w =
     (if isinstance e ImportError
      then (Inr False, printed w [''Error: WeasyPrint not installed. Run: pip install weasyprint''])
      else if isinstance e Exception
      then (Inr False, printed w [''Error converting to PDF: '' @ exn_str e])
      else (Inl e, w))"
  by (simp add: pdf_except_def)

lemma markdown_to_pdf_run:
  "run_state (markdown_to_pdf T md pdf) w =
     (case run_state (subprocess_run T (cmd_html md (html_file_of md)))
             (printed w [''Converting '' @ md @ '' to PDF...'',
                         ''  Step 1: Generating HTML from Markdown...'']) of
        (Inl e, w1) \<Rightarrow> (Inl e, w1)
      | (Inr result, w1) \<Rightarrow>
          if returncode result \<noteq> 0
          then (Inr False, printed w1 [''Error converting to HTML: '' @ proc_stderr result])
          else (case run_state (pdf_step T (html_file_of md) pdf)
                       (printed w1 [''  '' @ tick @ '' HTML generated: '' @ html_file_of md]) of
                  (Inl e, w2) \<Rightarrow> run_state (pdf_except e) w2
                | (Inr b, w2) \<Rightarrow> (Inr b, w2)))"
  by (simp add: markdown_to_pdf_def Let_def split: sum.splits prod.splits)

lemma convert_one_run:
  "run_state (convert_one T (md, pdf) (s, f)) w =
     (if exists_at w md
      then (case run_state (markdown_to_pdf T md pdf) w of
              (Inl e, w1) \<Rightarrow> (Inl e, w1)
            | (Inr ok, w1) \<Rightarrow> (Inr (if ok then (s + 1, f) else (s, f + 1)), printed w1 [[]]))
      else (Inr (s, f + 1), printed w [warning_sign @ '' File not found: '' @ md, []]))"
  by (simp add: convert_one_def split: sum.splits prod.splits)

lemma list_one_run: "run_state (list_one doc) w = (Inr (), printed w [listing_line w doc])"
  by (cases doc)
    (simp add: list_one_def listing_line_def path_stat_def exists_at_def split: option.splits)

lemma listing_line_printed [simp]: "listing_line (printed w ls) doc = listing_line w doc"
  by (simp add: listing_line_def)

lemma list_pdfs_run:
  "run_state (list_pdfs docs) w = (Inr (), printed w (map (listing_line w) docs))"
  by (induction docs arbitrary: w) (simp_all add: list_one_run)

lemma run_batch_run:
  "run_state (run_batch T docs) w =
     (case run_state (convert_loop T docs (0, 0))
             (printed w [rule60, ''IOC_Config Documentation - PDF Generation'', rule60, []]) of
        (Inl e, w1) \<Rightarrow> (Inl e, w1)
      | (Inr (s, f), w1) \<Rightarrow>
          (Inr (), printed w1 ([rule60, summary_line s f, rule60,
                               CHR 0x0A # ''Generated PDF files:''] @ map (listing_line w1) docs)))"
  by (simp add: run_batch_def list_pdfs_run split: sum.splits prod.splits)

lemma run_module_run:
  "run_state (run_module T name) w =
     (if name = ''__main__'' then run_state (main T) w else (Inr (), w))"
  by (simp add: run_module_def)

lemma main_run:
  "run_state (main T) w =
     (case run_state (os_chdir workdir) w of
        (Inl e, w1) \<Rightarrow> (Inl e, w1)
      | (Inr _, w1) \<Rightarrow> run_state (run_batch T documents) w1)"
  by (simp add: main_def split: sum.splits prod.splits)

section \<open>Frames\<close>

text \<open>
  No function of the script changes the directory or retracts output once \<open>main\<close> has
  moved to its directory, and the listing changes no file.
\<close>

lemma pdf_except_extends [io_intros]: "state_io_rel extends (pdf_except e)"
  unfolding pdf_except_def by (intro io_intros transp_extends reflp_extends)

lemma pdf_step_extends [io_intros]: "state_io_rel extends (pdf_step T h p)"
  unfolding pdf_step_def by (intro io_intros transp_extends reflp_extends)

lemma markdown_to_pdf_extends [io_intros]: "state_io_rel extends (markdown_to_pdf T md pdf)"
  unfolding markdown_to_pdf_def Let_def by (intro io_intros transp_extends reflp_extends)

lemma convert_one_extends [io_intros]: "state_io_rel extends (convert_one T doc counts)"
  unfolding convert_one_def by (intro io_intros transp_extends reflp_extends)

lemma convert_loop_extends [io_intros]: "state_io_rel extends (convert_loop T docs counts)"
  by (induction docs arbitrary: counts) (auto intro!: io_intros)

lemma list_one_same_files [io_intros]: "state_io_rel same_files (list_one doc)"
  unfolding list_one_def by (intro io_intros transp_same_files reflp_same_files)

lemma list_pdfs_same_files [io_intros]: "state_io_rel same_files (list_pdfs docs)"
  by (induction docs) (auto intro!: io_intros)

section \<open>The first loop counts every document once\<close>

lemma convert_one_counts:
  assumes "run_state (convert_one T doc (s, f)) w = (Inr (s', f'), w')"
  shows "(s' = s + 1 \<and> f' = f) \<or> (s' = s \<and> f' = f + 1)"
  using assms
  by (cases doc) (auto simp: convert_one_run split: if_splits sum.splits prod.splits)

lemma convert_loop_tally:
  "run_state (convert_loop T docs (s, f)) w = (Inr (s', f'), w') \<Longrightarrow>
   s' + f' = s + f + int (length docs) \<and> s \<le> s' \<and> f \<le> f'"
proof (induction docs arbitrary: s f w)
  case Nil
  then show ?case by simp
next
  case (Cons doc docs)
  obtain r w1 where one: "run_state (convert_one T doc (s, f)) w = (r, w1)"
    by (cases "run_state (convert_one T doc (s, f)) w")
  with Cons.prems obtain s1 f1 where r: "r = Inr (s1, f1)"
    and rest: "run_state (convert_loop T docs (s1, f1)) w1 = (Inr (s', f'), w')"
    by (cases r) auto
  from one r have "(s1 = s + 1 \<and> f1 = f) \<or> (s1 = s \<and> f1 = f + 1)"
    by (auto dest: convert_one_counts)
  with Cons.IH [OF rest] show ?case by auto
qed

text \<open>
  C3: When the first loop of \<open>main\<close>, started with both counters at 0, ends without an
  exception, the counters are not negative and their sum is the number of documents.
\<close>

theorem convert_loop_counts:
  assumes "run_state (convert_loop T docs (0, 0)) w = (Inr (success_count, fail_count), w')"
  shows "success_count + fail_count = int (length docs) \<and> 0 \<le> success_count \<and> 0 \<le> fail_count"
  using convert_loop_tally [OF assms] by simp

theorem convert_loop_counts_witness:
  "\<exists>w'. run_state (convert_loop demo_tools [(''b.md'', ''b.pdf''), (''a.md'', ''a.pdf'')] (0, 0))
           one_doc_world = (Inr (1, 1), w')
        \<and> (1 :: int) + 1 = int (length [(''b.md'', ''b.pdf''), (''a.md'', ''a.pdf'')])
        \<and> (0 :: int) \<le> 1"
proof -
  obtain w' where run:
    "run_state (convert_loop demo_tools [(''b.md'', ''b.pdf''), (''a.md'', ''a.pdf'')] (0, 0))
       one_doc_world = (Inr (1, 1), w')"
    by (simp add: run_defs)
  from convert_loop_counts [OF run] run show ?thesis by simp
qed

section \<open>A successful conversion leaves no HTML file\<close>

lemma pdf_step_returns_True:
  "run_state (pdf_step T h p) w = (Inr b, w') \<Longrightarrow> b \<and> \<not> exists_at w' h"
  by (auto simp: pdf_step_run split: sum.splits prod.splits dest: os_remove_ok_gone)

text \<open>
  C4: When \<open>markdown_to_pdf\<close> returns \<open>True\<close>, the intermediate HTML file does not
  exist in the state it leaves, whatever the tools did.
\<close>

theorem markdown_to_pdf_success_removes_html:
  "run_state (markdown_to_pdf T md_file pdf_file) w = (Inr True, w') \<Longrightarrow>
   \<not> exists_at w' (html_file_of md_file)"
  by (auto simp: markdown_to_pdf_run pdf_except_run split: sum.splits prod.splits if_splits
      dest: pdf_step_returns_True)

theorem markdown_to_pdf_success_removes_html_witness:
  "\<exists>w'. run_state (markdown_to_pdf demo_tools ''b.md'' ''b.pdf'') one_doc_world = (Inr True, w')
        \<and> \<not> exists_at w' (html_file_of ''b.md'')"
proof -
  obtain w' where run:
    "run_state (markdown_to_pdf demo_tools ''b.md'' ''b.pdf'') one_doc_world = (Inr True, w')"
    by (simp add: run_defs)
  from markdown_to_pdf_success_removes_html [OF run] run show ?thesis by simp
qed

section \<open>A missing source\<close>

text \<open>
  C5: For a document whose Markdown file does not exist, the loop body calls no tool
  and changes no file: it prints the warning and an empty line and counts one failure.
\<close>

theorem convert_one_missing_source:
  "\<not> exists_at w md_file \<Longrightarrow>
   run_state (convert_one T (md_file, pdf_file) (s, f)) w =
     (Inr (s, f + 1), printed w [warning_sign @ '' File not found: '' @ md_file, []])"
  by (simp add: convert_one_run)

theorem convert_one_missing_source_witness:
  "\<not> exists_at empty_world ''a.md'' \<and>
   run_state (convert_one no_pandoc_tools (''a.md'', ''a.pdf'') (0, 0)) empty_world =
     (Inr (0, 0 + 1), printed empty_world [warning_sign @ '' File not found: '' @ ''a.md'', []])"
proof -
  have missing: "\<not> exists_at empty_world ''a.md''"
    by (simp add: eval_defs)
  from convert_one_missing_source [OF missing] missing show ?thesis by simp
qed

section \<open>A failed HTML conversion\<close>

text \<open>
  C6: When \<open>pandoc\<close> ends with a non-zero exit code, \<open>markdown_to_pdf\<close> prints the
  captured error text and returns \<open>False\<close>; the renderer is not called and no file is
  removed, so the files are as \<open>pandoc\<close> left them.
\<close>

theorem markdown_to_pdf_pandoc_failed:
  assumes "run_process T (cmd_html md_file (html_file_of md_file)) (cwd w) (files w) = (Inr result, fs')"
    and "returncode result \<noteq> 0"
  shows "run_state (markdown_to_pdf T md_file pdf_file) w =
           (Inr False,
            w\<lparr>files := fs',
              out := out w @ [''Converting '' @ md_file @ '' to PDF...'',
                              ''  Step 1: Generating HTML from Markdown...'',
                              ''Error converting to HTML: '' @ proc_stderr result]\<rparr>)"
  using assms by (simp add: markdown_to_pdf_run subprocess_run_run)

theorem markdown_to_pdf_pandoc_failed_witness:
  "\<exists>result.
     run_process demo_tools (cmd_html ''a.md'' (html_file_of ''a.md'')) (cwd empty_world)
        (files empty_world) = (Inr result, files empty_world)
     \<and> returncode result \<noteq> 0
     \<and> run_state (markdown_to_pdf demo_tools ''a.md'' ''a.pdf'') empty_world =
           (Inr False,
            empty_world\<lparr>files := files empty_world,
              out := out empty_world @ [''Converting '' @ ''a.md'' @ '' to PDF...'',
                              ''  Step 1: Generating HTML from Markdown...'',
                              ''Error converting to HTML: '' @ proc_stderr result]\<rparr>)"
proof -
  obtain result where run:
    "run_process demo_tools (cmd_html ''a.md'' (html_file_of ''a.md'')) (cwd empty_world)
       (files empty_world) = (Inr result, files empty_world)"
    and code: "returncode result \<noteq> 0"
    by (simp add: run_defs)
  from markdown_to_pdf_pandoc_failed [OF run code] run code show ?thesis by blast
qed

section \<open>Which exceptions leave \<open>markdown_to_pdf\<close>\<close>

lemma markdown_to_pdf_Inl_cases:
  assumes "run_state (markdown_to_pdf T md_file pdf_file) w = (Inl e, w')"
  obtains (spawn)
      "fst (run_process T (cmd_html md_file (html_file_of md_file)) (cwd w) (files w)) = Inl e"
  | (escaped) w0 w1 where
      "run_state (pdf_step T (html_file_of md_file) pdf_file) w0 = (Inl e, w1)"
      and "\<not> isinstance e Exception"
  using assms
  by (auto simp: markdown_to_pdf_run subprocess_run_run pdf_except_run
      split: sum.splits prod.splits if_splits)

text \<open>
  C7: An exception leaves \<open>markdown_to_pdf\<close> only if \<open>subprocess.run\<close> raised it (the
  call is outside the \<open>try\<close> statement) or if it is not an instance of \<open>Exception\<close>;
  every \<open>Exception\<close> raised by the import, by the renderer or by \<open>os.remove\<close> is
  caught.
\<close>

theorem markdown_to_pdf_raises_only:
  assumes "run_state (markdown_to_pdf T md_file pdf_file) w = (Inl e, w')"
  shows "fst (run_process T (cmd_html md_file (html_file_of md_file)) (cwd w) (files w)) = Inl e
         \<or> \<not> isinstance e Exception"
  using assms by (rule markdown_to_pdf_Inl_cases) simp_all

theorem markdown_to_pdf_raises_only_witness:
  "\<exists>e w'. run_state (markdown_to_pdf interrupted_tools ''b.md'' ''b.pdf'') one_doc_world = (Inl e, w')
     \<and> (fst (run_process interrupted_tools (cmd_html ''b.md'' (html_file_of ''b.md''))
               (cwd one_doc_world) (files one_doc_world)) = Inl e
         \<or> \<not> isinstance e Exception)"
proof -
  obtain e w' where run:
    "run_state (markdown_to_pdf interrupted_tools ''b.md'' ''b.pdf'') one_doc_world = (Inl e, w')"
    by (simp add: run_defs)
  from markdown_to_pdf_raises_only [OF run] run show ?thesis by blast
qed

lemma pdf_step_raises:
  assumes "run_state (pdf_step T h p) w = (Inl e, w')"
  shows "import_module T = Inl e
         \<or> (\<exists>dir fs. fst (write_pdf T h p dir fs) = Inl e)
         \<or> isinstance e OSError"
  using assms
  by (auto simp: pdf_step_run html_write_pdf_run split: sum.splits prod.splits
      dest: os_remove_raises_OSError) (metis fst_conv)

lemma markdown_to_pdf_returns:
  assumes "catchable T"
  shows "\<exists>ok. result_of (markdown_to_pdf T md_file pdf_file) w = Inr ok"
proof (cases "result_of (markdown_to_pdf T md_file pdf_file) w")
  case (Inr ok)
  then show ?thesis by blast
next
  case (Inl e)
  then have "run_state (markdown_to_pdf T md_file pdf_file) w
      = (Inl e, state_of (markdown_to_pdf T md_file pdf_file) w)"
    by (simp add: prod_eq_iff)
  then show ?thesis
  proof (cases rule: markdown_to_pdf_Inl_cases)
    case spawn
    with assms show ?thesis by (auto simp: catchable_def isl_iff)
  next
    case (escaped w0 w1)
    from pdf_step_raises [OF escaped(1)] assms have "isinstance e Exception"
      by (auto simp: catchable_def isinstance_def intro: OSError_is_Exception)
    with escaped(2) show ?thesis by contradiction
  qed
qed

lemma convert_one_returns:
  assumes "catchable T"
  shows "\<exists>counts'. result_of (convert_one T doc counts) w = Inr counts'"
proof -
  obtain md pdf s f where [simp]: "doc = (md, pdf)" "counts = (s, f)"
    by (cases doc, cases counts) auto
  from markdown_to_pdf_returns [OF assms, of md pdf w] show ?thesis
    by (auto simp: convert_one_run split: prod.splits)
qed

lemma convert_loop_returns:
  "catchable T \<Longrightarrow> \<exists>counts'. result_of (convert_loop T docs counts) w = Inr counts'"
proof (induction docs arbitrary: counts w)
  case Nil
  show ?case by simp
next
  case (Cons doc docs)
  obtain r w1 where one: "run_state (convert_one T doc counts) w = (r, w1)"
    by (cases "run_state (convert_one T doc counts) w")
  with convert_one_returns [OF Cons.prems, of doc counts w]
  obtain counts1 where "r = Inr counts1" by auto
  with one Cons.IH [OF Cons.prems, of counts1 w1] show ?case by simp
qed

lemma catchable_demo_tools: "catchable demo_tools"
  by (auto simp: catchable_def tools_defs isl_iff isinstance_def issubclass_def mro.simps fs_defs
      split: option.splits)

section \<open>The summary and the listing\<close>

text \<open>
  When everything after \<open>os.chdir\<close> ends without an exception, the output ends
  with the rule, the summary line for two counters that are not negative and add up to
  the number of documents, the rule, the heading and one listing line per document,
  computed from the files as they are at the end.
\<close>

theorem run_batch_summary:
  assumes "run_state (run_batch T docs) w = (Inr u, w')"
  shows "\<exists>s f. 0 \<le> s \<and> 0 \<le> f \<and> s + f = int (length docs) \<and>
           suffix ([rule60, summary_line s f, rule60, CHR 0x0A # ''Generated PDF files:'']
                    @ map (listing_line w') docs) (out w')"
proof -
  let ?w0 = "printed w [rule60, ''IOC_Config Documentation - PDF Generation'', rule60, []]"
  from assms obtain s f w1 where
    loop: "run_state (convert_loop T docs (0, 0)) ?w0 = (Inr (s, f), w1)"
    and w': "w' = printed w1 ([rule60, summary_line s f, rule60,
                               CHR 0x0A # ''Generated PDF files:''] @ map (listing_line w1) docs)"
    by (auto simp: run_batch_run split: sum.splits prod.splits)
  from convert_loop_tally [OF loop] have "0 \<le> s \<and> 0 \<le> f \<and> s + f = int (length docs)"
    by simp
  moreover from w' have "suffix ([rule60, summary_line s f, rule60,
      CHR 0x0A # ''Generated PDF files:''] @ map (listing_line w') docs) (out w')"
    by (simp add: suffix_def)
  ultimately show ?thesis by blast
qed

theorem run_batch_summary_witness:
  "\<exists>w'. run_state (run_batch demo_tools [(''b.md'', ''b.pdf'')]) one_doc_world = (Inr (), w')
     \<and> (\<exists>s f. 0 \<le> s \<and> 0 \<le> f \<and> s + f = int (length [(''b.md'', ''b.pdf'')]) \<and>
           suffix ([rule60, summary_line s f, rule60, CHR 0x0A # ''Generated PDF files:'']
                    @ map (listing_line w') [(''b.md'', ''b.pdf'')]) (out w'))"
proof -
  obtain w' where run:
    "run_state (run_batch demo_tools [(''b.md'', ''b.pdf'')]) one_doc_world = (Inr (), w')"
    by (simp add: run_defs)
  from run_batch_summary [OF run] run show ?thesis by blast
qed

section \<open>Failures that end the whole run\<close>

text \<open>
  C32: When the working directory of the script does not exist or is not a directory,
  \<open>main\<close> ends with the exception of \<open>os.chdir\<close>: nothing is printed, no document is
  converted, and the exit status of the script is 1.
\<close>

theorem main_chdir_fails:
  assumes "\<not> is_dir w workdir"
  shows "state_of (main T) w = w \<and> isl (result_of (main T) w)
         \<and> exit_status (result_of (main T) w) = Some 1"
  using assms
  by (rule_tac os_chdir_cases [where s = w and p = workdir])
    (simp_all add: main_run exit_status_def)

theorem main_chdir_fails_witness:
  "\<not> is_dir empty_world workdir \<and>
   state_of (main demo_tools) empty_world = empty_world \<and>
   isl (result_of (main demo_tools) empty_world) \<and>
   exit_status (result_of (main demo_tools) empty_world) = Some 1"
proof -
  have missing: "\<not> is_dir empty_world workdir"
    by (simp add: is_dir_def eval_defs workdir_def)
  from main_chdir_fails [OF missing] missing show ?thesis by simp
qed

text \<open>
  C11: When \<open>subprocess.run\<close> itself raises for a document whose source exists (there
  is no \<open>pandoc\<close> to start, for instance), the exception leaves the loop at that
  document: the later documents are not processed and nothing is printed after the
  line that announces step 1.
\<close>

theorem convert_loop_spawn_error:
  assumes "exists_at w md_file"
    and "fst (run_process T (cmd_html md_file (html_file_of md_file)) (cwd w) (files w)) = Inl e"
  shows "result_of (convert_loop T ((md_file, pdf_file) # docs) counts) w = Inl e \<and>
         out (state_of (convert_loop T ((md_file, pdf_file) # docs) counts) w) =
           out w @ [''Converting '' @ md_file @ '' to PDF...'',
                    ''  Step 1: Generating HTML from Markdown...'']"
  using assms
  by (cases counts)
    (auto simp: convert_one_run markdown_to_pdf_run subprocess_run_run split: prod.splits)

theorem convert_loop_spawn_error_witness:
  "exists_at one_doc_world ''b.md'' \<and>
   fst (run_process no_pandoc_tools (cmd_html ''b.md'' (html_file_of ''b.md''))
          (cwd one_doc_world) (files one_doc_world)) = Inl (ENOENT ''pandoc'') \<and>
   result_of (convert_loop no_pandoc_tools ((''b.md'', ''b.pdf'') # [(''a.md'', ''a.pdf'')]) (0, 0))
     one_doc_world = Inl (ENOENT ''pandoc'') \<and>
   out (state_of (convert_loop no_pandoc_tools ((''b.md'', ''b.pdf'') # [(''a.md'', ''a.pdf'')]) (0, 0))
     one_doc_world) =
     out one_doc_world @ [''Converting '' @ ''b.md'' @ '' to PDF...'',
                          ''  Step 1: Generating HTML from Markdown...'']"
proof -
  have here: "exists_at one_doc_world ''b.md''"
    by (simp add: eval_defs)
  have raised: "fst (run_process no_pandoc_tools (cmd_html ''b.md'' (html_file_of ''b.md''))
      (cwd one_doc_world) (files one_doc_world)) = Inl (ENOENT ''pandoc'')"
    by (simp add: tools_defs)
  from convert_loop_spawn_error [OF here raised] here raised show ?thesis by blast
qed

section \<open>The run ends\<close>

text \<open>
  C8: With catchable tools and an existing working directory the script, run as a
  program, returns from \<open>main\<close>: every document is processed, the summary and the
  listing are printed, and the exit status is 0, however many conversions failed.
\<close>

theorem main_exits_zero:
  assumes "catchable T" and "is_dir w workdir"
  shows "exit_status (result_of (run_module T ''__main__'') w) = Some 0"
proof -
  let ?w1 = "w\<lparr>cwd := abspath w workdir\<rparr>"
  let ?w2 = "printed ?w1 [rule60, ''IOC_Config Documentation - PDF Generation'', rule60, []]"
  obtain r w3 where loop: "run_state (convert_loop T documents (0, 0)) ?w2 = (r, w3)"
    by (cases "run_state (convert_loop T documents (0, 0)) ?w2")
  with convert_loop_returns [OF assms(1), of documents "(0, 0)" ?w2]
  obtain s f where "r = Inr (s, f)" by auto
  with loop assms(2) show ?thesis
    by (simp add: run_module_run main_run os_chdir_ok run_batch_run exit_status_def)
qed

theorem main_exits_zero_witness:
  "catchable demo_tools \<and> is_dir project_world workdir \<and>
   exit_status (result_of (run_module demo_tools ''__main__'') project_world) = Some 0"
proof -
  have dir: "is_dir project_world workdir"
    by (simp add: is_dir_def project_world_def eval_defs workdir_def)
  from main_exits_zero [OF catchable_demo_tools dir] catchable_demo_tools dir
  show ?thesis by simp
qed

section \<open>The name of the HTML file\<close>

text \<open>
  For a Markdown file named \<open>base.md\<close> in which \<open>.md\<close> occurs nowhere else, the
  intermediate file is \<open>base.html\<close>.
\<close>

theorem html_file_of_md_suffix:
  assumes "\<not> sublist ''.md'' base"
  shows "html_file_of (base @ ''.md'') = base @ ''.html''"
  using replace_scan_last_occ [of "CHR ''.''" "''md''" base "''.html''" "[]"] assms
  by (simp add: html_file_of_def py_replace_def)

theorem html_file_of_md_suffix_witness:
  "\<not> sublist ''.md'' ''ARCHITECTURE'' \<and>
   html_file_of (''ARCHITECTURE'' @ ''.md'') = ''ARCHITECTURE'' @ ''.html''"
proof -
  have clean: "\<not> sublist ''.md'' ''ARCHITECTURE''"
    by (simp add: sublist_Cons_right)
  from html_file_of_md_suffix [OF clean] clean show ?thesis by blast
qed

lemma html_file_of_no_md: "\<not> sublist ''.md'' md_file \<Longrightarrow> html_file_of md_file = md_file"
  by (simp add: html_file_of_def py_replace_def replace_scan_no_occ)

text \<open>
  C12: For a Markdown file whose name does not contain \<open>.md\<close> (\<open>notes.markdown\<close>, say)
  the name of the HTML file is the name of the source, so a conversion that returns
  \<open>True\<close> has removed the source file.
\<close>

theorem markdown_to_pdf_deletes_source:
  assumes "\<not> sublist ''.md'' md_file"
    and "run_state (markdown_to_pdf T md_file pdf_file) w = (Inr True, w')"
  shows "\<not> exists_at w' md_file"
  using assms(2) html_file_of_no_md [OF assms(1)]
  by (auto simp: markdown_to_pdf_run pdf_except_run split: sum.splits prod.splits if_splits
      dest: pdf_step_returns_True)

theorem markdown_to_pdf_deletes_source_witness:
  "\<exists>w'. \<not> sublist ''.md'' ''notes.markdown'' \<and> exists_at markdown_world ''notes.markdown'' \<and>
     run_state (markdown_to_pdf demo_tools ''notes.markdown'' ''notes.pdf'') markdown_world
       = (Inr True, w') \<and>
     \<not> exists_at w' ''notes.markdown''"
proof -
  have name: "\<not> sublist ''.md'' ''notes.markdown''"
    by (simp add: sublist_Cons_right)
  have before: "exists_at markdown_world ''notes.markdown''"
    by (simp add: eval_defs)
  obtain w' where run:
    "run_state (markdown_to_pdf demo_tools ''notes.markdown'' ''notes.pdf'') markdown_world
       = (Inr True, w')"
    by (simp add: run_defs)
  from markdown_to_pdf_deletes_source [OF name run] name before run show ?thesis by blast
qed

section \<open>Output is only added\<close>

lemma run_batch_extends [io_intros]: "state_io_rel extends (run_batch T docs)"
  unfolding run_batch_def
  by (intro io_intros transp_extends reflp_extends state_io_rel_weaken [OF list_pdfs_same_files])
    (simp add: same_files_def)

text \<open>
  \<open>main\<close> never retracts output: what was printed before it starts is a prefix of
  what is printed when it ends, with or without an exception.
\<close>

theorem main_output_grows: "prefix (out w) (out (state_of (main T) w))"
proof (rule os_chdir_cases [where s = w and p = workdir])
  let ?w1 = "w\<lparr>cwd := abspath w workdir\<rparr>"
  assume run: "run_state (os_chdir workdir) w = (Inr (), ?w1)"
  from run_batch_extends [of T documents]
  have "extends ?w1 (state_of (run_batch T documents) ?w1)"
    by (auto simp: state_io_rel_def)
  with run show ?thesis by (simp add: main_run extends_def)
qed (simp_all add: main_run)

end
