(* ===== verification/Contracts.thy ===== *)
theory Contracts
  imports Converter
begin

text \<open>
  What the script may expect of \<open>pandoc\<close> and of WeasyPrint, and what it may expect of
  the names in its list of documents.

  The contracts are predicates on \<open>tools\<close>. \<open>pandoc_contract\<close>: the process can be
  started, it changes no file but the one named after \<open>-o\<close>, and when it exits with
  code 0 that file is a regular file. \<open>renderer_contract\<close>: the import raises nothing
  but \<open>ImportError\<close>; \<open>write_pdf\<close> changes no file but the PDF, leaves a non-empty
  regular file there when it returns, and raises only instances of \<open>Exception\<close> that
  are not \<open>ImportError\<close>. \<open>demo_tools\<close> meets both.

  \<open>artefacts dir docs\<close> lists the files the jobs write in the directory \<open>dir\<close>, the HTML
  file and the PDF of each document in order; the jobs do not disturb each other when
  the list is \<open>distinct\<close>. This holds of the three documents of \<open>main\<close> in every
  directory.
\<close>

section \<open>Files that a call may change\<close>

definition only_changes :: "path set \<Rightarrow> files \<Rightarrow> files \<Rightarrow> bool" where
  "only_changes P f f' \<longleftrightarrow> (\<forall>p. p \<notin> P \<longrightarrow> f' p = f p)"

definition is_file :: "files \<Rightarrow> path \<Rightarrow> bool" where
  "is_file f p \<longleftrightarrow> (case f p of None \<Rightarrow> False | Some st \<Rightarrow> st_type st = Regular)"

definition nonempty_file :: "files \<Rightarrow> path \<Rightarrow> bool" where
  "nonempty_file f p \<longleftrightarrow>
     (case f p of None \<Rightarrow> False | Some st \<Rightarrow> st_type st = Regular \<and> 0 < st_size st)"

section \<open>Contracts of the tools\<close>

definition pandoc_contract :: "tools \<Rightarrow> bool" where
  "pandoc_contract T \<longleftrightarrow>
     (\<forall>md html dir f. \<exists>cp f'.
        run_process T (cmd_html md html) dir f = (Inr cp, f') \<and>
        only_changes {join_path dir html} f f' \<and>
        (returncode cp = 0 \<longrightarrow> is_file f' (join_path dir html)))"

definition renderer_contract :: "tools \<Rightarrow> bool" where
  "renderer_contract T \<longleftrightarrow>
     (\<forall>e. import_module T = Inl e \<longrightarrow> isinstance e ImportError) \<and>
     (\<forall>html pdf dir f r f'.
        write_pdf T html pdf dir f = (r, f') \<longrightarrow>
        only_changes {join_path dir pdf} f f' \<and>
        (case r of
           Inl e \<Rightarrow> isinstance e Exception \<and> \<not> isinstance e ImportError
         | Inr u \<Rightarrow> nonempty_file f' (join_path dir pdf)))"

definition tools_ok :: "tools \<Rightarrow> bool" where
  "tools_ok T \<longleftrightarrow> pandoc_contract T \<and> renderer_contract T"

section \<open>Names of the documents\<close>

definition artefacts_of :: "path \<Rightarrow> string \<times> string \<Rightarrow> path list" where
  "artefacts_of dir doc =
     (case doc of (md_file, pdf_file) \<Rightarrow>
        [join_path dir (html_file_of md_file), join_path dir pdf_file])"

definition artefacts :: "path \<Rightarrow> (string \<times> string) list \<Rightarrow> path list" where
  "artefacts dir docs = concat (map (artefacts_of dir) docs)"

lemmas contract_defs =
  only_changes_def is_file_def nonempty_file_def pandoc_contract_def renderer_contract_def
  tools_ok_def artefacts_of_def artefacts_def

section \<open>Frames\<close>

lemma only_changes_refl [simp]: "only_changes P f f"
  by (simp add: only_changes_def)

lemma only_changes_trans:
  "only_changes P f g \<Longrightarrow> only_changes Q g h \<Longrightarrow> only_changes (P \<union> Q) f h"
  by (simp add: only_changes_def)

lemma only_changes_pair:
  "only_changes {a} f g \<Longrightarrow> only_changes {b} g h \<Longrightarrow> only_changes {a, b} f h"
  by (simp add: only_changes_def)

lemma only_changes_mono: "only_changes P f g \<Longrightarrow> P \<subseteq> Q \<Longrightarrow> only_changes Q f g"
  by (auto simp: only_changes_def)

lemma only_changes_upd [simp]: "p \<in> P \<Longrightarrow> only_changes P f (f(p := x))"
  by (simp add: only_changes_def)

lemma only_changes_then_upd: "only_changes P f g \<Longrightarrow> p \<in> P \<Longrightarrow> only_changes P f (g(p := x))"
  by (simp add: only_changes_def)

lemma only_changes_same: "only_changes P f g \<Longrightarrow> p \<notin> P \<Longrightarrow> g p = f p"
  by (simp add: only_changes_def)

lemma os_remove_only_changes:
  "only_changes {abspath s p} (files s) (files (state_of (os_remove p) s))"
  by (rule os_remove_cases [where s = s and p = p]) (auto simp: only_changes_def)

lemma nonempty_file_is_file: "nonempty_file f p \<Longrightarrow> is_file f p"
  by (simp add: nonempty_file_def is_file_def split: option.splits)

lemma is_file_cong: "g p = f p \<Longrightarrow> is_file g p = is_file f p"
  by (simp add: is_file_def)

lemma nonempty_file_cong: "g p = f p \<Longrightarrow> nonempty_file g p = nonempty_file f p"
  by (simp add: nonempty_file_def)

lemma artefacts_Nil [simp]: "artefacts dir [] = []"
  by (simp add: artefacts_def)

lemma artefacts_Cons [simp]: "artefacts dir (doc # docs) = artefacts_of dir doc @ artefacts dir docs"
  by (simp add: artefacts_def)

lemma artefacts_of_nth:
  "i < length docs \<Longrightarrow> set (artefacts_of dir (docs ! i)) \<subseteq> set (artefacts dir docs)"
  using nth_mem [of i docs] by (fastforce simp: artefacts_def)

lemma artefacts_append [simp]: "artefacts dir (xs @ ys) = artefacts dir xs @ artefacts dir ys"
  by (simp add: artefacts_def)

lemma distinct_artefacts_nth:
  assumes "distinct (artefacts dir docs)" and "i < length docs"
  shows "distinct (artefacts_of dir (docs ! i))"
    and "set (artefacts_of dir (docs ! i)) \<inter> set (artefacts dir (take i docs)) = {}"
    and "set (artefacts_of dir (docs ! i)) \<inter> set (artefacts dir (drop (Suc i) docs)) = {}"
proof -
  from assms(2) have "docs = take i docs @ docs ! i # drop (Suc i) docs"
    by (rule id_take_nth_drop)
  then have "artefacts dir docs = artefacts dir (take i docs) @ artefacts_of dir (docs ! i)
      @ artefacts dir (drop (Suc i) docs)"
    by (metis artefacts_append artefacts_Cons)
  with assms(1) show "distinct (artefacts_of dir (docs ! i))"
    and "set (artefacts_of dir (docs ! i)) \<inter> set (artefacts dir (take i docs)) = {}"
    and "set (artefacts_of dir (docs ! i)) \<inter> set (artefacts dir (drop (Suc i) docs)) = {}"
    by auto
qed

section \<open>What the contracts give at a call\<close>

lemma pandoc_contract_run:
  assumes "pandoc_contract T"
  obtains cp f' where "run_process T (cmd_html md html) dir f = (Inr cp, f')"
    and "only_changes {join_path dir html} f f'"
    and "returncode cp = 0 \<longrightarrow> is_file f' (join_path dir html)"
  using assms unfolding pandoc_contract_def by blast

lemma renderer_contract_import:
  "renderer_contract T \<Longrightarrow> import_module T = Inl e \<Longrightarrow> isinstance e ImportError"
  by (simp add: renderer_contract_def)

lemma renderer_contract_run:
  assumes "renderer_contract T"
  obtains (raised) e f' where "write_pdf T html pdf dir f = (Inl e, f')"
    and "isinstance e Exception" and "\<not> isinstance e ImportError"
    and "only_changes {join_path dir pdf} f f'"
  | (written) f' where "write_pdf T html pdf dir f = (Inr (), f')"
    and "only_changes {join_path dir pdf} f f'" and "nonempty_file f' (join_path dir pdf)"
proof (cases "write_pdf T html pdf dir f")
  case (Pair r f')
  with assms have frame: "only_changes {join_path dir pdf} f f'"
    and res: "case r of
        Inl e \<Rightarrow> isinstance e Exception \<and> \<not> isinstance e ImportError
      | Inr u \<Rightarrow> nonempty_file f' (join_path dir pdf)"
    unfolding renderer_contract_def by blast+
  with Pair that show thesis by (cases r) auto
qed

text \<open>
  The four ways a job can go once its source exists, under both contracts, with what
  each of them says about the files.
\<close>

lemma tools_ok_cases:
  assumes "tools_ok T"
  obtains (tool_failed) cp f1 where
      "run_process T (cmd_html md html) dir f = (Inr cp, f1)" and "returncode cp \<noteq> 0"
      and "only_changes {join_path dir html} f f1"
  | (no_library) cp f1 e where
      "run_process T (cmd_html md html) dir f = (Inr cp, f1)" and "returncode cp = 0"
      and "only_changes {join_path dir html} f f1" and "is_file f1 (join_path dir html)"
      and "import_module T = Inl e" and "isinstance e ImportError"
  | (render_failed) cp f1 e f2 where
      "run_process T (cmd_html md html) dir f = (Inr cp, f1)" and "returncode cp = 0"
      and "only_changes {join_path dir html} f f1" and "is_file f1 (join_path dir html)"
      and "import_module T = Inr ()" and "write_pdf T html pdf dir f1 = (Inl e, f2)"
      and "isinstance e Exception" and "\<not> isinstance e ImportError"
      and "only_changes {join_path dir pdf} f1 f2"
  | (rendered) cp f1 f2 where
      "run_process T (cmd_html md html) dir f = (Inr cp, f1)" and "returncode cp = 0"
      and "only_changes {join_path dir html} f f1" and "is_file f1 (join_path dir html)"
      and "import_module T = Inr ()" and "write_pdf T html pdf dir f1 = (Inr (), f2)"
      and "only_changes {join_path dir pdf} f1 f2" and "nonempty_file f2 (join_path dir pdf)"
proof -
  from assms have pandoc: "pandoc_contract T" and renderer: "renderer_contract T"
    by (simp_all add: tools_ok_def)
  from pandoc obtain cp f1 where ran: "run_process T (cmd_html md html) dir f = (Inr cp, f1)"
    and f1: "only_changes {join_path dir html} f f1"
    and written: "returncode cp = 0 \<longrightarrow> is_file f1 (join_path dir html)"
    by (rule pandoc_contract_run [where md = md and html = html and dir = dir and f = f])
  show thesis
  proof (cases "returncode cp = 0")
    case False
    from ran False f1 show thesis by (rule tool_failed)
  next
    case rc: True
    show thesis
    proof (cases "import_module T")
      case (Inl e)
      with renderer have "isinstance e ImportError" by (simp add: renderer_contract_import)
      with ran rc f1 written Inl show thesis by (auto intro: no_library)
    next
      case (Inr u)
      from renderer show thesis
        by (cases rule: renderer_contract_run [where html = html and pdf = pdf and dir = dir
              and f = f1])
          (use ran rc f1 written Inr in \<open>auto intro: render_failed rendered\<close>)
    qed
  qed
qed

lemma is_file_only_changes:
  "only_changes {p} f g \<Longrightarrow> h \<noteq> p \<Longrightarrow> is_file g h = is_file f h"
  by (simp add: only_changes_def is_file_def)

lemma tools_ok_catchable: "tools_ok T \<Longrightarrow> catchable T"
  unfolding catchable_def tools_ok_def
proof (intro conjI allI impI)
  fix md html dir f
  assume ok: "pandoc_contract T \<and> renderer_contract T"
  then have "pandoc_contract T" ..
  then show "\<not> isl (fst (run_process T (cmd_html md html) dir f))"
    by (rule pandoc_contract_run [where md = md and html = html and dir = dir and f = f]) simp
next
  fix h p dir f e
  assume ok: "pandoc_contract T \<and> renderer_contract T"
    and raised: "fst (write_pdf T h p dir f) = Inl e"
  from ok have "renderer_contract T" ..
  then show "isinstance e Exception"
    by (rule renderer_contract_run [where html = h and pdf = p and dir = dir and f = f])
      (use raised in auto)
qed (auto simp: isinstance_def dest!: renderer_contract_import intro: ImportError_is_Exception)

section \<open>The sample tools and the documents of the script\<close>

lemma cmd_html_nth [simp]:
  "length (cmd_html md html) = 14" "cmd_html md html ! 5 = md" "cmd_html md html ! 7 = html"
  by (simp_all add: cmd_html_def)

lemma pandoc_contract_demo_tools: "pandoc_contract demo_tools"
  by (auto simp: pandoc_contract_def demo_tools_def demo_pandoc_def only_changes_def is_file_def
      regular_def split: option.splits)

lemma renderer_contract_demo_tools: "renderer_contract demo_tools"
  by (auto simp: renderer_contract_def demo_tools_def demo_write_pdf_def only_changes_def
      nonempty_file_def regular_def ENOENT_def isinstance_def issubclass_def mro.simps
      split: option.splits)

lemma tools_ok_demo_tools: "tools_ok demo_tools"
  by (simp add: tools_ok_def pandoc_contract_demo_tools renderer_contract_demo_tools)

lemma tools_ok_broken_pandoc_tools: "tools_ok broken_pandoc_tools"
  using renderer_contract_demo_tools
  by (simp add: tools_ok_def pandoc_contract_def renderer_contract_def broken_pandoc_tools_def)

lemma html_file_of_documents:
  "map (html_file_of \<circ> fst) documents =
     [''REFERENCE_MANUAL.html'', ''IMPLEMENTATION_GUIDE.html'', ''ARCHITECTURE.html'']"
  by (simp add: documents_def html_file_of_def py_replace_def)

lemma distinct_join_path:
  assumes "distinct ps" and "\<forall>p \<in> set ps. hd p \<noteq> CHR ''/''"
  shows "distinct (map (join_path dir) ps)"
  using assms by (auto simp: distinct_map intro!: inj_onI dest: join_path_inj)

lemma artefacts_documents:
  "artefacts dir documents =
     map (join_path dir)
       [''REFERENCE_MANUAL.html'', ''REFERENCE_MANUAL.pdf'',
        ''IMPLEMENTATION_GUIDE.html'', ''IMPLEMENTATION_GUIDE.pdf'',
        ''ARCHITECTURE.html'', ''ARCHITECTURE.pdf'']"
  by (simp add: artefacts_def artefacts_of_def documents_def html_file_of_def py_replace_def)

lemma distinct_artefacts_documents: "distinct (artefacts dir documents)"
  unfolding artefacts_documents by (rule distinct_join_path) simp_all

end
