(* ===== verification/Branches.thy ===== *)
theory Branches
  imports Contracts
begin

text \<open>
  Every way through \<open>markdown_to_pdf\<close> after the child process has been started, with
  the exact result, files and output of each: the rendering library is missing, the
  renderer raises, the removal of the HTML file fails, and success. Each theorem
  names what the tools returned on the way and holds for all tools that return it.
  (The first two ways, an exception from \<open>subprocess.run\<close> and a non-zero exit code,
  are in \<open>Converter\<close>.)
\<close>

section \<open>The three ways through the \<open>try\<close> block\<close>

lemma pdf_step_import_failed:
  "import_module T = Inl e \<Longrightarrow> run_state (pdf_step T h p) w = (Inl e, w)"
  by (simp add: pdf_step_run)

lemma pdf_step_render_failed:
  "import_module T = Inr u \<Longrightarrow> write_pdf T h p (cwd w) (files w) = (Inl e, f) \<Longrightarrow>
   run_state (pdf_step T h p) w
     = (Inl e, w\<lparr>files := f, out := out w @ [''  Step 2: Converting HTML to PDF...'']\<rparr>)"
  by (simp add: pdf_step_run html_write_pdf_run)

lemma pdf_step_written:
  assumes "import_module T = Inr u" and "write_pdf T h p (cwd w) (files w) = (Inr v, f)"
    and "is_file f (abspath w h)"
  shows "run_state (pdf_step T h p) w
     = (Inr True,
        w\<lparr>files := f(abspath w h := None),
          out := out w @ [''  Step 2: Converting HTML to PDF...'',
                          ''  '' @ tick @ '' PDF generated: '' @ p,
                          ''  '' @ tick @ '' Cleaned up temporary HTML file'']\<rparr>)"
proof -
  let ?w2 = "w\<lparr>files := f, out := out w @ [''  Step 2: Converting HTML to PDF...'',
                                          ''  '' @ tick @ '' PDF generated: '' @ p]\<rparr>"
  from assms(3) have "exists_at ?w2 h" "\<not> is_dir ?w2 h"
    by (auto simp: is_file_def exists_at_def is_dir_def lookup_def abspath_def split: option.splits)
  then have "run_state (os_remove h) ?w2
      = (Inr (), ?w2\<lparr>files := (files ?w2)(abspath ?w2 h := None)\<rparr>)"
    by (rule os_remove_file)
  with assms(1,2) show ?thesis
    by (simp add: pdf_step_run html_write_pdf_run abspath_def)
qed


section \<open>Output of the first step\<close>

text \<open>The three lines printed up to the end of a successful first step.\<close>

definition html_done_lines :: "string \<Rightarrow> string list" where
  "html_done_lines md_file =
     [''Converting '' @ md_file @ '' to PDF...'',
      ''  Step 1: Generating HTML from Markdown...'',
      ''  '' @ tick @ '' HTML generated: '' @ html_file_of md_file]"

lemma markdown_to_pdf_after_html:
  assumes "run_process T (cmd_html md (html_file_of md)) (cwd w) (files w) = (Inr result, f1)"
    and "returncode result = 0"
  shows "run_state (markdown_to_pdf T md pdf) w =
     (case run_state (pdf_step T (html_file_of md) pdf)
             (w\<lparr>files := f1, out := out w @ html_done_lines md\<rparr>) of
        (Inl e, w2) \<Rightarrow> run_state (pdf_except e) w2
      | (Inr b, w2) \<Rightarrow> (Inr b, w2))"
  using assms by (simp add: markdown_to_pdf_run subprocess_run_run html_done_lines_def)

section \<open>The rendering library is missing\<close>

text \<open>
  C15: When \<open>pandoc\<close> succeeded and the import of WeasyPrint raises an instance of
  \<open>Exception\<close>, \<open>markdown_to_pdf\<close> returns \<open>False\<close> after one more line, the hint to
  install WeasyPrint for an \<open>ImportError\<close> and the text of the exception otherwise;
  the files are as \<open>pandoc\<close> left them, so the HTML file it wrote stays behind.
\<close>

theorem markdown_to_pdf_import_failed:
  assumes "run_process T (cmd_html md (html_file_of md)) (cwd w) (files w) = (Inr result, f1)"
    and "returncode result = 0"
    and "import_module T = Inl e" and "isinstance e Exception"
  shows "run_state (markdown_to_pdf T md pdf) w =
     (Inr False,
      w\<lparr>files := f1,
        out := out w @ html_done_lines md
               @ [if isinstance e ImportError
                  then ''Error: WeasyPrint not installed. Run: pip install weasyprint''
                  else ''Error converting to PDF: '' @ exn_str e]\<rparr>)"
  using assms(3,4)
  by (simp add: markdown_to_pdf_after_html [OF assms(1,2)] pdf_step_import_failed pdf_except_run)

theorem markdown_to_pdf_import_failed_witness:
  "\<exists>result f1 e.
     run_process no_weasyprint_tools (cmd_html ''b.md'' (html_file_of ''b.md''))
       (cwd one_doc_world) (files one_doc_world) = (Inr result, f1) \<and>
     returncode result = 0 \<and> import_module no_weasyprint_tools = Inl e \<and>
     isinstance e Exception \<and> isinstance e ImportError \<and> is_file f1 ''/w/b.html'' \<and>
     run_state (markdown_to_pdf no_weasyprint_tools ''b.md'' ''b.pdf'') one_doc_world =
       (Inr False,
        one_doc_world\<lparr>files := f1,
          out := out one_doc_world @ html_done_lines ''b.md''
                 @ [if isinstance e ImportError
                    then ''Error: WeasyPrint not installed. Run: pip install weasyprint''
                    else ''Error converting to PDF: '' @ exn_str e]\<rparr>)"
proof -
  obtain result f1 where ran:
    "run_process no_weasyprint_tools (cmd_html ''b.md'' (html_file_of ''b.md''))
       (cwd one_doc_world) (files one_doc_world) = (Inr result, f1)"
    and rc: "returncode result = 0" and html: "is_file f1 ''/w/b.html''"
    by (simp add: run_defs is_file_def)
  obtain e where imp: "import_module no_weasyprint_tools = Inl e"
    and exc: "isinstance e Exception" and cls: "isinstance e ImportError"
    by (simp add: run_defs)
  from markdown_to_pdf_import_failed [OF ran rc imp exc] ran rc imp exc cls html
  show ?thesis by blast
qed

section \<open>The renderer raises\<close>

text \<open>
  C14: When \<open>pandoc\<close> succeeded, the import succeeded and \<open>write_pdf\<close> raises an instance
  of \<open>Exception\<close>, \<open>markdown_to_pdf\<close> returns \<open>False\<close> and the files are as the renderer
  left them, HTML file included. The line it prints is the text of the exception,
  unless the exception is an \<open>ImportError\<close>: then it is the hint to install
  WeasyPrint, although WeasyPrint has just been imported.
\<close>

theorem markdown_to_pdf_render_failed:
  assumes "run_process T (cmd_html md (html_file_of md)) (cwd w) (files w) = (Inr result, f1)"
    and "returncode result = 0"
    and "import_module T = Inr u"
    and "write_pdf T (html_file_of md) pdf (cwd w) f1 = (Inl e, f2)"
    and "isinstance e Exception"
  shows "run_state (markdown_to_pdf T md pdf) w =
     (Inr False,
      w\<lparr>files := f2,
        out := out w @ html_done_lines md
               @ [''  Step 2: Converting HTML to PDF...'',
                  if isinstance e ImportError
                  then ''Error: WeasyPrint not installed. Run: pip install weasyprint''
                  else ''Error converting to PDF: '' @ exn_str e]\<rparr>)"
  using assms(3-5)
  by (simp add: markdown_to_pdf_after_html [OF assms(1,2)] pdf_step_render_failed pdf_except_run)

theorem markdown_to_pdf_render_failed_witness:
  "\<exists>result f1 e f2.
     run_process late_import_tools (cmd_html ''b.md'' (html_file_of ''b.md''))
       (cwd one_doc_world) (files one_doc_world) = (Inr result, f1) \<and>
     returncode result = 0 \<and> import_module late_import_tools = Inr () \<and>
     write_pdf late_import_tools (html_file_of ''b.md'') ''b.pdf'' (cwd one_doc_world) f1
       = (Inl e, f2) \<and>
     isinstance e Exception \<and> isinstance e ImportError \<and>
     run_state (markdown_to_pdf late_import_tools ''b.md'' ''b.pdf'') one_doc_world =
       (Inr False,
        one_doc_world\<lparr>files := f2,
          out := out one_doc_world @ html_done_lines ''b.md''
                 @ [''  Step 2: Converting HTML to PDF...'',
                    if isinstance e ImportError
                    then ''Error: WeasyPrint not installed. Run: pip install weasyprint''
                    else ''Error converting to PDF: '' @ exn_str e]\<rparr>)"
proof -
  obtain result f1 where ran:
    "run_process late_import_tools (cmd_html ''b.md'' (html_file_of ''b.md''))
       (cwd one_doc_world) (files one_doc_world) = (Inr result, f1)"
    and rc: "returncode result = 0"
    by (simp add: run_defs)
  have imp: "import_module late_import_tools = Inr ()"
    by (simp add: run_defs)
  obtain e f2 where wr:
    "write_pdf late_import_tools (html_file_of ''b.md'') ''b.pdf'' (cwd one_doc_world) f1
       = (Inl e, f2)"
    and exc: "isinstance e Exception" and cls: "isinstance e ImportError"
    by (simp add: run_defs)
  from markdown_to_pdf_render_failed [OF ran rc imp wr exc] ran rc imp wr exc cls
  show ?thesis by blast
qed

section \<open>The removal of the HTML file fails\<close>

lemma pdf_step_cleanup_failed:
  assumes "import_module T = Inr u" and "write_pdf T h p (cwd w) (files w) = (Inr v, f)"
    and "\<not> is_file f (abspath w h)"
  shows "run_state (pdf_step T h p) w
     = (Inl (if f (abspath w h) = None then ENOENT h else EISDIR h),
        w\<lparr>files := f,
          out := out w @ [''  Step 2: Converting HTML to PDF...'',
                          ''  '' @ tick @ '' PDF generated: '' @ p]\<rparr>)"
proof -
  let ?w2 = "w\<lparr>files := f, out := out w @ [''  Step 2: Converting HTML to PDF...'',
                                          ''  '' @ tick @ '' PDF generated: '' @ p]\<rparr>"
  have "run_state (os_remove h) ?w2
      = (Inl (if f (abspath w h) = None then ENOENT h else EISDIR h), ?w2)"
  proof (cases "f (abspath w h)")
    case None
    then have "\<not> exists_at ?w2 h" by (simp add: exists_at_def lookup_def abspath_def)
    with None show ?thesis by (simp add: os_remove_missing)
  next
    case (Some st)
    with assms(3) have "is_dir ?w2 h"
      by (cases "st_type st") (simp_all add: is_file_def is_dir_def lookup_def abspath_def)
    with Some show ?thesis by (simp add: os_remove_dir)
  qed
  with assms(1,2) show ?thesis
    by (simp add: pdf_step_run html_write_pdf_run)
qed

text \<open>
  C16: When both tools succeeded and the HTML file is not a regular file afterwards
  (it is gone, or it is a directory), \<open>os.remove\<close> raises, the \<open>except\<close> clause reports
  it, and \<open>markdown_to_pdf\<close> returns \<open>False\<close> although the PDF has been written.
\<close>

theorem markdown_to_pdf_cleanup_failed:
  assumes "run_process T (cmd_html md (html_file_of md)) (cwd w) (files w) = (Inr result, f1)"
    and "returncode result = 0"
    and "import_module T = Inr u"
    and "write_pdf T (html_file_of md) pdf (cwd w) f1 = (Inr v, f2)"
    and "\<not> is_file f2 (abspath w (html_file_of md))"
  shows "run_state (markdown_to_pdf T md pdf) w =
     (Inr False,
      w\<lparr>files := f2,
        out := out w @ html_done_lines md
               @ [''  Step 2: Converting HTML to PDF...'',
                  ''  '' @ tick @ '' PDF generated: '' @ pdf,
                  ''Error converting to PDF: ''
                    @ exn_str (if f2 (abspath w (html_file_of md)) = None
                               then ENOENT (html_file_of md) else EISDIR (html_file_of md))]\<rparr>)"
proof -
  let ?w1 = "w\<lparr>files := f1, out := out w @ html_done_lines md\<rparr>"
  from assms(3-5) pdf_step_cleanup_failed [of T u "html_file_of md" pdf ?w1 v f2]
  have "run_state (pdf_step T (html_file_of md) pdf) ?w1
      = (Inl (if f2 (abspath w (html_file_of md)) = None
              then ENOENT (html_file_of md) else EISDIR (html_file_of md)),
         ?w1\<lparr>files := f2,
             out := out ?w1 @ [''  Step 2: Converting HTML to PDF...'',
                               ''  '' @ tick @ '' PDF generated: '' @ pdf]\<rparr>)"
    by (simp add: abspath_def)
  then show ?thesis
    by (simp add: markdown_to_pdf_after_html [OF assms(1,2)] pdf_except_run)
qed

theorem markdown_to_pdf_cleanup_failed_witness:
  "\<exists>result f1 f2.
     run_process tidy_renderer_tools (cmd_html ''b.md'' (html_file_of ''b.md''))
       (cwd one_doc_world) (files one_doc_world) = (Inr result, f1) \<and>
     returncode result = 0 \<and> import_module tidy_renderer_tools = Inr () \<and>
     write_pdf tidy_renderer_tools (html_file_of ''b.md'') ''b.pdf'' (cwd one_doc_world) f1
       = (Inr (), f2) \<and>
     \<not> is_file f2 (abspath one_doc_world (html_file_of ''b.md'')) \<and>
     nonempty_file f2 ''/w/b.pdf'' \<and>
     run_state (markdown_to_pdf tidy_renderer_tools ''b.md'' ''b.pdf'') one_doc_world =
       (Inr False,
        one_doc_world\<lparr>files := f2,
          out := out one_doc_world @ html_done_lines ''b.md''
                 @ [''  Step 2: Converting HTML to PDF...'',
                    ''  '' @ tick @ '' PDF generated: '' @ ''b.pdf'',
                    ''Error converting to PDF: ''
                      @ exn_str (if f2 (abspath one_doc_world (html_file_of ''b.md'')) = None
                                 then ENOENT (html_file_of ''b.md'')
                                 else EISDIR (html_file_of ''b.md''))]\<rparr>)"
proof -
  obtain result f1 where ran:
    "run_process tidy_renderer_tools (cmd_html ''b.md'' (html_file_of ''b.md''))
       (cwd one_doc_world) (files one_doc_world) = (Inr result, f1)"
    and rc: "returncode result = 0"
    and f1: "f1 = (files one_doc_world)(''/w/b.html'' \<mapsto> regular 4512)"
    by (simp add: run_defs)
  have imp: "import_module tidy_renderer_tools = Inr ()"
    by (simp add: run_defs)
  obtain f2 where wr:
    "write_pdf tidy_renderer_tools (html_file_of ''b.md'') ''b.pdf'' (cwd one_doc_world) f1
       = (Inr (), f2)"
    and gone: "\<not> is_file f2 (abspath one_doc_world (html_file_of ''b.md''))"
    and pdf: "nonempty_file f2 ''/w/b.pdf''"
    by (simp add: run_defs f1 is_file_def nonempty_file_def)
  from markdown_to_pdf_cleanup_failed [OF ran rc imp wr gone] ran rc imp wr gone pdf
  show ?thesis by blast
qed

section \<open>Success\<close>

text \<open>
  C13: When both tools succeeded and the HTML file is a regular file afterwards,
  \<open>markdown_to_pdf\<close> returns \<open>True\<close>; the files are those the renderer left without the
  HTML file, and the output has the six lines of a successful conversion.
\<close>

theorem markdown_to_pdf_succeeds:
  assumes "run_process T (cmd_html md (html_file_of md)) (cwd w) (files w) = (Inr result, f1)"
    and "returncode result = 0"
    and "import_module T = Inr u"
    and "write_pdf T (html_file_of md) pdf (cwd w) f1 = (Inr v, f2)"
    and "is_file f2 (abspath w (html_file_of md))"
  shows "run_state (markdown_to_pdf T md pdf) w =
     (Inr True,
      w\<lparr>files := f2(abspath w (html_file_of md) := None),
        out := out w @ html_done_lines md
               @ [''  Step 2: Converting HTML to PDF...'',
                  ''  '' @ tick @ '' PDF generated: '' @ pdf,
                  ''  '' @ tick @ '' Cleaned up temporary HTML file'']\<rparr>)"
proof -
  let ?w1 = "w\<lparr>files := f1, out := out w @ html_done_lines md\<rparr>"
  from assms(3-5) pdf_step_written [of T u "html_file_of md" pdf ?w1 v f2]
  have "run_state (pdf_step T (html_file_of md) pdf) ?w1
      = (Inr True,
         ?w1\<lparr>files := f2(abspath ?w1 (html_file_of md) := None),
             out := out ?w1 @ [''  Step 2: Converting HTML to PDF...'',
                               ''  '' @ tick @ '' PDF generated: '' @ pdf,
                               ''  '' @ tick @ '' Cleaned up temporary HTML file'']\<rparr>)"
    by (simp add: abspath_def)
  then show ?thesis
    by (simp add: markdown_to_pdf_after_html [OF assms(1,2)] abspath_def)
qed

theorem markdown_to_pdf_succeeds_witness:
  "\<exists>result f1 f2.
     run_process demo_tools (cmd_html ''b.md'' (html_file_of ''b.md''))
       (cwd one_doc_world) (files one_doc_world) = (Inr result, f1) \<and>
     returncode result = 0 \<and> import_module demo_tools = Inr () \<and>
     write_pdf demo_tools (html_file_of ''b.md'') ''b.pdf'' (cwd one_doc_world) f1 = (Inr (), f2) \<and>
     is_file f2 (abspath one_doc_world (html_file_of ''b.md'')) \<and>
     run_state (markdown_to_pdf demo_tools ''b.md'' ''b.pdf'') one_doc_world =
       (Inr True,
        one_doc_world\<lparr>files := f2(abspath one_doc_world (html_file_of ''b.md'') := None),
          out := out one_doc_world @ html_done_lines ''b.md''
                 @ [''  Step 2: Converting HTML to PDF...'',
                    ''  '' @ tick @ '' PDF generated: '' @ ''b.pdf'',
                    ''  '' @ tick @ '' Cleaned up temporary HTML file'']\<rparr>)"
proof -
  obtain result f1 where ran:
    "run_process demo_tools (cmd_html ''b.md'' (html_file_of ''b.md''))
       (cwd one_doc_world) (files one_doc_world) = (Inr result, f1)"
    and rc: "returncode result = 0"
    and f1: "f1 = (files one_doc_world)(''/w/b.html'' \<mapsto> regular 4512)"
    by (simp add: run_defs)
  have imp: "import_module demo_tools = Inr ()"
    by (simp add: run_defs)
  obtain f2 where wr:
    "write_pdf demo_tools (html_file_of ''b.md'') ''b.pdf'' (cwd one_doc_world) f1 = (Inr (), f2)"
    and html: "is_file f2 (abspath one_doc_world (html_file_of ''b.md''))"
    by (simp add: run_defs f1 is_file_def)
  from markdown_to_pdf_succeeds [OF ran rc imp wr html] ran rc imp wr html
  show ?thesis by blast
qed

section \<open>Which built-in exceptions the clauses catch\<close>

text \<open>
  Of Python's built-in classes, \<open>ModuleNotFoundError\<close> and every class derived from
  \<open>ImportError\<close> get the hint to install WeasyPrint; \<open>FileNotFoundError\<close>,
  \<open>UnicodeDecodeError\<close> and \<open>RuntimeError\<close> are reported with their text;
  \<open>KeyboardInterrupt\<close> and \<open>SystemExit\<close> are not caught.
\<close>

theorem pdf_except_builtin_classes:
  "run_state (pdf_except (Exn ModuleNotFoundError m)) w =
     (Inr False, printed w [''Error: WeasyPrint not installed. Run: pip install weasyprint'']) \<and>
   run_state (pdf_except (Exn (Derived name ImportError) m)) w =
     (Inr False, printed w [''Error: WeasyPrint not installed. Run: pip install weasyprint'']) \<and>
   run_state (pdf_except (Exn FileNotFoundError m)) w =
     (Inr False, printed w [''Error converting to PDF: '' @ m]) \<and>
   run_state (pdf_except (Exn UnicodeDecodeError m)) w =
     (Inr False, printed w [''Error converting to PDF: '' @ m]) \<and>
   run_state (pdf_except (Exn RuntimeError m)) w =
     (Inr False, printed w [''Error converting to PDF: '' @ m]) \<and>
   run_state (pdf_except (Exn KeyboardInterrupt m)) w = (Inl (Exn KeyboardInterrupt m), w) \<and>
   run_state (pdf_except (Exn SystemExit m)) w = (Inl (Exn SystemExit m), w)"
  by (simp add: pdf_except_run isinstance_def issubclass_def mro.simps)

end
