(* ===== verification/BatchSpec.thy ===== *)
theory BatchSpec
  imports Prelude
begin

text \<open>
  The batch converter as \<open>spec.md\<close> describes it, without files, processes or text.

  A job is a pair of a source and an output name; its outcome is a
  \<open>conversion_result\<close> (section 3 of the specification, with the failures of section
  7 as the reasons). The four things a job does to the outside world are the fields of
  the interface \<open>steps\<close>, over any type \<open>'f\<close> of stores: the test for the source, the
  conversion to HTML, the rendering to PDF and the removal of the HTML file.
  \<open>job_spec\<close> has one rule for each outcome that section 4.1 lists, \<open>batch_spec\<close> runs
  the jobs in list order, and \<open>tally\<close> is the pair of counts of the summary.

  \<open>run_job\<close> and \<open>run_jobs\<close> compute the one outcome the rules allow. The lemmas are
  those a client of the interface needs: the rules are deterministic and total, there
  is one result for each job, the two counts add up to the number of jobs, a
  property of the store that every step keeps is kept by the whole batch, and a job
  gives the same result in two stores that its steps cannot tell apart.
\<close>

section \<open>Jobs and results\<close>

type_synonym job = "string \<times> string"

datatype reason =
    ExternalToolFailure string
  | RenderingLibraryMissing
  | RenderingFailure string

datatype conversion_result =
    Succeeded
  | SourceMissing
  | ConversionFailed reason

record 'f steps =
  source_exists :: "job \<Rightarrow> 'f \<Rightarrow> bool"
  to_html :: "job \<Rightarrow> 'f \<Rightarrow> (string + unit) \<times> 'f"
  to_pdf :: "job \<Rightarrow> 'f \<Rightarrow> (reason + unit) \<times> 'f"
  cleanup :: "job \<Rightarrow> 'f \<Rightarrow> 'f"

section \<open>One job\<close>

inductive job_spec :: "'f steps \<Rightarrow> job \<Rightarrow> 'f \<Rightarrow> conversion_result \<Rightarrow> 'f \<Rightarrow> bool"
  for E :: "'f steps" and j :: job where
  missing:
    "\<not> source_exists E j s \<Longrightarrow> job_spec E j s SourceMissing s"
| tool_failed:
    "source_exists E j s \<Longrightarrow> to_html E j s = (Inl err, s1) \<Longrightarrow>
     job_spec E j s (ConversionFailed (ExternalToolFailure err)) s1"
| render_failed:
    "source_exists E j s \<Longrightarrow> to_html E j s = (Inr (), s1) \<Longrightarrow> to_pdf E j s1 = (Inl r, s2) \<Longrightarrow>
     job_spec E j s (ConversionFailed r) s2"
| succeeded:
    "source_exists E j s \<Longrightarrow> to_html E j s = (Inr (), s1) \<Longrightarrow> to_pdf E j s1 = (Inr (), s2) \<Longrightarrow>
     job_spec E j s Succeeded (cleanup E j s2)"

definition run_job :: "'f steps \<Rightarrow> job \<Rightarrow> 'f \<Rightarrow> conversion_result \<times> 'f" where
  "run_job E j s =
     (if \<not> source_exists E j s then (SourceMissing, s)
      else case to_html E j s of
             (Inl err, s1) \<Rightarrow> (ConversionFailed (ExternalToolFailure err), s1)
           | (Inr _, s1) \<Rightarrow>
               (case to_pdf E j s1 of
                  (Inl r, s2) \<Rightarrow> (ConversionFailed r, s2)
                | (Inr _, s2) \<Rightarrow> (Succeeded, cleanup E j s2)))"

section \<open>The batch\<close>

inductive batch_spec ::
  "'f steps \<Rightarrow> job list \<Rightarrow> 'f \<Rightarrow> conversion_result list \<Rightarrow> 'f \<Rightarrow> bool"
  for E :: "'f steps" where
  finished: "batch_spec E [] s [] s"
| job: "job_spec E j s r s1 \<Longrightarrow> batch_spec E js s1 rs s' \<Longrightarrow> batch_spec E (j # js) s (r # rs) s'"

fun run_jobs :: "'f steps \<Rightarrow> job list \<Rightarrow> 'f \<Rightarrow> conversion_result list \<times> 'f" where
  "run_jobs E [] s = ([], s)"
| "run_jobs E (j # js) s =
     (case run_job E j s of (r, s1) \<Rightarrow>
        (case run_jobs E js s1 of (rs, s') \<Rightarrow> (r # rs, s')))"

definition succeeded_count :: "conversion_result list \<Rightarrow> nat" where
  "succeeded_count rs = length (filter (\<lambda>r. r = Succeeded) rs)"

definition failed_count :: "conversion_result list \<Rightarrow> nat" where
  "failed_count rs = length (filter (\<lambda>r. r \<noteq> Succeeded) rs)"

definition tally :: "conversion_result list \<Rightarrow> int \<times> int" where
  "tally rs = (int (succeeded_count rs), int (failed_count rs))"

text \<open>
  A property of the store that each of the three changing steps keeps, for the jobs of
  a set \<open>J\<close>.
\<close>

definition step_invariant :: "'f steps \<Rightarrow> job set \<Rightarrow> ('f \<Rightarrow> bool) \<Rightarrow> bool" where
  "step_invariant E J I \<longleftrightarrow>
     (\<forall>j \<in> J. \<forall>s. I s \<longrightarrow>
        I (snd (to_html E j s)) \<and> I (snd (to_pdf E j s)) \<and> I (cleanup E j s))"

text \<open>
  A relation between stores that the steps of a job respect: in related stores the
  test for the source and the results of the two conversions agree, and the stores
  after each step are related again.
\<close>

definition step_congruence :: "'f steps \<Rightarrow> job \<Rightarrow> ('f \<Rightarrow> 'f \<Rightarrow> bool) \<Rightarrow> bool" where
  "step_congruence E j R \<longleftrightarrow>
     (\<forall>s t. R s t \<longrightarrow>
        source_exists E j s = source_exists E j t \<and>
        fst (to_html E j s) = fst (to_html E j t) \<and>
        R (snd (to_html E j s)) (snd (to_html E j t)) \<and>
        fst (to_pdf E j s) = fst (to_pdf E j t) \<and>
        R (snd (to_pdf E j s)) (snd (to_pdf E j t)) \<and>
        R (cleanup E j s) (cleanup E j t))"

inductive_cases job_spec_SourceMissingE: "job_spec E j s SourceMissing s'"
inductive_cases job_spec_SucceededE: "job_spec E j s Succeeded s'"
inductive_cases job_spec_ConversionFailedE: "job_spec E j s (ConversionFailed r) s'"
inductive_cases batch_spec_NilE: "batch_spec E [] s rs s'"
inductive_cases batch_spec_ConsE: "batch_spec E (j # js) s rs s'"

inductive_simps batch_spec_Nil [simp]: "batch_spec E [] s rs s'"
inductive_simps batch_spec_Cons: "batch_spec E (j # js) s rs s'"

section \<open>The rules compute\<close>

lemma job_spec_run_job: "job_spec E j s (fst (run_job E j s)) (snd (run_job E j s))"
  by (auto simp: run_job_def split: prod.splits sum.splits intro: job_spec.intros)

lemma job_spec_unique: "job_spec E j s r s' \<Longrightarrow> run_job E j s = (r, s')"
  by (induction rule: job_spec.induct) (simp_all add: run_job_def)

lemma job_spec_iff: "job_spec E j s r s' \<longleftrightarrow> run_job E j s = (r, s')"
  using job_spec_run_job [of E j s] by (auto dest: job_spec_unique)

lemma batch_spec_iff: "batch_spec E js s rs s' \<longleftrightarrow> run_jobs E js s = (rs, s')"
proof (induction js arbitrary: s rs)
  case Nil
  show ?case by auto
next
  case (Cons j js)
  show ?case
    by (cases "run_job E j s"; cases rs)
      (auto simp: batch_spec_Cons job_spec_iff Cons.IH split: prod.splits)
qed

lemma batch_spec_deterministic:
  "batch_spec E js s rs s' \<Longrightarrow> batch_spec E js s rs' s'' \<Longrightarrow> rs' = rs \<and> s'' = s'"
  by (simp add: batch_spec_iff)

lemma batch_spec_total: "\<exists>rs s'. batch_spec E js s rs s'"
  by (simp add: batch_spec_iff)

lemma run_job_succeeds:
  assumes "source_exists E j s" and "fst (to_html E j s) = Inr ()"
    and "fst (to_pdf E j (snd (to_html E j s))) = Inr ()"
  shows "fst (run_job E j s) = Succeeded"
  using assms
  by (cases "to_html E j s"; cases "to_pdf E j (snd (to_html E j s))") (simp add: run_job_def)

lemma run_job_missing: "\<not> source_exists E j s \<Longrightarrow> run_job E j s = (SourceMissing, s)"
  by (simp add: run_job_def)

section \<open>One result for each job\<close>

lemma batch_spec_length: "batch_spec E js s rs s' \<Longrightarrow> length rs = length js"
  by (induction rule: batch_spec.induct) simp_all

lemma run_jobs_length [simp]: "length (fst (run_jobs E js s)) = length js"
  using batch_spec_length [of E js s] by (simp add: batch_spec_iff prod_eq_iff)

lemma succeeded_failed_count: "succeeded_count rs + failed_count rs = length rs"
  unfolding succeeded_count_def failed_count_def by (rule sum_length_filter_compl)

lemma succeeded_count_simps [simp]:
  "succeeded_count [] = 0"
  "succeeded_count (r # rs) = (if r = Succeeded then 1 else 0) + succeeded_count rs"
  by (simp_all add: succeeded_count_def)

lemma failed_count_simps [simp]:
  "failed_count [] = 0"
  "failed_count (r # rs) = (if r = Succeeded then 0 else 1) + failed_count rs"
  by (simp_all add: failed_count_def)

lemma batch_spec_append:
  "batch_spec E js s rs s1 \<Longrightarrow> batch_spec E js' s1 rs' s' \<Longrightarrow>
   batch_spec E (js @ js') s (rs @ rs') s'"
  by (induction rule: batch_spec.induct) (auto intro: batch_spec.intros)

section \<open>Invariants of the store\<close>

lemma job_spec_invariant:
  assumes "job_spec E j s r s'" and "step_invariant E J I" and "j \<in> J" and "I s"
  shows "I s'"
  using assms
proof (induction rule: job_spec.induct)
  case (tool_failed s err s1)
  then show ?case by (metis step_invariant_def snd_conv)
next
  case (render_failed s s1 r s2)
  then show ?case by (metis step_invariant_def snd_conv)
next
  case (succeeded s s1 s2)
  then show ?case by (metis step_invariant_def snd_conv)
qed

lemma step_invariant_mono: "step_invariant E J I \<Longrightarrow> K \<subseteq> J \<Longrightarrow> step_invariant E K I"
  by (auto simp: step_invariant_def)

lemma batch_spec_invariant:
  "batch_spec E js s rs s' \<Longrightarrow> step_invariant E (set js) I \<Longrightarrow> I s \<Longrightarrow> I s'"
proof (induction rule: batch_spec.induct)
  case (finished s)
  then show ?case by simp
next
  case (job j s r s1 js rs s')
  from job.hyps(1) job.prems have "I s1" by (auto intro: job_spec_invariant)
  moreover from job.prems(1) have "step_invariant E (set js) I"
    by (rule step_invariant_mono) auto
  ultimately show ?case by (rule job.IH [rotated])
qed

section \<open>Related stores\<close>

text \<open>A job gives the same result in related stores and leaves related stores.\<close>

lemma run_job_congruence:
  assumes "step_congruence E j R" and "R s t"
  shows "fst (run_job E j s) = fst (run_job E j t) \<and> R (snd (run_job E j s)) (snd (run_job E j t))"
proof -
  note step = assms(1) [unfolded step_congruence_def, rule_format]
  from step [OF assms(2)] have src: "source_exists E j s = source_exists E j t"
    and html: "fst (to_html E j s) = fst (to_html E j t)"
    and R1: "R (snd (to_html E j s)) (snd (to_html E j t))"
    by simp_all
  from step [OF R1] have pdf: "fst (to_pdf E j (snd (to_html E j s))) = fst (to_pdf E j (snd (to_html E j t)))"
    and R2: "R (snd (to_pdf E j (snd (to_html E j s)))) (snd (to_pdf E j (snd (to_html E j t))))"
    by simp_all
  from step [OF R2] have R3: "R (cleanup E j (snd (to_pdf E j (snd (to_html E j s)))))
    (cleanup E j (snd (to_pdf E j (snd (to_html E j t)))))" by simp
  from src html pdf assms(2) R1 R2 R3 show ?thesis
    by (cases "to_html E j s"; cases "to_html E j t";
        cases "to_pdf E j (snd (to_html E j s))"; cases "to_pdf E j (snd (to_html E j t))")
      (auto simp: run_job_def split: sum.splits)
qed

end
