(* ===== verification/Refinement.thy ===== *)
theory Refinement
  imports Branches BatchSpec
begin

text \<open>
  The script implements the specification of \<open>BatchSpec\<close>.

  \<open>steps_of T\<close> instantiates the interface of the specification with the file system
  of \<open>FileSys\<close> as the store and the tools \<open>T\<close>: the test for the source is
  \<open>Path.exists\<close>, the conversion to HTML is the \<open>pandoc\<close> process with the command
  line of \<open>markdown_to_pdf\<close>, the rendering is the import followed by \<open>write_pdf\<close>, and
  the removal is \<open>os.remove\<close> of the HTML file. \<open>fs_of\<close> forgets the output of a state
  of the script and \<open>with_out\<close> puts an output back; \<open>job_lines\<close> is what the script
  prints for a job with a given result, and \<open>report\<close> is everything it prints for a
  list of results.

  The specification has no exception: \<open>steps_of\<close> turns one from \<open>subprocess.run\<close>
  into a failure of the tool and classifies every other one as the \<open>except\<close> clauses
  do. Under the contracts neither an exception from \<open>subprocess.run\<close> nor a failed
  removal occurs; what the script does without them is in \<open>Converter\<close> and
  \<open>Branches\<close>.

  The refinement lemmas say that under the contracts of \<open>Contracts\<close> a run of the
  script and a run of the specification agree: the loop body and \<open>run_job\<close>, the first
  loop and \<open>run_jobs\<close>, and \<open>run_batch\<close> and \<open>run_jobs\<close> followed by the report. The
  counters are the \<open>tally\<close> of the results, the files are those the specification
  leaves, and the output is a function of the results and of the final files.
\<close>

section \<open>From the tools to the steps of the specification\<close>

definition fs_of :: "world \<Rightarrow> fs" where
  "fs_of w = \<lparr>cwd = cwd w, files = files w\<rparr>"

definition with_out :: "fs \<Rightarrow> string list \<Rightarrow> world" where
  "with_out s ls = \<lparr>cwd = cwd s, files = files s, out = ls\<rparr>"

text \<open>The reason that the \<open>except\<close> clauses of lines 53 to 58 report for an exception.\<close>

definition failure_of :: "exn \<Rightarrow> reason" where
  "failure_of e =
     (if isinstance e ImportError then RenderingLibraryMissing
      else RenderingFailure (exn_str e))"

definition steps_of :: "tools \<Rightarrow> fs steps" where
  "steps_of T =
     \<lparr>source_exists = (\<lambda>j s. exists_at s (fst j)),
      to_html = (\<lambda>j s.
        case run_process T (cmd_html (fst j) (html_file_of (fst j))) (cwd s) (files s) of
          (Inl e, f) \<Rightarrow> (Inl (exn_str e), s\<lparr>files := f\<rparr>)
        | (Inr cp, f) \<Rightarrow>
            (if returncode cp \<noteq> 0 then Inl (proc_stderr cp) else Inr (), s\<lparr>files := f\<rparr>)),
      to_pdf = (\<lambda>j s.
        case import_module T of
          Inl e \<Rightarrow> (Inl (failure_of e), s)
        | Inr _ \<Rightarrow>
            (case write_pdf T (html_file_of (fst j)) (snd j) (cwd s) (files s) of
               (Inl e, f) \<Rightarrow> (Inl (failure_of e), s\<lparr>files := f\<rparr>)
             | (Inr _, f) \<Rightarrow> (Inr (), s\<lparr>files := f\<rparr>))),
      cleanup = (\<lambda>j s. s\<lparr>files := (files s)(abspath s (html_file_of (fst j)) := None)\<rparr>)\<rparr>"

section \<open>From the results to the counters and the output\<close>

text \<open>Lines 82 to 91: the counter that a result increments.\<close>

definition count_result :: "conversion_result \<Rightarrow> int \<times> int \<Rightarrow> int \<times> int" where
  "count_result r counts =
     (case counts of (success_count, fail_count) \<Rightarrow>
        if r = Succeeded then (success_count + 1, fail_count)
        else (success_count, fail_count + 1))"

text \<open>The lines that the loop body prints for a job, by its result.\<close>

definition job_lines :: "job \<Rightarrow> conversion_result \<Rightarrow> string list" where
  "job_lines j r =
     (case j of (md_file, pdf_file) \<Rightarrow>
        let started = [''Converting '' @ md_file @ '' to PDF...'',
                       ''  Step 1: Generating HTML from Markdown...''];
            html_done = [''  '' @ tick @ '' HTML generated: '' @ html_file_of md_file]
        in case r of
             SourceMissing \<Rightarrow> [warning_sign @ '' File not found: '' @ md_file, []]
           | ConversionFailed (ExternalToolFailure err) \<Rightarrow>
               started @ [''Error converting to HTML: '' @ err, []]
           | ConversionFailed RenderingLibraryMissing \<Rightarrow>
               started @ html_done @
               [''Error: WeasyPrint not installed. Run: pip install weasyprint'', []]
           | ConversionFailed (RenderingFailure msg) \<Rightarrow>
               started @ html_done @
               [''  Step 2: Converting HTML to PDF...'', ''Error converting to PDF: '' @ msg, []]
           | Succeeded \<Rightarrow>
               started @ html_done @
               [''  Step 2: Converting HTML to PDF...'',
                ''  '' @ tick @ '' PDF generated: '' @ pdf_file,
                ''  '' @ tick @ '' Cleaned up temporary HTML file'', []])"

definition transcript :: "job list \<Rightarrow> conversion_result list \<Rightarrow> string list" where
  "transcript docs rs = concat (map (\<lambda>(j, r). job_lines j r) (zip docs rs))"

text \<open>Everything \<open>run_batch\<close> prints, from the results and the files at the end.\<close>

definition report :: "job list \<Rightarrow> conversion_result list \<Rightarrow> fs \<Rightarrow> string list" where
  "report docs rs s =
     [rule60, ''IOC_Config Documentation - PDF Generation'', rule60, []]
     @ transcript docs rs
     @ [rule60, summary_line (int (succeeded_count rs)) (int (failed_count rs)), rule60,
        CHR 0x0A # ''Generated PDF files:'']
     @ map (listing_line s) docs"

text \<open>The script is in the directory \<open>d\<close> and \<open>d\<close> is an existing directory.\<close>

definition dir_at :: "path \<Rightarrow> fs \<Rightarrow> bool" where
  "dir_at d s \<longleftrightarrow> cwd s = d \<and> cwd_ok s"

lemmas refinement_defs =
  fs_of_def with_out_def failure_of_def steps_of_def count_result_def job_lines_def
  transcript_def report_def

section \<open>States with and without output\<close>

lemma fs_of_with_out [simp]: "fs_of (with_out s ls) = s"
  by (simp add: fs_of_def with_out_def)

lemma with_out_fs_of [simp]: "with_out (fs_of w) (out w) = w"
  by (simp add: fs_of_def with_out_def)

lemma with_out_sel [simp]:
  "cwd (with_out s ls) = cwd s" "files (with_out s ls) = files s" "out (with_out s ls) = ls"
  by (simp_all add: with_out_def)

lemma fs_of_sel [simp]: "cwd (fs_of w) = cwd w" "files (fs_of w) = files w"
  by (simp_all add: fs_of_def)

lemma with_out_files_update:
  "with_out ((fs_of w)\<lparr>files := f\<rparr>) ls = w\<lparr>files := f, out := ls\<rparr>"
  by (simp add: fs_of_def with_out_def)

lemma with_out_unchanged: "with_out (fs_of w) ls = w\<lparr>out := ls\<rparr>"
  by (simp add: fs_of_def with_out_def)

lemma with_out_printed [simp]: "printed (with_out s ls) ls' = with_out s (ls @ ls')"
  by (simp add: with_out_def)

lemma lookup_fs_of [simp]: "lookup (fs_of w) p = lookup w p"
  by (simp add: lookup_def abspath_def)

lemma exists_at_fs_of [simp]: "exists_at (fs_of w) p = exists_at w p"
  by (simp add: exists_at_def)

lemma abspath_fs_of [simp]: "abspath (fs_of w) p = abspath w p"
  by (simp add: abspath_def)

lemma lookup_with_out [simp]: "lookup (with_out s ls) p = lookup s p"
  by (simp add: lookup_def abspath_def)

lemma listing_line_with_out [simp]: "listing_line (with_out s ls) doc = listing_line s doc"
  by (simp add: listing_line_def)

lemma source_exists_steps_of [simp]: "source_exists (steps_of T) j s = exists_at s (fst j)"
  by (simp add: steps_of_def)

lemma failure_of_not_tool [simp]: "failure_of e \<noteq> ExternalToolFailure err"
  by (simp add: failure_of_def)

section \<open>One job\<close>

lemma run_job_steps_of_missing:
  "\<not> exists_at s md \<Longrightarrow> run_job (steps_of T) (md, pdf) s = (SourceMissing, s)"
  by (simp add: run_job_def steps_of_def)

lemmas job_refines_simps =
  markdown_to_pdf_run subprocess_run_run run_job_def steps_of_def job_lines_def
  with_out_files_update pdf_except_run failure_of_def

lemma markdown_to_pdf_refines:
  assumes ok: "tools_ok T" and src: "exists_at w md"
  shows "run_state (markdown_to_pdf T md pdf) w =
     (case run_job (steps_of T) (md, pdf) (fs_of w) of
        (r, s') \<Rightarrow> (Inr (r = Succeeded), with_out s' (out w @ butlast (job_lines (md, pdf) r))))"
  using ok
proof (cases rule: tools_ok_cases [where md = md and html = "html_file_of md" and pdf = pdf
      and dir = "cwd w" and f = "files w"])
  case (tool_failed cp f1)
  with src show ?thesis by (simp add: job_refines_simps)
next
  case (no_library cp f1 e)
  with src show ?thesis by (simp add: job_refines_simps pdf_step_import_failed)
next
  case (render_failed cp f1 e f2)
  with src show ?thesis by (simp add: job_refines_simps pdf_step_render_failed)
next
  case (rendered cp f1 f2)
  have "is_file f2 (join_path (cwd w) (html_file_of md))"
  proof (cases "join_path (cwd w) (html_file_of md) = join_path (cwd w) pdf")
    case True
    with rendered(8) show ?thesis by (simp add: nonempty_file_is_file)
  next
    case False
    with rendered(4,7) show ?thesis by (simp add: is_file_only_changes)
  qed
  with rendered src show ?thesis
    by (simp add: job_refines_simps pdf_step_written abspath_def with_out_def)
qed

lemma convert_one_refines:
  assumes "tools_ok T"
  shows "run_state (convert_one T (md, pdf) counts) w =
     (case run_job (steps_of T) (md, pdf) (fs_of w) of
        (r, s') \<Rightarrow> (Inr (count_result r counts), with_out s' (out w @ job_lines (md, pdf) r)))"
proof (cases "exists_at w md")
  case False
  then show ?thesis
    by (cases counts)
      (simp add: convert_one_run run_job_steps_of_missing count_result_def job_lines_def
        with_out_unchanged)
next
  case True
  have last: "job_lines (md, pdf) r = butlast (job_lines (md, pdf) r) @ [[]]" for r
    by (simp add: job_lines_def Let_def split: conversion_result.splits reason.splits)
  obtain r s' where run: "run_job (steps_of T) (md, pdf) (fs_of w) = (r, s')"
    by (cases "run_job (steps_of T) (md, pdf) (fs_of w)")
  with markdown_to_pdf_refines [OF assms True, of pdf] last [of r] True show ?thesis
    by (cases counts) (simp add: convert_one_run count_result_def)
qed

section \<open>The first loop and the whole batch\<close>

lemma run_job_cwd: "run_job (steps_of T) j s = (r, s') \<Longrightarrow> cwd s' = cwd s"
  by (auto simp: run_job_def steps_of_def split: prod.splits sum.splits if_splits)

lemma transcript_Nil [simp]: "transcript [] rs = []"
  by (simp add: transcript_def)

lemma transcript_Cons [simp]:
  "transcript (j # js) (r # rs) = job_lines j r @ transcript js rs"
  by (simp add: transcript_def)

lemma convert_loop_refines:
  assumes "tools_ok T"
  shows "run_state (convert_loop T docs (s, f)) w =
     (case run_jobs (steps_of T) docs (fs_of w) of
        (rs, s') \<Rightarrow>
          (Inr (s + int (succeeded_count rs), f + int (failed_count rs)),
           with_out s' (out w @ transcript docs rs)))"
proof (induction docs arbitrary: w s f)
  case Nil
  show ?case by simp
next
  case (Cons doc docs)
  obtain md pdf where doc: "doc = (md, pdf)" by (cases doc)
  obtain r s1 where job: "run_job (steps_of T) (md, pdf) (fs_of w) = (r, s1)"
    by (cases "run_job (steps_of T) (md, pdf) (fs_of w)")
  let ?w1 = "with_out s1 (out w @ job_lines (md, pdf) r)"
  from convert_one_refines [OF assms, of md pdf "(s, f)" w] job
  have one: "run_state (convert_one T (md, pdf) (s, f)) w = (Inr (count_result r (s, f)), ?w1)"
    by simp
  obtain rs s' where jobs: "run_jobs (steps_of T) docs s1 = (rs, s')"
    by (cases "run_jobs (steps_of T) docs s1")
  obtain s1c f1c where counts: "count_result r (s, f) = (s1c, f1c)"
    by (cases "count_result r (s, f)")
  from Cons.IH [of s1c f1c ?w1] jobs
  have loop: "run_state (convert_loop T docs (s1c, f1c)) ?w1 =
      (Inr (s1c + int (succeeded_count rs), f1c + int (failed_count rs)),
       with_out s' (out w @ job_lines (md, pdf) r @ transcript docs rs))"
    by simp
  from counts have "s1c = s + (if r = Succeeded then 1 else 0)"
    and "f1c = f + (if r = Succeeded then 0 else 1)"
    by (auto simp: count_result_def split: if_splits)
  with one counts loop job jobs doc show ?case by simp
qed

lemma convert_loop_result_tally:
  assumes "tools_ok T"
  shows "result_of (convert_loop T docs (0, 0)) w
           = Inr (tally (fst (run_jobs (steps_of T) docs (fs_of w))))"
  by (simp add: convert_loop_refines [OF assms] tally_def split: prod.splits)

lemma run_batch_refines:
  assumes "tools_ok T"
  shows "run_state (run_batch T docs) w =
     (case run_jobs (steps_of T) docs (fs_of w) of
        (rs, s') \<Rightarrow> (Inr (), with_out s' (out w @ report docs rs s')))"
proof -
  let ?w0 = "printed w [rule60, ''IOC_Config Documentation - PDF Generation'', rule60, []]"
  have "fs_of ?w0 = fs_of w" by (simp add: fs_of_def)
  with convert_loop_refines [OF assms, of docs 0 0 ?w0] show ?thesis
    by (simp add: run_batch_run report_def split: prod.splits)
qed

section \<open>What a job of the specification does to the files\<close>

lemma run_job_cases:
  assumes "tools_ok T"
  obtains (missing) "\<not> exists_at s md" and "run_job (steps_of T) (md, pdf) s = (SourceMissing, s)"
  | (failed) r f where "exists_at s md"
      and "run_job (steps_of T) (md, pdf) s = (ConversionFailed r, s\<lparr>files := f\<rparr>)"
      and "only_changes {abspath s (html_file_of md), abspath s pdf} (files s) f"
      and "(\<exists>err. r = ExternalToolFailure err) \<longrightarrow>
           only_changes {abspath s (html_file_of md)} (files s) f"
  | (succeeded) f where "exists_at s md"
      and "run_job (steps_of T) (md, pdf) s
             = (Succeeded, s\<lparr>files := f(abspath s (html_file_of md) := None)\<rparr>)"
      and "only_changes {abspath s (html_file_of md), abspath s pdf} (files s) f"
      and "nonempty_file f (abspath s pdf)"
proof (cases "exists_at s md")
  case False
  then show thesis by (simp add: missing run_job_steps_of_missing)
next
  case src: True
  let ?job = "run_job (steps_of T) (md, pdf) s"
  have widen: "only_changes {abspath s (html_file_of md), abspath s pdf} (files s) g"
    if "only_changes {join_path (cwd s) (html_file_of md)} (files s) g" for g
    using that by (simp add: only_changes_def abspath_def)
  from assms show thesis
  proof (cases rule: tools_ok_cases [where md = md and html = "html_file_of md" and pdf = pdf
        and dir = "cwd s" and f = "files s"])
    case (tool_failed cp f1)
    with src have "?job = (ConversionFailed (ExternalToolFailure (proc_stderr cp)), s\<lparr>files := f1\<rparr>)"
      by (simp add: run_job_def steps_of_def)
    with src tool_failed(3) widen [OF tool_failed(3)] show thesis
      by (auto intro: failed simp: abspath_def)
  next
    case (no_library cp f1 e)
    with src have "?job = (ConversionFailed (failure_of e), s\<lparr>files := f1\<rparr>)"
      by (simp add: run_job_def steps_of_def)
    with src widen [OF no_library(3)] show thesis by (auto intro: failed)
  next
    case (render_failed cp f1 e f2)
    with src have "?job = (ConversionFailed (failure_of e), s\<lparr>files := f2\<rparr>)"
      by (simp add: run_job_def steps_of_def)
    with src only_changes_pair [OF render_failed(3,9)] show thesis
      by (auto intro: failed simp: abspath_def)
  next
    case (rendered cp f1 f2)
    with src have "?job = (Succeeded, s\<lparr>files := f2(abspath s (html_file_of md) := None)\<rparr>)"
      by (simp add: run_job_def steps_of_def)
    with src only_changes_pair [OF rendered(3,7)] rendered(8) show thesis
      by (auto intro: succeeded simp: abspath_def)
  qed
qed

lemma run_job_frame:
  assumes "tools_ok T" and "run_job (steps_of T) j s = (r, s')"
  shows "only_changes (set (artefacts_of (cwd s) j)) (files s) (files s')"
proof -
  obtain md pdf where j: "j = (md, pdf)" by (cases j)
  from assms(1) show ?thesis
    by (cases rule: run_job_cases [where s = s and md = md and pdf = pdf])
      (use assms(2) j in \<open>auto simp: artefacts_of_def abspath_def intro: only_changes_then_upd\<close>)
qed

lemma run_jobs_cwd: "run_jobs (steps_of T) docs s = (rs, s') \<Longrightarrow> cwd s' = cwd s"
  by (induction docs arbitrary: s rs) (auto split: prod.splits dest: run_job_cwd)

lemma run_jobs_frame:
  assumes "tools_ok T"
  shows "run_jobs (steps_of T) docs s = (rs, s') \<Longrightarrow>
         only_changes (set (artefacts (cwd s) docs)) (files s) (files s')"
proof (induction docs arbitrary: s rs)
  case Nil
  then show ?case by simp
next
  case (Cons doc docs)
  from Cons.prems obtain r s1 rs1 where job: "run_job (steps_of T) doc s = (r, s1)"
    and rest: "run_jobs (steps_of T) docs s1 = (rs1, s')"
    by (auto split: prod.splits)
  from run_job_frame [OF assms job] Cons.IH [OF rest] run_job_cwd [OF job] show ?case
    by (auto dest: only_changes_trans)
qed

text \<open>
  The job at position \<open>i\<close> starts in a state that differs from the initial one on the
  artefacts of the jobs before it only, and the batch ends in a state that differs
  from the one this job leaves on the artefacts of the jobs after it only.
\<close>

lemma run_jobs_nth:
  assumes "tools_ok T" and "run_jobs (steps_of T) docs s = (rs, s')" and "i < length docs"
  shows "\<exists>si si'. run_job (steps_of T) (docs ! i) si = (rs ! i, si') \<and> cwd si = cwd s \<and>
           only_changes (set (artefacts (cwd s) (take i docs))) (files s) (files si) \<and>
           only_changes (set (artefacts (cwd s) (drop (Suc i) docs))) (files si') (files s')"
  using assms(2-)
proof (induction docs arbitrary: s rs i)
  case Nil
  then show ?case by simp
next
  case (Cons doc docs)
  from Cons.prems(1) obtain r s1 rs1 where job: "run_job (steps_of T) doc s = (r, s1)"
    and rest: "run_jobs (steps_of T) docs s1 = (rs1, s')" and rs: "rs = r # rs1"
    by (auto split: prod.splits)
  note cwd1 = run_job_cwd [OF job]
  show ?case
  proof (cases i)
    case 0
    from run_jobs_frame [OF assms(1) rest] cwd1
    have "only_changes (set (artefacts (cwd s) (drop (Suc 0) (doc # docs)))) (files s1) (files s')"
      by simp
    with job rs 0 show ?thesis
      by (intro exI [of _ s] exI [of _ s1]) simp
  next
    case (Suc k)
    with Cons.prems have k: "k < length docs" by simp
    from Cons.IH [OF rest k] obtain si si' where
      nth: "run_job (steps_of T) (docs ! k) si = (rs1 ! k, si')" and cwd: "cwd si = cwd s1"
      and before: "only_changes (set (artefacts (cwd s1) (take k docs))) (files s1) (files si)"
      and after: "only_changes (set (artefacts (cwd s1) (drop (Suc k) docs))) (files si') (files s')"
      by blast
    from only_changes_trans [OF run_job_frame [OF assms(1) job] before] cwd1
    have "only_changes (set (artefacts (cwd s) (take (Suc k) (doc # docs)))) (files s) (files si)"
      by simp
    with nth cwd after cwd1 rs Suc show ?thesis by auto
  qed
qed

section \<open>A job inside a batch\<close>

lemma run_batch_cwd: "cwd (state_of (run_batch T docs) w) = cwd w"
  using run_batch_extends [of T docs] by (auto simp: state_io_rel_def extends_def prod_eq_iff)

lemma run_batch_final_files:
  assumes "tools_ok T"
  shows "fs_of (state_of (run_batch T docs) w) = snd (run_jobs (steps_of T) docs (fs_of w))"
  by (simp add: run_batch_refines [OF assms] split: prod.splits)

text \<open>
  The state in which job \<open>i\<close> of a batch starts and the state it leaves, when no two
  jobs share an artefact: on the two artefacts of the job the first agrees with the
  state before the batch and the second with the state after it.
\<close>

lemma job_of_batch:
  assumes "tools_ok T" and "distinct (artefacts (cwd w) docs)" and "i < length docs"
    and "docs ! i = (md, pdf)"
  obtains si si' where
    "run_job (steps_of T) (md, pdf) si = (fst (run_jobs (steps_of T) docs (fs_of w)) ! i, si')"
    and "cwd si = cwd w"
    and "\<forall>p \<in> {abspath w (html_file_of md), abspath w pdf}.
           files si p = files w p \<and> files (state_of (run_batch T docs) w) p = files si' p"
    and "abspath w (html_file_of md) \<noteq> abspath w pdf"
proof -
  let ?html = "abspath w (html_file_of md)" and ?pdf = "abspath w pdf"
  obtain rs s' where jobs: "run_jobs (steps_of T) docs (fs_of w) = (rs, s')"
    by (cases "run_jobs (steps_of T) docs (fs_of w)")
  from run_jobs_nth [OF assms(1) jobs assms(3)] assms(4) obtain si si' where
    job: "run_job (steps_of T) (md, pdf) si = (rs ! i, si')" and cwd: "cwd si = cwd w"
    and before: "only_changes (set (artefacts (cwd w) (take i docs))) (files w) (files si)"
    and after: "only_changes (set (artefacts (cwd w) (drop (Suc i) docs))) (files si') (files s')"
    by auto
  from run_batch_final_files [OF assms(1), of docs w] jobs
  have final: "files (state_of (run_batch T docs) w) = files s'"
    by (metis fs_of_sel(2) snd_conv)
  from distinct_artefacts_nth [OF assms(2,3)] assms(4)
  have "?html \<noteq> ?pdf"
    and "{?html, ?pdf} \<inter> set (artefacts (cwd w) (take i docs)) = {}"
    and "{?html, ?pdf} \<inter> set (artefacts (cwd w) (drop (Suc i) docs)) = {}"
    by (simp_all add: artefacts_of_def abspath_def)
  with before after final job cwd jobs that show thesis
    by (auto simp: only_changes_def)
qed

section \<open>The working directory stays\<close>

text \<open>
  The steps of a job keep the working directory when it is none of the job's
  artefacts; the lemma is the premise of \<open>batch_spec_invariant\<close> for \<open>steps_of\<close>.
\<close>

lemma steps_of_keep_directory:
  assumes "tools_ok T" and "d \<notin> set (artefacts d docs)"
  shows "step_invariant (steps_of T) (set docs) (dir_at d)"
  unfolding step_invariant_def
proof (intro ballI allI impI)
  fix j s assume j: "j \<in> set docs" and inv: "dir_at d s"
  obtain md pdf where [simp]: "j = (md, pdf)" by (cases j)
  from j assms(2) have html: "join_path d (html_file_of md) \<noteq> d" and pdf: "join_path d pdf \<noteq> d"
    by (auto simp: artefacts_def artefacts_of_def)
  from assms(1) have pandoc: "pandoc_contract T" and renderer: "renderer_contract T"
    by (simp_all add: tools_ok_def)
  from pandoc obtain cp f1 where
    "run_process T (cmd_html md (html_file_of md)) (cwd s) (files s) = (Inr cp, f1)"
    and "only_changes {join_path (cwd s) (html_file_of md)} (files s) f1"
    unfolding pandoc_contract_def by blast
  with inv html have 1: "dir_at d (snd (to_html (steps_of T) j s))"
    by (auto simp: steps_of_def dir_at_def cwd_ok_def only_changes_def)
  from renderer have 2: "dir_at d (snd (to_pdf (steps_of T) j s))"
    by (rule renderer_contract_run [where html = "html_file_of md" and pdf = pdf
          and dir = "cwd s" and f = "files s"])
      (use inv pdf in \<open>auto simp: steps_of_def dir_at_def cwd_ok_def only_changes_def
        split: sum.splits\<close>)
  from inv html have 3: "dir_at d (cleanup (steps_of T) j s)"
    by (auto simp: steps_of_def dir_at_def cwd_ok_def abspath_def)
  from 1 2 3 show "dir_at d (snd (to_html (steps_of T) j s)) \<and>
      dir_at d (snd (to_pdf (steps_of T) j s)) \<and> dir_at d (cleanup (steps_of T) j s)"
    by blast
qed

section \<open>The script simulates the specification\<close>

text \<open>
  C9: Under the contracts of the tools, for every list of documents, the part of
  \<open>main\<close> after \<open>os.chdir\<close> returns normally, the files it leaves are those that the
  specification \<open>batch_spec\<close> leaves for some list of results, and its output is the
  report of these results.
\<close>

theorem run_batch_simulates:
  assumes "tools_ok T"
  shows "\<exists>rs s'. batch_spec (steps_of T) docs (fs_of w) rs s' \<and>
           run_state (run_batch T docs) w = (Inr (), with_out s' (out w @ report docs rs s'))"
  by (simp add: batch_spec_iff run_batch_refines [OF assms] split: prod.splits)

theorem run_batch_simulates_witness:
  "tools_ok demo_tools \<and>
   (\<exists>rs s'. batch_spec (steps_of demo_tools) [(''b.md'', ''b.pdf'')] (fs_of one_doc_world) rs s' \<and>
      run_state (run_batch demo_tools [(''b.md'', ''b.pdf'')]) one_doc_world
        = (Inr (), with_out s' (out one_doc_world @ report [(''b.md'', ''b.pdf'')] rs s')))"
  using run_batch_simulates [OF tools_ok_demo_tools, of "[(''b.md'', ''b.pdf'')]" one_doc_world]
    tools_ok_demo_tools
  by blast

text \<open>
  C10: Under the contracts of the tools the two counters at the end of the first loop are the
  \<open>tally\<close> of the results of the specification: the number of jobs that succeeded and
  the number of all other jobs.
\<close>

theorem convert_loop_tally_refines:
  assumes "tools_ok T"
  shows "result_of (convert_loop T docs (0, 0)) w
           = Inr (tally (fst (run_jobs (steps_of T) docs (fs_of w))))"
  using assms by (rule convert_loop_result_tally)

theorem convert_loop_tally_refines_witness:
  "tools_ok demo_tools \<and>
   result_of (convert_loop demo_tools [(''b.md'', ''b.pdf'')] (0, 0)) one_doc_world
     = Inr (tally (fst (run_jobs (steps_of demo_tools) [(''b.md'', ''b.pdf'')]
                          (fs_of one_doc_world))))"
  using convert_loop_tally_refines [OF tools_ok_demo_tools, of "[(''b.md'', ''b.pdf'')]" one_doc_world]
    tools_ok_demo_tools
  by blast

end
