(* ===== verification/Pipeline.thy ===== *)
theory Pipeline
  imports Branches
begin

text \<open>
  \<open>markdown_to_pdf\<close> as a state machine, one transition for each statement that calls
  a tool or the operating system or that decides where control goes.

  A configuration is a control point of lines 10 to 58 together with the state of the
  world at that point. \<open>job_step\<close> is the transition relation, \<open>next_config\<close> the
  function that computes the one successor of a configuration, and \<open>steps_from\<close> runs
  it with a bound on the number of transitions. The machine shows what
  \<open>markdown_to_pdf\<close> hides: the states in between, in which the process can be
  stopped. Its lemmas relate it to the function (the final configuration it reaches
  is the result of \<open>markdown_to_pdf\<close>), bound the length of a run by seven
  transitions, and establish by induction over the reachable configurations where
  the HTML file exists.
\<close>

section \<open>Configurations\<close>

datatype phase =
    Started
  | Spawning
  | Converted completed_process
  | Importing
  | Rendering
  | Cleaning
  | Handling exn
  | Returned bool
  | Raised exn

type_synonym config = "phase \<times> world"

text \<open>The configuration in which a run with result \<open>r\<close> ends.\<close>

definition final_of :: "exn + bool \<Rightarrow> phase" where
  "final_of r = (case r of Inl e \<Rightarrow> Raised e | Inr b \<Rightarrow> Returned b)"

fun is_final :: "phase \<Rightarrow> bool" where
  "is_final (Returned b) = True"
| "is_final (Raised e) = True"
| "is_final _ = False"

text \<open>The number of transitions that a run can still make, at most.\<close>

fun phase_rank :: "phase \<Rightarrow> nat" where
  "phase_rank Started = 7"
| "phase_rank Spawning = 6"
| "phase_rank (Converted cp) = 5"
| "phase_rank Importing = 4"
| "phase_rank Rendering = 3"
| "phase_rank Cleaning = 2"
| "phase_rank (Handling e) = 1"
| "phase_rank (Returned b) = 0"
| "phase_rank (Raised e) = 0"

section \<open>Transitions\<close>

inductive job_step :: "tools \<Rightarrow> string \<Rightarrow> string \<Rightarrow> config \<Rightarrow> config \<Rightarrow> bool"
  for T :: tools and md_file pdf_file :: string where
  announce:
    "job_step T md_file pdf_file (Started, w)
       (Spawning, printed w [''Converting '' @ md_file @ '' to PDF...'',
                             ''  Step 1: Generating HTML from Markdown...''])"
| spawned:
    "run_process T (cmd_html md_file (html_file_of md_file)) (cwd w) (files w) = (Inr cp, f) \<Longrightarrow>
     job_step T md_file pdf_file (Spawning, w) (Converted cp, w\<lparr>files := f\<rparr>)"
| spawn_raised:
    "run_process T (cmd_html md_file (html_file_of md_file)) (cwd w) (files w) = (Inl e, f) \<Longrightarrow>
     job_step T md_file pdf_file (Spawning, w) (Raised e, w\<lparr>files := f\<rparr>)"
| html_failed:
    "returncode cp \<noteq> 0 \<Longrightarrow>
     job_step T md_file pdf_file (Converted cp, w)
       (Returned False, printed w [''Error converting to HTML: '' @ proc_stderr cp])"
| html_generated:
    "returncode cp = 0 \<Longrightarrow>
     job_step T md_file pdf_file (Converted cp, w)
       (Importing, printed w [''  '' @ tick @ '' HTML generated: '' @ html_file_of md_file])"
| imported:
    "import_module T = Inr u \<Longrightarrow>
     job_step T md_file pdf_file (Importing, w)
       (Rendering, printed w [''  Step 2: Converting HTML to PDF...''])"
| import_raised:
    "import_module T = Inl e \<Longrightarrow>
     job_step T md_file pdf_file (Importing, w) (Handling e, w)"
| rendered:
    "write_pdf T (html_file_of md_file) pdf_file (cwd w) (files w) = (Inr u, f) \<Longrightarrow>
     job_step T md_file pdf_file (Rendering, w)
       (Cleaning, w\<lparr>files := f, out := out w @ [''  '' @ tick @ '' PDF generated: '' @ pdf_file]\<rparr>)"
| render_raised:
    "write_pdf T (html_file_of md_file) pdf_file (cwd w) (files w) = (Inl e, f) \<Longrightarrow>
     job_step T md_file pdf_file (Rendering, w) (Handling e, w\<lparr>files := f\<rparr>)"
| cleaned:
    "run_state (os_remove (html_file_of md_file)) w = (Inr u, w') \<Longrightarrow>
     job_step T md_file pdf_file (Cleaning, w)
       (Returned True, printed w' [''  '' @ tick @ '' Cleaned up temporary HTML file''])"
| clean_raised:
    "run_state (os_remove (html_file_of md_file)) w = (Inl e, w') \<Longrightarrow>
     job_step T md_file pdf_file (Cleaning, w) (Handling e, w')"
| handled:
    "run_state (pdf_except e) w = (Inr b, w') \<Longrightarrow>
     job_step T md_file pdf_file (Handling e, w) (Returned b, w')"
| escaped:
    "run_state (pdf_except e) w = (Inl e', w') \<Longrightarrow>
     job_step T md_file pdf_file (Handling e, w) (Raised e', w')"

text \<open>The successor of a configuration; a final configuration has none.\<close>

definition next_config :: "tools \<Rightarrow> string \<Rightarrow> string \<Rightarrow> config \<Rightarrow> config option" where
  "next_config T md_file pdf_file c =
     (case c of (ph, w) \<Rightarrow>
        (case ph of
           Started \<Rightarrow>
             Some (Spawning, printed w [''Converting '' @ md_file @ '' to PDF...'',
                                        ''  Step 1: Generating HTML from Markdown...''])
         | Spawning \<Rightarrow>
             (case run_process T (cmd_html md_file (html_file_of md_file)) (cwd w) (files w) of
                (Inl e, f) \<Rightarrow> Some (Raised e, w\<lparr>files := f\<rparr>)
              | (Inr cp, f) \<Rightarrow> Some (Converted cp, w\<lparr>files := f\<rparr>))
         | Converted cp \<Rightarrow>
             (if returncode cp \<noteq> 0
              then Some (Returned False,
                         printed w [''Error converting to HTML: '' @ proc_stderr cp])
              else Some (Importing,
                         printed w [''  '' @ tick @ '' HTML generated: '' @ html_file_of md_file]))
         | Importing \<Rightarrow>
             (case import_module T of
                Inl e \<Rightarrow> Some (Handling e, w)
              | Inr _ \<Rightarrow> Some (Rendering, printed w [''  Step 2: Converting HTML to PDF...'']))
         | Rendering \<Rightarrow>
             (case write_pdf T (html_file_of md_file) pdf_file (cwd w) (files w) of
                (Inl e, f) \<Rightarrow> Some (Handling e, w\<lparr>files := f\<rparr>)
              | (Inr _, f) \<Rightarrow>
                  Some (Cleaning,
                        w\<lparr>files := f,
                          out := out w @ [''  '' @ tick @ '' PDF generated: '' @ pdf_file]\<rparr>))
         | Cleaning \<Rightarrow>
             (case run_state (os_remove (html_file_of md_file)) w of
                (Inl e, w') \<Rightarrow> Some (Handling e, w')
              | (Inr _, w') \<Rightarrow>
                  Some (Returned True,
                        printed w' [''  '' @ tick @ '' Cleaned up temporary HTML file'']))
         | Handling e \<Rightarrow>
             (case run_state (pdf_except e) w of (r, w') \<Rightarrow> Some (final_of r, w'))
         | Returned b \<Rightarrow> None
         | Raised e \<Rightarrow> None))"

text \<open>At most \<open>n\<close> transitions from a configuration.\<close>

definition steps_from :: "tools \<Rightarrow> string \<Rightarrow> string \<Rightarrow> nat \<Rightarrow> config \<Rightarrow> config" where
  "steps_from T md_file pdf_file n c = fuel_run (next_config T md_file pdf_file) n c"

text \<open>The configurations of a run that starts in the state \<open>w0\<close>.\<close>

inductive reachable :: "tools \<Rightarrow> string \<Rightarrow> string \<Rightarrow> world \<Rightarrow> config \<Rightarrow> bool"
  for T :: tools and md_file pdf_file :: string and w0 :: world where
  start: "reachable T md_file pdf_file w0 (Started, w0)"
| step: "reachable T md_file pdf_file w0 c \<Longrightarrow> job_step T md_file pdf_file c c' \<Longrightarrow>
         reachable T md_file pdf_file w0 c'"

text \<open>
  What holds of the files at each control point when the tools keep their contracts:
  \<open>h\<close> is the HTML file and \<open>p\<close> the PDF, as absolute paths.
\<close>

definition phase_inv :: "path \<Rightarrow> path \<Rightarrow> phase \<Rightarrow> files \<Rightarrow> bool" where
  "phase_inv h p ph f =
     (case ph of
        Started \<Rightarrow> True
      | Spawning \<Rightarrow> True
      | Converted cp \<Rightarrow> returncode cp = 0 \<longrightarrow> is_file f h
      | Importing \<Rightarrow> is_file f h
      | Rendering \<Rightarrow> is_file f h
      | Cleaning \<Rightarrow> is_file f h \<and> nonempty_file f p
      | Handling e \<Rightarrow> isinstance e Exception \<and> is_file f h
      | Returned b \<Rightarrow> b \<longrightarrow> f h = None \<and> nonempty_file f p
      | Raised e \<Rightarrow> False)"

definition config_inv :: "string \<Rightarrow> string \<Rightarrow> world \<Rightarrow> config \<Rightarrow> bool" where
  "config_inv md_file pdf_file w0 c =
     (case c of (ph, w) \<Rightarrow>
        cwd w = cwd w0 \<and> prefix (out w0) (out w) \<and>
        phase_inv (abspath w0 (html_file_of md_file)) (abspath w0 pdf_file) ph (files w))"

inductive_cases job_step_StartedE: "job_step T md pdf (Started, w) c'"
inductive_cases job_step_SpawningE: "job_step T md pdf (Spawning, w) c'"
inductive_cases job_step_ConvertedE: "job_step T md pdf (Converted cp, w) c'"
inductive_cases job_step_ImportingE: "job_step T md pdf (Importing, w) c'"
inductive_cases job_step_RenderingE: "job_step T md pdf (Rendering, w) c'"
inductive_cases job_step_CleaningE: "job_step T md pdf (Cleaning, w) c'"
inductive_cases job_step_HandlingE: "job_step T md pdf (Handling e, w) c'"
inductive_cases job_step_ReturnedE: "job_step T md pdf (Returned b, w) c'"
inductive_cases job_step_RaisedE: "job_step T md pdf (Raised e, w) c'"

lemmas job_step_elims =
  job_step_StartedE job_step_SpawningE job_step_ConvertedE job_step_ImportingE
  job_step_RenderingE job_step_CleaningE job_step_HandlingE job_step_ReturnedE job_step_RaisedE

section \<open>The relation and the function agree\<close>

lemma final_of_simps [simp]: "final_of (Inl e) = Raised e" "final_of (Inr b) = Returned b"
  by (simp_all add: final_of_def)

lemma is_final_final_of [simp]: "is_final (final_of r)"
  by (cases r) simp_all

lemma job_step_next_config:
  "job_step T md pdf c c' \<Longrightarrow> next_config T md pdf c = Some c'"
  by (induction rule: job_step.induct) (simp_all add: next_config_def)

lemma next_config_job_step:
  assumes "next_config T md pdf c = Some c'"
  shows "job_step T md pdf c c'"
proof -
  obtain ph w where c: "c = (ph, w)" by (cases c)
  show ?thesis
  proof (cases ph)
    case (Handling e)
    with assms c show ?thesis
      by (cases "run_state (pdf_except e) w"; cases "fst (run_state (pdf_except e) w)")
        (auto simp: next_config_def intro: job_step.intros)
  qed (use assms c in \<open>auto simp: next_config_def simp del: append_Cons intro: job_step.intros
        split: prod.splits sum.splits if_splits\<close>)
qed

lemma job_step_iff: "job_step T md pdf c c' \<longleftrightarrow> next_config T md pdf c = Some c'"
  by (blast intro: job_step_next_config next_config_job_step)

lemma job_step_deterministic:
  "job_step T md pdf c c1 \<Longrightarrow> job_step T md pdf c c2 \<Longrightarrow> c1 = c2"
  by (simp add: job_step_iff)

lemma next_config_final: "next_config T md pdf (ph, w) = None \<longleftrightarrow> is_final ph"
  by (cases ph) (simp_all add: next_config_def split: prod.splits sum.splits)

lemma final_no_step: "is_final ph \<Longrightarrow> \<not> job_step T md pdf (ph, w) c'"
  using next_config_final [of T md pdf ph w] by (simp add: job_step_iff)

section \<open>Every run ends within seven transitions\<close>

lemma job_step_rank:
  "job_step T md pdf c c' \<Longrightarrow> phase_rank (fst c') < phase_rank (fst c)"
  by (induction rule: job_step.induct) simp_all

lemma job_step_successor: "job_step T md pdf = successor (next_config T md pdf)"
  by (intro ext) (simp add: job_step_iff)

lemma steps_from_0 [simp]: "steps_from T md pdf 0 c = c"
  by (simp add: steps_from_def)

lemma steps_from_Suc:
  "steps_from T md pdf (Suc n) c =
     (case next_config T md pdf c of None \<Rightarrow> c | Some c' \<Rightarrow> steps_from T md pdf n c')"
  by (simp add: steps_from_def split: option.splits)

lemma steps_from_final [simp]: "is_final ph \<Longrightarrow> steps_from T md pdf n (ph, w) = (ph, w)"
  using next_config_final [of T md pdf ph w] by (simp add: steps_from_def)

lemma next_config_rank:
  "next_config T md pdf c = Some c' \<Longrightarrow> phase_rank (fst c') < phase_rank (fst c)"
  by (simp add: job_step_rank job_step_iff)

lemma steps_from_reaches_final:
  assumes "phase_rank (fst c) \<le> n"
  shows "is_final (fst (steps_from T md pdf n c))"
  using fuel_run_ends [of "next_config T md pdf" "phase_rank \<circ> fst" c n] assms
    next_config_final [of T md pdf "fst (steps_from T md pdf n c)" "snd (steps_from T md pdf n c)"]
  by (simp add: next_config_rank steps_from_def)

lemma steps_from_rtranclp: "(job_step T md pdf)\<^sup>*\<^sup>* c (steps_from T md pdf n c)"
  unfolding job_step_successor steps_from_def by (rule fuel_run_rtranclp)

section \<open>The machine computes \<open>markdown_to_pdf\<close>\<close>

lemma next_config_simps:
  "next_config T md pdf (Started, w) =
     Some (Spawning, printed w [''Converting '' @ md @ '' to PDF...'',
                                ''  Step 1: Generating HTML from Markdown...''])"
  "next_config T md pdf (Spawning, w) =
     (case run_process T (cmd_html md (html_file_of md)) (cwd w) (files w) of
        (Inl e, f) \<Rightarrow> Some (Raised e, w\<lparr>files := f\<rparr>)
      | (Inr cp, f) \<Rightarrow> Some (Converted cp, w\<lparr>files := f\<rparr>))"
  "next_config T md pdf (Converted cp, w) =
     (if returncode cp \<noteq> 0
      then Some (Returned False, printed w [''Error converting to HTML: '' @ proc_stderr cp])
      else Some (Importing, printed w [''  '' @ tick @ '' HTML generated: '' @ html_file_of md]))"
  "next_config T md pdf (Importing, w) =
     (case import_module T of
        Inl e \<Rightarrow> Some (Handling e, w)
      | Inr u \<Rightarrow> Some (Rendering, printed w [''  Step 2: Converting HTML to PDF...'']))"
  "next_config T md pdf (Rendering, w) =
     (case write_pdf T (html_file_of md) pdf (cwd w) (files w) of
        (Inl e, f) \<Rightarrow> Some (Handling e, w\<lparr>files := f\<rparr>)
      | (Inr u, f) \<Rightarrow>
          Some (Cleaning,
                w\<lparr>files := f, out := out w @ [''  '' @ tick @ '' PDF generated: '' @ pdf]\<rparr>))"
  "next_config T md pdf (Cleaning, w) =
     (case run_state (os_remove (html_file_of md)) w of
        (Inl e, w') \<Rightarrow> Some (Handling e, w')
      | (Inr u, w') \<Rightarrow>
          Some (Returned True, printed w' [''  '' @ tick @ '' Cleaned up temporary HTML file'']))"
  "next_config T md pdf (Handling e, w) =
     Some (final_of (result_of (pdf_except e) w), state_of (pdf_except e) w)"
  by (simp_all add: next_config_def split: prod.splits)

lemma next_config_final_None [simp]:
  "next_config T md pdf (Returned b, w) = None" "next_config T md pdf (Raised e, w) = None"
  "next_config T md pdf (final_of r, w) = None"
  by (simp_all add: next_config_final)

text \<open>What the machine reaches from each control point, latest first.\<close>

lemma steps_from_Handling:
  "steps_from T md pdf (Suc n) (Handling e, w)
     = (final_of (result_of (pdf_except e) w), state_of (pdf_except e) w)"
  by (simp add: steps_from_Suc next_config_simps)

lemma steps_from_Cleaning:
  "steps_from T md pdf (Suc (Suc n)) (Cleaning, w) =
     (case run_state (os_remove (html_file_of md)) w of
        (Inl e, w1) \<Rightarrow> (final_of (result_of (pdf_except e) w1), state_of (pdf_except e) w1)
      | (Inr u, w1) \<Rightarrow>
          (Returned True, printed w1 [''  '' @ tick @ '' Cleaned up temporary HTML file'']))"
  by (subst steps_from_Suc)
    (simp add: next_config_simps steps_from_Handling split: prod.splits sum.splits)

lemma steps_from_Rendering:
  "steps_from T md pdf (Suc (Suc (Suc n))) (Rendering, w) =
     (case run_state (html_write_pdf T (html_file_of md) pdf) w of
        (Inl e, w1) \<Rightarrow> (final_of (result_of (pdf_except e) w1), state_of (pdf_except e) w1)
      | (Inr u, w1) \<Rightarrow>
          steps_from T md pdf (Suc (Suc n))
            (Cleaning, printed w1 [''  '' @ tick @ '' PDF generated: '' @ pdf]))"
  by (subst steps_from_Suc)
    (simp add: next_config_simps steps_from_Handling html_write_pdf_run
      split: prod.splits sum.splits)

lemma steps_from_Importing:
  "steps_from T md pdf (Suc (Suc (Suc (Suc n)))) (Importing, w) =
     (case run_state (pdf_step T (html_file_of md) pdf) w of
        (Inl e, w1) \<Rightarrow> (final_of (result_of (pdf_except e) w1), state_of (pdf_except e) w1)
      | (Inr b, w1) \<Rightarrow> (Returned b, w1))"
  by (subst steps_from_Suc)
    (simp add: next_config_simps steps_from_Handling steps_from_Rendering steps_from_Cleaning
      pdf_step_run split: prod.splits sum.splits)

lemma steps_from_Converted:
  "steps_from T md pdf (Suc (Suc (Suc (Suc (Suc n))))) (Converted cp, w) =
     (if returncode cp \<noteq> 0
      then (Returned False, printed w [''Error converting to HTML: '' @ proc_stderr cp])
      else steps_from T md pdf (Suc (Suc (Suc (Suc n))))
             (Importing, printed w [''  '' @ tick @ '' HTML generated: '' @ html_file_of md]))"
  by (subst steps_from_Suc) (simp add: next_config_simps)

lemma steps_from_Spawning:
  "steps_from T md pdf (Suc (Suc (Suc (Suc (Suc (Suc n)))))) (Spawning, w) =
     (case run_state (subprocess_run T (cmd_html md (html_file_of md))) w of
        (Inl e, w1) \<Rightarrow> (Raised e, w1)
      | (Inr cp, w1) \<Rightarrow> steps_from T md pdf (Suc (Suc (Suc (Suc (Suc n))))) (Converted cp, w1))"
  by (subst steps_from_Suc)
    (simp add: next_config_simps subprocess_run_run split: prod.splits sum.splits)

lemma steps_from_Started:
  "steps_from T md pdf (Suc (Suc (Suc (Suc (Suc (Suc (Suc n))))))) (Started, w) =
     (case run_state (markdown_to_pdf T md pdf) w of (r, w') \<Rightarrow> (final_of r, w'))"
  by (subst steps_from_Suc)
    (simp add: next_config_simps steps_from_Spawning steps_from_Converted steps_from_Importing
      markdown_to_pdf_run split: prod.splits sum.splits)

lemma steps_from_enough:
  assumes "7 \<le> n"
  shows "steps_from T md pdf n (Started, w) =
     (case run_state (markdown_to_pdf T md pdf) w of (r, w') \<Rightarrow> (final_of r, w'))"
proof -
  from assms obtain m where "n = 7 + m" using le_Suc_ex by blast
  then have "n = Suc (Suc (Suc (Suc (Suc (Suc (Suc m))))))" by simp
  then show ?thesis by (simp only: steps_from_Started)
qed

lemma job_reaches_final:
  "(job_step T md pdf)\<^sup>*\<^sup>* (Started, w)
     (final_of (result_of (markdown_to_pdf T md pdf) w), state_of (markdown_to_pdf T md pdf) w)"
  using steps_from_enough [of 7 T md pdf w] steps_from_rtranclp [of T md pdf "(Started, w)" 7]
  by (simp split: prod.splits)

section \<open>Reachable configurations\<close>

lemma reachable_iff: "reachable T md pdf w0 c \<longleftrightarrow> (job_step T md pdf)\<^sup>*\<^sup>* (Started, w0) c"
proof
  show "reachable T md pdf w0 c \<Longrightarrow> (job_step T md pdf)\<^sup>*\<^sup>* (Started, w0) c"
    by (induction rule: reachable.induct) auto
  show "(job_step T md pdf)\<^sup>*\<^sup>* (Started, w0) c \<Longrightarrow> reachable T md pdf w0 c"
    by (induction rule: rtranclp_induct) (auto intro: reachable.intros)
qed

lemma reachable_steps_from: "reachable T md pdf w0 (steps_from T md pdf n (Started, w0))"
  by (simp add: reachable_iff steps_from_rtranclp)

lemma prefix_printed: "prefix xs (out w) \<Longrightarrow> prefix xs (out w @ ls)"
  by (simp add: prefix_def) (metis append.assoc)

lemma pdf_except_returns_False:
  "run_state (pdf_except e) w = (Inr b, w') \<Longrightarrow> \<not> b \<and> files w' = files w"
  by (auto simp: pdf_except_run split: if_splits)

lemma pdf_except_escapes:
  "run_state (pdf_except e) w = (Inl e', w') \<Longrightarrow> \<not> isinstance e Exception"
  by (auto simp: pdf_except_run split: if_splits)

text \<open>A transition stays in the directory and only adds to the output, for all tools.\<close>

lemma job_step_extends:
  "job_step T md pdf c c' \<Longrightarrow> extends (snd c) (snd c')"
proof (induction rule: job_step.induct)
  case (cleaned w u w')
  from state_io_relD [OF os_remove_extends cleaned] show ?case
    by (simp add: extends_def prefix_printed)
next
  case (clean_raised w e w')
  from state_io_relD [OF os_remove_extends clean_raised] show ?case by simp
next
  case (handled e w b w')
  from state_io_relD [OF pdf_except_extends handled] show ?case by simp
next
  case (escaped e w e' w')
  from state_io_relD [OF pdf_except_extends escaped] show ?case by simp
qed (simp_all add: extends_def)

lemma reachable_extends: "reachable T md pdf w0 c \<Longrightarrow> extends w0 (snd c)"
  by (induction rule: reachable.induct) (auto dest: job_step_extends intro: extends_trans)

text \<open>Under the contracts a transition keeps the invariant of the files.\<close>

lemma job_step_phase_inv:
  assumes "tools_ok T" and "join_path (cwd w) (html_file_of md) \<noteq> join_path (cwd w) pdf"
    and "job_step T md pdf (ph, w) (ph', w')"
    and "phase_inv (join_path (cwd w) (html_file_of md)) (join_path (cwd w) pdf) ph (files w)"
  shows "phase_inv (join_path (cwd w) (html_file_of md)) (join_path (cwd w) pdf) ph' (files w')"
proof -
  let ?h = "html_file_of md"
  from assms(1) have pandoc: "pandoc_contract T" and renderer: "renderer_contract T"
    by (simp_all add: tools_ok_def)
  from pandoc obtain cp f1 where
    ran: "run_process T (cmd_html md ?h) (cwd w) (files w) = (Inr cp, f1)"
    and html: "returncode cp = 0 \<longrightarrow> is_file f1 (join_path (cwd w) ?h)"
    unfolding pandoc_contract_def by blast
  have written: "is_file (files w) (join_path (cwd w) ?h) \<Longrightarrow>
      write_pdf T ?h pdf (cwd w) (files w) = (r, f2) \<Longrightarrow>
      is_file f2 (join_path (cwd w) ?h) \<and>
      (case r of Inl e \<Rightarrow> isinstance e Exception | Inr u \<Rightarrow> nonempty_file f2 (join_path (cwd w) pdf))"
    for r f2
    using renderer
    by (rule renderer_contract_run [where html = ?h and pdf = pdf and dir = "cwd w"
          and f = "files w"])
      (use assms(2) in \<open>auto simp: only_changes_def is_file_def\<close>)
  from assms(3,4) show ?thesis
  proof (cases rule: job_step.cases)
    case (cleaned u)
    then show ?thesis
      by (cases rule: os_remove_cases [where s = w and p = ?h])
        (use assms(2,4) in \<open>auto simp: phase_inv_def abspath_def nonempty_file_def\<close>)
  next
    case (clean_raised e)
    then show ?thesis
      by (cases rule: os_remove_cases [where s = w and p = ?h])
        (use assms(4) in \<open>auto simp: phase_inv_def abspath_def is_file_def exists_at_def
          is_dir_def lookup_def split: option.splits\<close>)
  qed (use ran html written renderer in \<open>auto simp: phase_inv_def isinstance_def
        dest!: renderer_contract_import pdf_except_returns_False pdf_except_escapes
        intro: ImportError_is_Exception\<close>)
qed

lemma job_step_preserves_inv:
  assumes "tools_ok T" and "abspath w0 (html_file_of md) \<noteq> abspath w0 pdf"
    and "job_step T md pdf c c'" and "config_inv md pdf w0 c"
  shows "config_inv md pdf w0 c'"
proof -
  obtain ph w ph' w' where c: "c = (ph, w)" "c' = (ph', w')" by (cases c, cases c')
  from assms(4) c have cwd: "cwd w = cwd w0" and out: "prefix (out w0) (out w)"
    by (simp_all add: config_inv_def)
  from job_step_extends [OF assms(3)] c have ext: "cwd w' = cwd w" "prefix (out w) (out w')"
    by (simp_all add: extends_def)
  from job_step_phase_inv [OF assms(1), of w md pdf ph ph' w'] assms(2-4) c cwd
  have "phase_inv (abspath w0 (html_file_of md)) (abspath w0 pdf) ph' (files w')"
    by (simp add: config_inv_def abspath_def)
  with c cwd out ext show ?thesis
    by (auto simp: config_inv_def)
qed

section \<open>Where the HTML file exists\<close>

text \<open>
  C17: When the tools keep their contracts and the PDF is not the HTML file, every
  configuration that a run reaches satisfies \<open>config_inv\<close>: the run is still in its
  directory and has only added output; from the successful end of \<open>pandoc\<close> until the
  function returns, the HTML file is a regular file, so a run that is stopped there
  leaves it behind; it is gone, and the PDF is a non-empty regular file, exactly when
  the function has returned \<open>True\<close>; only instances of \<open>Exception\<close> reach the \<open>except\<close>
  clauses and no exception leaves the function.
\<close>

theorem reachable_config_inv:
  assumes "tools_ok T" and "abspath w0 (html_file_of md) \<noteq> abspath w0 pdf"
    and "reachable T md pdf w0 c"
  shows "config_inv md pdf w0 c"
  using assms(3)
proof (induction rule: reachable.induct)
  case start
  show ?case by (simp add: config_inv_def phase_inv_def)
next
  case (step c c')
  from assms(1,2) step.hyps(2) step.IH show ?case by (rule job_step_preserves_inv)
qed

theorem reachable_config_inv_witness:
  "tools_ok demo_tools \<and>
   abspath one_doc_world (html_file_of ''b.md'') \<noteq> abspath one_doc_world ''b.pdf'' \<and>
   reachable demo_tools ''b.md'' ''b.pdf'' one_doc_world
     (steps_from demo_tools ''b.md'' ''b.pdf'' 5 (Started, one_doc_world)) \<and>
   fst (steps_from demo_tools ''b.md'' ''b.pdf'' 5 (Started, one_doc_world)) = Cleaning \<and>
   config_inv ''b.md'' ''b.pdf'' one_doc_world
     (steps_from demo_tools ''b.md'' ''b.pdf'' 5 (Started, one_doc_world))"
proof -
  have sep: "abspath one_doc_world (html_file_of ''b.md'') \<noteq> abspath one_doc_world ''b.pdf''"
    by (simp add: eval_defs html_file_of_def)
  have five: "(5::nat) = Suc (Suc (Suc (Suc (Suc 0))))" by simp
  have at: "fst (steps_from demo_tools ''b.md'' ''b.pdf'' 5 (Started, one_doc_world)) = Cleaning"
    unfolding five by (simp add: steps_from_Suc next_config_simps run_defs)
  note reach = reachable_steps_from [of demo_tools "''b.md''" "''b.pdf''" one_doc_world 5]
  from reachable_config_inv [OF tools_ok_demo_tools sep reach] tools_ok_demo_tools sep reach at
  show ?thesis by blast
qed

end
