(* ===== verification/MainMachine.thy ===== *)
theory MainMachine
  imports Pipeline
begin

text \<open>
  The whole script as a state machine: \<open>main\<close> (lines 61 to 104 of
  \<open>src/convert_to_pdf.py\<close>) with the machine of \<open>Pipeline\<close> for each call of
  \<open>markdown_to_pdf\<close> inside it.

  A configuration is a control point of \<open>main\<close> and the state of the world there. The
  control point holds what the local variables of \<open>main\<close> hold: the documents the
  first loop has still to visit and the two counters, the control point of the
  running call of \<open>markdown_to_pdf\<close>, the documents the second loop has still to
  list. \<open>main_step\<close> is the transition relation, \<open>next_main\<close> computes the successor of
  a configuration, \<open>main_steps\<close> iterates it with fuel, and \<open>control_rank\<close> bounds the
  transitions that are left. The list of documents is a parameter; \<open>main\<close> is the
  machine for \<open>documents\<close>.

  The lemmas show that the machine is deterministic and never stuck, that every run
  ends within \<open>10 * n + 4\<close> transitions for \<open>n\<close> documents, that it ends in the result
  and state of \<open>main\<close>, and, by induction over the reachable configurations, what
  holds of the counters and of the directory at every control point, also in a run
  that an exception ends later.
\<close>

section \<open>Configurations\<close>

type_synonym docs = "(string \<times> string) list"

datatype control =
    Entry
  | Banner
  | Loop docs "int \<times> int"
  | InJob string string docs "int \<times> int" phase
  | Listing docs
  | Exited
  | Aborted exn

type_synonym mconfig = "control \<times> world"

text \<open>The control point in which a run of \<open>main\<close> with result \<open>r\<close> ends.\<close>

definition exit_of :: "exn + unit \<Rightarrow> control" where
  "exit_of r = (case r of Inl e \<Rightarrow> Aborted e | Inr _ \<Rightarrow> Exited)"

fun halted :: "control \<Rightarrow> bool" where
  "halted Exited = True"
| "halted (Aborted e) = True"
| "halted _ = False"

text \<open>The lines of lines 72 to 75, of lines 89 and 91, and of lines 93 to 98.\<close>

definition banner_lines :: "string list" where
  "banner_lines = [rule60, ''IOC_Config Documentation - PDF Generation'', rule60, []]"

definition missing_lines :: "string \<Rightarrow> string list" where
  "missing_lines md_file = [warning_sign @ '' File not found: '' @ md_file, []]"

definition summary_lines :: "int \<times> int \<Rightarrow> string list" where
  "summary_lines counts =
     (case counts of (success_count, fail_count) \<Rightarrow>
        [rule60, summary_line success_count fail_count, rule60,
         CHR 0x0A # ''Generated PDF files:''])"

text \<open>
  Lines 83, 86 and 90: the counter that is incremented, by the result of
  \<open>markdown_to_pdf\<close>; a missing source counts like the result \<open>False\<close>.
\<close>

definition count_bool :: "bool \<Rightarrow> int \<times> int \<Rightarrow> int \<times> int" where
  "count_bool ok counts =
     (case counts of (success_count, fail_count) \<Rightarrow>
        if ok then (success_count + 1, fail_count) else (success_count, fail_count + 1))"

text \<open>
  The number of transitions that a run for \<open>n\<close> documents can still make, at most: nine
  for each document of the first loop (the test, seven in \<open>markdown_to_pdf\<close>, the
  count), one for each document of the second loop, and one each for \<open>os.chdir\<close>, the
  banner, the summary and the return.
\<close>

fun control_rank :: "nat \<Rightarrow> control \<Rightarrow> nat" where
  "control_rank n Entry = 10 * n + 4"
| "control_rank n Banner = 10 * n + 3"
| "control_rank n (Loop rest counts) = 9 * length rest + n + 2"
| "control_rank n (InJob md_file pdf_file rest counts ph) =
     phase_rank ph + 9 * length rest + n + 3"
| "control_rank n (Listing rest) = length rest + 1"
| "control_rank n Exited = 0"
| "control_rank n (Aborted e) = 0"

section \<open>Transitions\<close>

inductive main_step :: "tools \<Rightarrow> docs \<Rightarrow> mconfig \<Rightarrow> mconfig \<Rightarrow> bool"
  for T :: tools and docs :: docs where
  entered:
    "run_state (os_chdir workdir) w = (Inr u, w') \<Longrightarrow>
     main_step T docs (Entry, w) (Banner, w')"
| enter_raised:
    "run_state (os_chdir workdir) w = (Inl e, w') \<Longrightarrow>
     main_step T docs (Entry, w) (Aborted e, w')"
| announced:
    "main_step T docs (Banner, w) (Loop docs (0, 0), printed w banner_lines)"
| source_missing:
    "\<not> exists_at w md_file \<Longrightarrow>
     main_step T docs (Loop ((md_file, pdf_file) # rest) counts, w)
       (Loop rest (count_bool False counts), printed w (missing_lines md_file))"
| called:
    "exists_at w md_file \<Longrightarrow>
     main_step T docs (Loop ((md_file, pdf_file) # rest) counts, w)
       (InJob md_file pdf_file rest counts Started, w)"
| inside:
    "job_step T md_file pdf_file (ph, w) (ph', w') \<Longrightarrow>
     main_step T docs (InJob md_file pdf_file rest counts ph, w)
       (InJob md_file pdf_file rest counts ph', w')"
| counted:
    "main_step T docs (InJob md_file pdf_file rest counts (Returned ok), w)
       (Loop rest (count_bool ok counts), printed w [[]])"
| job_raised:
    "main_step T docs (InJob md_file pdf_file rest counts (Raised e), w) (Aborted e, w)"
| summarised:
    "main_step T docs (Loop [] counts, w) (Listing docs, printed w (summary_lines counts))"
| listed:
    "run_state (list_one doc) w = (Inr u, w') \<Longrightarrow>
     main_step T docs (Listing (doc # rest), w) (Listing rest, w')"
| list_raised:
    "run_state (list_one doc) w = (Inl e, w') \<Longrightarrow>
     main_step T docs (Listing (doc # rest), w) (Aborted e, w')"
| returned:
    "main_step T docs (Listing [], w) (Exited, w)"

text \<open>The successor of a configuration; a halted configuration has none.\<close>

definition next_main :: "tools \<Rightarrow> docs \<Rightarrow> mconfig \<Rightarrow> mconfig option" where
  "next_main T docs c =
     (case c of (ctl, w) \<Rightarrow>
        (case ctl of
           Entry \<Rightarrow>
             (case run_state (os_chdir workdir) w of
                (Inl e, w') \<Rightarrow> Some (Aborted e, w')
              | (Inr _, w') \<Rightarrow> Some (Banner, w'))
         | Banner \<Rightarrow> Some (Loop docs (0, 0), printed w banner_lines)
         | Loop [] counts \<Rightarrow> Some (Listing docs, printed w (summary_lines counts))
         | Loop ((md_file, pdf_file) # rest) counts \<Rightarrow>
             (if exists_at w md_file then Some (InJob md_file pdf_file rest counts Started, w)
              else Some (Loop rest (count_bool False counts),
                         printed w (missing_lines md_file)))
         | InJob md_file pdf_file rest counts ph \<Rightarrow>
             (case ph of
                Returned ok \<Rightarrow> Some (Loop rest (count_bool ok counts), printed w [[]])
              | Raised e \<Rightarrow> Some (Aborted e, w)
              | _ \<Rightarrow>
                  map_option (\<lambda>(ph', w'). (InJob md_file pdf_file rest counts ph', w'))
                    (next_config T md_file pdf_file (ph, w)))
         | Listing [] \<Rightarrow> Some (Exited, w)
         | Listing (doc # rest) \<Rightarrow>
             (case run_state (list_one doc) w of
                (Inl e, w') \<Rightarrow> Some (Aborted e, w')
              | (Inr _, w') \<Rightarrow> Some (Listing rest, w'))
         | Exited \<Rightarrow> None
         | Aborted e \<Rightarrow> None))"

text \<open>At most \<open>n\<close> transitions from a configuration.\<close>

definition main_steps :: "tools \<Rightarrow> docs \<Rightarrow> nat \<Rightarrow> mconfig \<Rightarrow> mconfig" where
  "main_steps T docs n c = fuel_run (next_main T docs) n c"

text \<open>The configurations of a run that starts at the control point \<open>c0\<close>.\<close>

inductive main_reachable :: "tools \<Rightarrow> docs \<Rightarrow> mconfig \<Rightarrow> mconfig \<Rightarrow> bool"
  for T :: tools and docs :: docs and c0 :: mconfig where
  start: "main_reachable T docs c0 c0"
| step: "main_reachable T docs c0 c \<Longrightarrow> main_step T docs c c' \<Longrightarrow>
         main_reachable T docs c0 c'"

text \<open>
  What holds at each control point of a run over the documents \<open>docs\<close>: the documents
  still to visit are the end of the list, neither counter is negative, and the two
  counters add up to the number of documents that the first loop has finished.
\<close>

definition counts_for :: "docs \<Rightarrow> nat \<Rightarrow> int \<times> int \<Rightarrow> bool" where
  "counts_for docs left counts \<longleftrightarrow>
     (case counts of (success_count, fail_count) \<Rightarrow>
        0 \<le> success_count \<and> 0 \<le> fail_count \<and>
        success_count + fail_count = int (length docs) - int left)"

fun control_inv :: "docs \<Rightarrow> control \<Rightarrow> bool" where
  "control_inv docs (Loop rest counts) \<longleftrightarrow> suffix rest docs \<and> counts_for docs (length rest) counts"
| "control_inv docs (InJob md_file pdf_file rest counts ph) \<longleftrightarrow>
     suffix ((md_file, pdf_file) # rest) docs \<and> counts_for docs (Suc (length rest)) counts"
| "control_inv docs (Listing rest) \<longleftrightarrow> suffix rest docs"
| "control_inv docs _ \<longleftrightarrow> True"

text \<open>The control points at which \<open>os.chdir\<close> has returned.\<close>

fun in_workdir :: "control \<Rightarrow> bool" where
  "in_workdir Entry = False"
| "in_workdir (Aborted e) = False"
| "in_workdir _ = True"

definition main_inv :: "docs \<Rightarrow> world \<Rightarrow> mconfig \<Rightarrow> bool" where
  "main_inv docs w0 c =
     (case c of (ctl, w) \<Rightarrow>
        control_inv docs ctl \<and> prefix (out w0) (out w) \<and> (in_workdir ctl \<longrightarrow> cwd w = workdir))"

inductive_cases main_step_EntryE: "main_step T ds (Entry, w) c'"
inductive_cases main_step_BannerE: "main_step T ds (Banner, w) c'"
inductive_cases main_step_LoopE: "main_step T ds (Loop rest counts, w) c'"
inductive_cases main_step_InJobE: "main_step T ds (InJob md pdf rest counts ph, w) c'"
inductive_cases main_step_ListingE: "main_step T ds (Listing rest, w) c'"
inductive_cases main_step_ExitedE: "main_step T ds (Exited, w) c'"
inductive_cases main_step_AbortedE: "main_step T ds (Aborted e, w) c'"

lemmas main_step_elims =
  main_step_EntryE main_step_BannerE main_step_LoopE main_step_InJobE main_step_ListingE
  main_step_ExitedE main_step_AbortedE

lemmas machine_defs = banner_lines_def missing_lines_def summary_lines_def count_bool_def

section \<open>The relation and the function agree\<close>

lemma exit_of_simps [simp]: "exit_of (Inl e) = Aborted e" "exit_of (Inr u) = Exited"
  by (simp_all add: exit_of_def)

lemma halted_exit_of [simp]: "halted (exit_of r)"
  by (cases r) simp_all

lemma main_step_next_main: "main_step T ds c c' \<Longrightarrow> next_main T ds c = Some c'"
proof (induction rule: main_step.induct)
  case (inside md_file pdf_file ph w ph' w' rest counts)
  then have "next_config T md_file pdf_file (ph, w) = Some (ph', w')" by (simp add: job_step_iff)
  moreover from inside have "\<not> is_final ph" using final_no_step by blast
  ultimately show ?case by (cases ph) (simp_all add: next_main_def)
qed (simp_all add: next_main_def)

lemma next_main_main_step:
  assumes "next_main T ds c = Some c'"
  shows "main_step T ds c c'"
proof -
  obtain ctl w where c: "c = (ctl, w)" by (cases c)
  show ?thesis
  proof (cases ctl)
    case (InJob md pdf rest counts ph)
    show ?thesis
    proof (cases "is_final ph")
      case True
      with assms c InJob show ?thesis
        by (cases ph) (auto simp: next_main_def intro: main_step.intros)
    next
      case False
      with assms c InJob obtain ph' w' where
        "next_config T md pdf (ph, w) = Some (ph', w')" "c' = (InJob md pdf rest counts ph', w')"
        by (cases ph) (auto simp: next_main_def)
      with c InJob show ?thesis by (auto simp: job_step_iff intro: main_step.inside)
    qed
  qed (use assms c in \<open>auto simp: next_main_def intro: main_step.intros
        split: prod.splits sum.splits list.splits if_splits\<close>)
qed

lemma main_step_iff: "main_step T ds c c' \<longleftrightarrow> next_main T ds c = Some c'"
  by (blast intro: main_step_next_main next_main_main_step)

lemma main_step_successor: "main_step T ds = successor (next_main T ds)"
  by (intro ext) (simp add: main_step_iff)

lemma main_step_deterministic: "main_step T ds c c1 \<Longrightarrow> main_step T ds c c2 \<Longrightarrow> c1 = c2"
  by (simp add: main_step_iff)

text \<open>The machine is never stuck: only a halted configuration has no successor.\<close>

lemma next_main_halted: "next_main T ds (ctl, w) = None \<longleftrightarrow> halted ctl"
proof (cases ctl)
  case (InJob md pdf rest counts ph)
  then show ?thesis
    using next_config_final [of T md pdf ph w]
    by (cases ph) (auto simp: next_main_def)
qed (auto simp: next_main_def split: prod.splits sum.splits list.splits)

lemma halted_no_step: "halted ctl \<Longrightarrow> \<not> main_step T ds (ctl, w) c'"
  using next_main_halted [of T ds ctl w] by (simp add: main_step_iff)

section \<open>Every run ends\<close>

lemma main_step_rank:
  "main_step T ds c c' \<Longrightarrow> control_rank (length ds) (fst c') < control_rank (length ds) (fst c)"
proof (induction rule: main_step.induct)
  case (inside md_file pdf_file ph w ph' w' rest counts)
  then show ?case using job_step_rank [of T md_file pdf_file "(ph, w)" "(ph', w')"] by simp
qed simp_all

lemma next_main_rank:
  "next_main T ds c = Some c' \<Longrightarrow>
   control_rank (length ds) (fst c') < control_rank (length ds) (fst c)"
  by (simp add: main_step_rank main_step_iff)

lemma main_steps_0 [simp]: "main_steps T ds 0 c = c"
  by (simp add: main_steps_def)

lemma main_steps_Suc:
  "main_steps T ds (Suc n) c =
     (case next_main T ds c of None \<Rightarrow> c | Some c' \<Rightarrow> main_steps T ds n c')"
  by (simp add: main_steps_def split: option.splits)

lemma main_steps_halted [simp]: "halted ctl \<Longrightarrow> main_steps T ds n (ctl, w) = (ctl, w)"
  using next_main_halted [of T ds ctl w] by (simp add: main_steps_def)

lemma main_steps_reaches_halted:
  assumes "control_rank (length ds) (fst c) \<le> n"
  shows "halted (fst (main_steps T ds n c))"
  using fuel_run_ends [of "next_main T ds" "control_rank (length ds) \<circ> fst" c n] assms
    next_main_halted [of T ds "fst (main_steps T ds n c)" "snd (main_steps T ds n c)"]
  by (simp add: next_main_rank main_steps_def)

lemma main_steps_rtranclp: "(main_step T ds)\<^sup>*\<^sup>* c (main_steps T ds n c)"
  unfolding main_step_successor main_steps_def by (rule fuel_run_rtranclp)

text \<open>A run passes through at most one configuration of each rank.\<close>

lemma main_reachable_same_rank:
  assumes "(main_step T ds)\<^sup>*\<^sup>* c0 c" and "(main_step T ds)\<^sup>*\<^sup>* c0 c'"
    and "control_rank (length ds) (fst c) = control_rank (length ds) (fst c')"
  shows "c = c'"
proof (rule rtranclp_same_rank [where R = "main_step T ds" and a = c0
      and rank = "control_rank (length ds) \<circ> fst"])
  show "(control_rank (length ds) \<circ> fst) c = (control_rank (length ds) \<circ> fst) c'"
    by (simp add: assms(3))
qed (use assms(1,2) in \<open>auto dest: main_step_deterministic main_step_rank\<close>)

text \<open>With fuel of the size of the rank, the machine reaches the halted configuration of the run.\<close>

lemma main_steps_unique:
  assumes "control_rank (length ds) (fst c) \<le> n" and "(main_step T ds)\<^sup>*\<^sup>* c (ctl, w)"
    and "halted ctl"
  shows "main_steps T ds n c = (ctl, w)"
  unfolding main_steps_def
proof (rule fuel_run_unique [where rank = "control_rank (length ds) \<circ> fst"])
  show "(successor (next_main T ds))\<^sup>*\<^sup>* c (ctl, w)"
    using assms(2) by (simp add: main_step_successor)
qed (use assms(1,3) in \<open>simp_all add: next_main_rank next_main_halted\<close>)

section \<open>The machine computes \<open>main\<close>\<close>

lemma inside_rtranclp:
  "(job_step T md pdf)\<^sup>*\<^sup>* a b \<Longrightarrow>
   (main_step T ds)\<^sup>*\<^sup>* (InJob md pdf rest counts (fst a), snd a)
     (InJob md pdf rest counts (fst b), snd b)"
proof (induction rule: rtranclp_induct)
  case base
  show ?case by simp
next
  case (step b c)
  from step.hyps(2) have "main_step T ds (InJob md pdf rest counts (fst b), snd b)
    (InJob md pdf rest counts (fst c), snd c)"
    by (cases b; cases c) (simp add: main_step.inside)
  with step.IH show ?case by simp
qed

text \<open>One document of the first loop, from the head of the loop to the head of the loop.\<close>

lemma convert_one_reaches:
  "(main_step T ds)\<^sup>*\<^sup>* (Loop (doc # rest) counts, w)
     (case run_state (convert_one T doc counts) w of
        (Inl e, w') \<Rightarrow> (Aborted e, w')
      | (Inr counts', w') \<Rightarrow> (Loop rest counts', w'))"
proof -
  obtain md pdf s f where doc: "doc = (md, pdf)" and counts: "counts = (s, f)"
    by (cases doc; cases counts)
  show ?thesis
  proof (cases "exists_at w md")
    case False
    then have "main_step T ds (Loop (doc # rest) counts, w)
      (Loop rest (count_bool False counts), printed w (missing_lines md))"
      unfolding doc by (rule main_step.source_missing)
    with False doc counts show ?thesis by (simp add: convert_one_run machine_defs)
  next
    case True
    obtain r w1 where run: "run_state (markdown_to_pdf T md pdf) w = (r, w1)"
      by (cases "run_state (markdown_to_pdf T md pdf) w")
    from True have "main_step T ds (Loop (doc # rest) counts, w) (InJob md pdf rest counts Started, w)"
      unfolding doc by (rule main_step.called)
    also from inside_rtranclp [OF job_reaches_final, of T ds md pdf rest counts w] run
    have "(main_step T ds)\<^sup>*\<^sup>* (InJob md pdf rest counts Started, w)
      (InJob md pdf rest counts (final_of r), w1)" by simp
    also have "(main_step T ds)\<^sup>*\<^sup>* (InJob md pdf rest counts (final_of r), w1)
      (case r of Inl e \<Rightarrow> (Aborted e, w1)
       | Inr ok \<Rightarrow> (Loop rest (count_bool ok counts), printed w1 [[]]))"
      by (cases r) (auto intro: main_step.intros)
    finally show ?thesis using True run doc counts
      by (auto simp: convert_one_run count_bool_def split: sum.splits)
  qed
qed

text \<open>The first loop over the front of the list, up to the head of the loop for the rest.\<close>

lemma convert_loop_prefix_reaches:
  "(main_step T ds)\<^sup>*\<^sup>* (Loop (xs @ rest) counts, w)
     (case run_state (convert_loop T xs counts) w of
        (Inl e, w') \<Rightarrow> (Aborted e, w')
      | (Inr counts', w') \<Rightarrow> (Loop rest counts', w'))"
proof (induction xs arbitrary: counts w)
  case Nil
  show ?case by simp
next
  case (Cons doc xs)
  obtain r w1 where one: "run_state (convert_one T doc counts) w = (r, w1)"
    by (cases "run_state (convert_one T doc counts) w")
  show ?case
  proof (cases r)
    case (Inl e)
    with one convert_one_reaches [of T ds doc "xs @ rest" counts w] show ?thesis by simp
  next
    case (Inr counts')
    with one convert_one_reaches [of T ds doc "xs @ rest" counts w]
    have "(main_step T ds)\<^sup>*\<^sup>* (Loop ((doc # xs) @ rest) counts, w) (Loop (xs @ rest) counts', w1)"
      by simp
    also note Cons.IH [of counts' w1]
    finally show ?thesis using one Inr by simp
  qed
qed

lemma convert_loop_reaches:
  "(main_step T ds)\<^sup>*\<^sup>* (Loop rest counts, w)
     (case run_state (convert_loop T rest counts) w of
        (Inl e, w') \<Rightarrow> (Aborted e, w')
      | (Inr counts', w') \<Rightarrow> (Loop [] counts', w'))"
  using convert_loop_prefix_reaches [of T ds rest "[]" counts w] by simp

lemma listing_line_out [simp]: "listing_line (w\<lparr>out := x\<rparr>) = listing_line w"
  by (rule ext) (simp add: listing_line_def)

lemma listing_prefix_reaches:
  "(main_step T ds)\<^sup>*\<^sup>* (Listing (xs @ rest), w)
     (Listing rest, printed w (map (listing_line w) xs))"
proof (induction xs arbitrary: w)
  case Nil
  show ?case by simp
next
  case (Cons doc xs)
  have "main_step T ds (Listing ((doc # xs) @ rest), w)
          (Listing (xs @ rest), printed w [listing_line w doc])"
    by (simp add: main_step.listed [where u = "()"] list_one_run)
  also note Cons.IH [of "printed w [listing_line w doc]"]
  finally show ?case by simp
qed

lemma list_pdfs_reaches:
  "(main_step T ds)\<^sup>*\<^sup>* (Listing rest, w) (Exited, printed w (map (listing_line w) rest))"
proof -
  note listing_prefix_reaches [of T ds rest "[]" w]
  also have "main_step T ds (Listing [], printed w (map (listing_line w) rest))
      (Exited, printed w (map (listing_line w) rest))"
    by (rule main_step.returned)
  finally show ?thesis by simp
qed

lemma run_batch_reaches:
  "(main_step T ds)\<^sup>*\<^sup>* (Banner, w)
     (exit_of (result_of (run_batch T ds) w), state_of (run_batch T ds) w)"
proof -
  let ?w0 = "printed w banner_lines"
  obtain r w1 where loop: "run_state (convert_loop T ds (0, 0)) ?w0 = (r, w1)"
    by (cases "run_state (convert_loop T ds (0, 0)) ?w0")
  have first: "(main_step T ds)\<^sup>*\<^sup>* (Banner, w) (Loop ds (0, 0), ?w0)"
    by (simp add: main_step.announced r_into_rtranclp)
  show ?thesis
  proof (cases r)
    case (Inl e)
    with loop convert_loop_reaches [of T ds ds "(0, 0)" ?w0] first
    have "(main_step T ds)\<^sup>*\<^sup>* (Banner, w) (Aborted e, w1)" by simp
    with loop Inl show ?thesis by (simp add: run_batch_run banner_lines_def)
  next
    case (Inr counts)
    let ?w2 = "printed w1 (summary_lines counts)"
    note first
    also from loop Inr convert_loop_reaches [of T ds ds "(0, 0)" ?w0]
    have "(main_step T ds)\<^sup>*\<^sup>* (Loop ds (0, 0), ?w0) (Loop [] counts, w1)" by simp
    also have "main_step T ds (Loop [] counts, w1) (Listing ds, ?w2)"
      by (rule main_step.summarised)
    also note list_pdfs_reaches [of T ds ds ?w2]
    finally show ?thesis using loop Inr
      by (cases counts) (simp add: run_batch_run banner_lines_def summary_lines_def)
  qed
qed

lemma main_reaches:
  "(main_step T documents)\<^sup>*\<^sup>* (Entry, w) (exit_of (result_of (main T) w), state_of (main T) w)"
proof (cases "run_state (os_chdir workdir) w")
  case (Pair r w1)
  show ?thesis
  proof (cases r)
    case (Inl e)
    with Pair have "main_step T documents (Entry, w) (Aborted e, w1)"
      by (simp add: main_step.enter_raised)
    with Pair Inl show ?thesis by (simp add: main_run)
  next
    case (Inr u)
    with Pair have "main_step T documents (Entry, w) (Banner, w1)"
      by (simp add: main_step.entered)
    also note run_batch_reaches [of T documents w1]
    finally show ?thesis using Pair Inr by (simp add: main_run)
  qed
qed

section \<open>Counters and directory at every control point\<close>

lemma abspath_workdir [simp]: "abspath s workdir = workdir"
  by (simp add: abspath_def join_path_def workdir_def)

lemma counts_for_count_bool:
  "counts_for ds (Suc n) counts \<Longrightarrow> counts_for ds n (count_bool ok counts)"
  by (cases counts) (auto simp: counts_for_def count_bool_def)

lemma counts_for_start [simp]: "counts_for ds (length ds) (0, 0)"
  by (simp add: counts_for_def)

lemma main_step_extends:
  assumes "main_step T ds c c'"
  shows "prefix (out (snd c)) (out (snd c'))" and "in_workdir (fst c) \<Longrightarrow> cwd (snd c') = cwd (snd c)"
  using assms
proof (induction rule: main_step.induct)
  case (inside md_file pdf_file ph w ph' w' rest counts)
  from job_step_extends [OF inside.hyps]
  show "prefix (out (snd (InJob md_file pdf_file rest counts ph, w)))
    (out (snd (InJob md_file pdf_file rest counts ph', w')))"
    and "cwd (snd (InJob md_file pdf_file rest counts ph', w'))
      = cwd (snd (InJob md_file pdf_file rest counts ph, w))"
    by (simp_all add: extends_def)
next
  case (entered w u w')
  from os_chdir_out [of workdir w] entered
  show "prefix (out (snd (Entry, w))) (out (snd (Banner, w')))" by simp
next
  case (enter_raised w e w')
  from os_chdir_out [of workdir w] enter_raised
  show "prefix (out (snd (Entry, w))) (out (snd (Aborted e, w')))" by simp
qed (auto simp: list_one_run)

lemma main_step_control_inv:
  "main_step T ds c c' \<Longrightarrow> control_inv ds (fst c) \<Longrightarrow> control_inv ds (fst c')"
  by (induction rule: main_step.induct) (auto simp: counts_for_count_bool dest: suffix_ConsD)

lemma main_step_workdir:
  assumes "main_step T ds c c'" and "in_workdir (fst c) \<longrightarrow> cwd (snd c) = workdir"
    and "in_workdir (fst c')"
  shows "cwd (snd c') = workdir"
proof (cases "in_workdir (fst c)")
  case True
  with assms(2) main_step_extends(2) [OF assms(1)] show ?thesis by simp
next
  case False
  with assms(1,3) obtain w u w' where "c = (Entry, w)" "c' = (Banner, w')"
    "run_state (os_chdir workdir) w = (Inr u, w')"
    by (induction rule: main_step.induct) auto
  then show ?thesis by (simp add: os_chdir_ok_cwd)
qed

lemma main_step_preserves_inv:
  assumes "main_step T ds c c'" and "main_inv ds w0 c"
  shows "main_inv ds w0 c'"
proof -
  obtain ctl w ctl' w' where c: "c = (ctl, w)" "c' = (ctl', w')" by (cases c; cases c')
  from assms(2) c have "prefix (out w0) (out w)" by (simp add: main_inv_def)
  with main_step_extends(1) [OF assms(1)] c have "prefix (out w0) (out w')" by auto
  moreover from main_step_control_inv [OF assms(1)] assms(2) c have "control_inv ds ctl'"
    by (simp add: main_inv_def)
  moreover from main_step_workdir [OF assms(1)] assms(2) c
  have "in_workdir ctl' \<longrightarrow> cwd w' = workdir" by (simp add: main_inv_def)
  ultimately show ?thesis using c by (simp add: main_inv_def)
qed

lemma main_reachable_iff: "main_reachable T ds c0 c \<longleftrightarrow> (main_step T ds)\<^sup>*\<^sup>* c0 c"
proof
  show "main_reachable T ds c0 c \<Longrightarrow> (main_step T ds)\<^sup>*\<^sup>* c0 c"
    by (induction rule: main_reachable.induct) auto
  show "(main_step T ds)\<^sup>*\<^sup>* c0 c \<Longrightarrow> main_reachable T ds c0 c"
    by (induction rule: rtranclp_induct) (auto intro: main_reachable.intros)
qed

lemma main_reachable_steps: "main_reachable T ds c (main_steps T ds n c)"
  by (simp add: main_reachable_iff main_steps_rtranclp)

section \<open>The machine and the script\<close>

lemma main_steps_run_batch:
  assumes "10 * length ds + 3 \<le> n"
  shows "main_steps T ds n (Banner, w) =
         (exit_of (result_of (run_batch T ds) w), state_of (run_batch T ds) w)"
  using assms by (intro main_steps_unique run_batch_reaches) simp_all

lemma main_steps_main:
  assumes "34 \<le> n"
  shows "main_steps T documents n (Entry, w) =
         (exit_of (result_of (main T) w), state_of (main T) w)"
  using assms by (intro main_steps_unique main_reaches) (simp_all add: documents_def)

text \<open>
  C21: In every configuration that a run of the script reaches, for all tools: the
  documents still to visit are the end of the list, neither counter is negative, the
  counters add up to the number of documents the first loop has finished, output has
  only been added, and once \<open>os.chdir\<close> has returned the script is in its working
  directory.
\<close>

theorem reachable_main_inv:
  assumes "main_reachable T ds (Entry, w0) c"
  shows "main_inv ds w0 c"
  using assms
proof (induction rule: main_reachable.induct)
  case start
  show ?case by (simp add: main_inv_def)
next
  case (step c c')
  from step.hyps(2) step.IH show ?case by (rule main_step_preserves_inv)
qed

theorem reachable_main_inv_witness:
  "main_reachable demo_tools documents (Entry, project_world)
     (main_steps demo_tools documents 10 (Entry, project_world)) \<and>
   fst (main_steps demo_tools documents 10 (Entry, project_world))
     = Loop [(''IMPLEMENTATION_GUIDE.md'', ''IMPLEMENTATION_GUIDE.pdf''),
             (''ARCHITECTURE.md'', ''ARCHITECTURE.pdf'')] (1, 0) \<and>
   main_inv documents project_world (main_steps demo_tools documents 10 (Entry, project_world))"
proof -
  have ten: "(10::nat) = Suc (Suc (Suc (Suc (Suc (Suc (Suc (Suc (Suc (Suc 0)))))))))" by simp
  have at: "fst (main_steps demo_tools documents 10 (Entry, project_world))
     = Loop [(''IMPLEMENTATION_GUIDE.md'', ''IMPLEMENTATION_GUIDE.pdf''),
             (''ARCHITECTURE.md'', ''ARCHITECTURE.pdf'')] (1, 0)"
    unfolding ten
    by (simp add: main_steps_Suc next_main_def next_config_simps machine_defs project_world_def
        run_defs)
  note reach = main_reachable_steps [of demo_tools documents "(Entry, project_world)" 10]
  from reachable_main_inv [OF reach] reach at show ?thesis by blast
qed

text \<open>
  The machine is never stuck and never has a choice: the successors of a
  configuration are the one that \<open>next_main\<close> computes, and there is one exactly when
  the configuration is not halted.
\<close>

theorem main_step_progress:
  "(main_step T ds (ctl, w) c' \<longleftrightarrow> next_main T ds (ctl, w) = Some c') \<and>
   ((\<exists>c'. main_step T ds (ctl, w) c') \<longleftrightarrow> \<not> halted ctl)"
  using next_main_halted [of T ds ctl w] by (auto simp: main_step_iff)

end
