(* ===== verification/Wellformed.thy ===== *)
theory Wellformed
  imports Refinement MainMachine
begin

text \<open>
  The representation invariant of the file system of \<open>FileSys\<close> and its preservation.

  The record \<open>fs\<close> is meant to hold a map from absolute paths and a current directory
  that is an absolute path of an existing directory; the type \<open>fs\<close> itself allows any
  map and any string. \<open>wf_fs\<close> says that a state is of the intended form. Every call
  that \<open>src/convert_to_pdf.py\<close> makes on the file system keeps it, for every argument
  and whether the call returns or raises; a tool keeps it when it changes only files
  with absolute names other than the current directory, which the contracts of
  \<open>Contracts\<close> guarantee; so the whole run keeps it, and \<open>main\<close> establishes the part
  about the current directory by its call of \<open>os.chdir\<close>.
\<close>

section \<open>Well-formed states\<close>

text \<open>\<open>os.path.isabs\<close>.\<close>

definition absolute :: "path \<Rightarrow> bool" where
  "absolute p \<longleftrightarrow> (case p of [] \<Rightarrow> False | c # cs \<Rightarrow> c = CHR ''/'')"

definition keys_absolute :: "files \<Rightarrow> bool" where
  "keys_absolute f \<longleftrightarrow> (\<forall>p \<in> dom f. absolute p)"

definition wf_fs :: "'a fs_scheme \<Rightarrow> bool" where
  "wf_fs s \<longleftrightarrow> absolute (cwd s) \<and> cwd_ok s \<and> keys_absolute (files s)"

text \<open>
  What holds of the files at a control point of the machine of \<open>MainMachine\<close>: the
  names in the map are absolute throughout, and once \<open>os.chdir\<close> has returned the
  state is well-formed.
\<close>

definition wf_config :: "docs \<Rightarrow> world \<Rightarrow> mconfig \<Rightarrow> bool" where
  "wf_config ds w0 c \<longleftrightarrow>
     main_inv ds w0 c \<and> keys_absolute (files (snd c)) \<and> (in_workdir (fst c) \<longrightarrow> wf_fs (snd c))"

section \<open>Paths\<close>

lemma absolute_Cons [simp]: "absolute (c # cs) \<longleftrightarrow> c = CHR ''/''"
  by (simp add: absolute_def)

lemma absolute_Nil [simp]: "\<not> absolute []"
  by (simp add: absolute_def)

lemma absolute_iff: "absolute p \<longleftrightarrow> p \<noteq> [] \<and> hd p = CHR ''/''"
  by (cases p) simp_all

lemma absolute_join_path: "absolute a \<Longrightarrow> absolute (join_path a b)"
  by (cases a) (auto simp: join_path_def absolute_iff)

lemma join_path_of_absolute [simp]: "absolute b \<Longrightarrow> join_path a b = b"
  by (simp add: join_path_def absolute_iff)

lemma absolute_abspath: "absolute (cwd s) \<Longrightarrow> absolute (abspath s p)"
  by (simp add: abspath_def absolute_join_path)

lemma absolute_workdir [simp]: "absolute workdir"
  by (simp add: workdir_def)

section \<open>States\<close>

lemma wf_fs_out_update [simp]: "wf_fs (w\<lparr>out := x\<rparr>) = wf_fs w"
  by (simp add: wf_fs_def cwd_ok_def)

lemma wf_fs_fs_of [simp]: "wf_fs (fs_of w) = wf_fs w"
  by (simp add: wf_fs_def cwd_ok_def)

lemma keys_absolute_only_changes:
  assumes "keys_absolute f" and "only_changes P f f'" and "\<forall>p \<in> P. absolute p"
  shows "keys_absolute f'"
  unfolding keys_absolute_def
proof
  fix p assume "p \<in> dom f'"
  with assms show "absolute p"
    by (cases "p \<in> P") (auto simp: keys_absolute_def only_changes_def dom_def)
qed

text \<open>
  A change of files with absolute names, none of them the current directory, keeps a
  state well-formed.
\<close>

lemma wf_fs_only_changes:
  assumes "wf_fs s" and "only_changes P (files s) f'" and "\<forall>p \<in> P. absolute p"
    and "cwd s \<notin> P"
  shows "wf_fs (s\<lparr>files := f'\<rparr>)"
proof -
  from assms(2,4) have "f' (cwd s) = files s (cwd s)" by (simp add: only_changes_def)
  with assms(1) keys_absolute_only_changes [OF _ assms(2,3)] show ?thesis
    by (simp add: wf_fs_def cwd_ok_def)
qed

section \<open>The calls on the file system\<close>

lemma wf_fs_os_remove: "wf_fs s \<Longrightarrow> wf_fs (state_of (os_remove p) s)"
proof (rule os_remove_cases [where s = s and p = p])
  assume wf: "wf_fs s" and "exists_at s p" and regular: "\<not> is_dir s p"
    and run: "run_state (os_remove p) s = (Inr (), s\<lparr>files := (files s)(abspath s p := None)\<rparr>)"
  from wf regular have "cwd s \<noteq> abspath s p"
    by (auto simp: wf_fs_def cwd_ok_def is_dir_def lookup_def split: option.splits)
  with wf run show ?thesis
    by (auto simp: wf_fs_def cwd_ok_def keys_absolute_def)
qed simp_all

lemma wf_fs_os_chdir: "wf_fs s \<Longrightarrow> wf_fs (state_of (os_chdir p) s)"
proof (rule os_chdir_cases [where s = s and p = p])
  assume wf: "wf_fs s" and "is_dir s p"
    and run: "run_state (os_chdir p) s = (Inr (), s\<lparr>cwd := abspath s p\<rparr>)"
  then show ?thesis
    by (auto simp: wf_fs_def cwd_ok_def is_dir_iff lookup_def absolute_abspath)
qed simp_all

text \<open>\<open>os.chdir\<close> to an absolute path repairs a state whose current directory is gone.\<close>

lemma os_chdir_establishes_wf:
  assumes "keys_absolute (files s)" and "absolute p"
    and "run_state (os_chdir p) s = (Inr u, s')"
  shows "wf_fs s'"
proof -
  from assms(3) have "cwd s' = abspath s p" "files s' = files s" "cwd_ok s'"
    using os_chdir_files [of p s] by (simp_all add: os_chdir_ok_cwd os_chdir_cwd_ok)
  with assms(1,2) show ?thesis by (simp add: wf_fs_def abspath_def)
qed

section \<open>The tools, under their contracts\<close>

lemma wf_fs_run_process:
  assumes "pandoc_contract T" and "wf_fs w" and "cwd w \<noteq> join_path (cwd w) html"
    and "run_process T (cmd_html md html) (cwd w) (files w) = (r, f)"
  shows "wf_fs (w\<lparr>files := f\<rparr>)"
proof -
  from assms(1) obtain cp f' where
    "run_process T (cmd_html md html) (cwd w) (files w) = (Inr cp, f')"
    and "only_changes {join_path (cwd w) html} (files w) f'"
    by (rule pandoc_contract_run)
  with assms(2,3,4) show ?thesis
    by (intro wf_fs_only_changes [where P = "{join_path (cwd w) html}"])
      (auto simp: wf_fs_def absolute_join_path)
qed

lemma wf_fs_write_pdf:
  assumes "renderer_contract T" and "wf_fs w" and "cwd w \<noteq> join_path (cwd w) pdf"
    and "write_pdf T html pdf (cwd w) (files w) = (r, f)"
  shows "wf_fs (w\<lparr>files := f\<rparr>)"
proof -
  from assms(1,4) have "only_changes {join_path (cwd w) pdf} (files w) f"
    by (auto simp: renderer_contract_def)
  with assms(2,3) show ?thesis
    by (intro wf_fs_only_changes [where P = "{join_path (cwd w) pdf}"])
      (auto simp: wf_fs_def absolute_join_path)
qed

section \<open>Every transition keeps the state well-formed\<close>

lemma wf_fs_pdf_except: "wf_fs (state_of (pdf_except e) w) = wf_fs w"
  by (simp add: pdf_except_run)

lemma job_step_wf:
  assumes "job_step T md pdf c c'" and "tools_ok T" and "wf_fs (snd c)"
    and "cwd (snd c) \<notin> set (artefacts_of (cwd (snd c)) (md, pdf))"
  shows "wf_fs (snd c')"
  using assms
proof (induction rule: job_step.induct)
  case (spawned w cp f)
  then show ?case by (auto simp: tools_ok_def artefacts_of_def intro: wf_fs_run_process)
next
  case (spawn_raised w e f)
  then show ?case by (auto simp: tools_ok_def artefacts_of_def intro: wf_fs_run_process)
next
  case (rendered w u f)
  from rendered have "wf_fs (w\<lparr>files := f\<rparr>)"
    by (auto simp: tools_ok_def artefacts_of_def intro: wf_fs_write_pdf)
  then show ?case by (simp add: wf_fs_def cwd_ok_def)
next
  case (render_raised w e f)
  then show ?case by (auto simp: tools_ok_def artefacts_of_def intro: wf_fs_write_pdf)
next
  case (cleaned w u w')
  with wf_fs_os_remove [of w "html_file_of md"] show ?case by simp
next
  case (clean_raised w e w')
  with wf_fs_os_remove [of w "html_file_of md"] show ?case by simp
next
  case (handled e w b w')
  with wf_fs_pdf_except [of e w] show ?case by simp
next
  case (escaped e w e' w')
  with wf_fs_pdf_except [of e w] show ?case by simp
qed simp_all

lemma suffix_Cons_mem: "suffix (x # xs) ys \<Longrightarrow> x \<in> set ys"
  by (auto simp: suffix_def)

lemma main_step_wf:
  assumes "main_step T ds c c'" and "tools_ok T" and "workdir \<notin> set (artefacts workdir ds)"
    and "wf_config ds w0 c"
  shows "keys_absolute (files (snd c')) \<and> (in_workdir (fst c') \<longrightarrow> wf_fs (snd c'))"
  using assms
proof (induction rule: main_step.induct)
  case (inside md_file pdf_file ph w ph' w' rest counts)
  from inside.prems(3) have "(md_file, pdf_file) \<in> set ds" and dir: "cwd w = workdir"
    and wf: "wf_fs w"
    by (auto simp: wf_config_def main_inv_def dest: suffix_Cons_mem)
  with inside.prems(2) have "workdir \<notin> set (artefacts_of workdir (md_file, pdf_file))"
    by (auto simp: artefacts_def)
  with job_step_wf [OF inside.hyps inside.prems(1)] dir wf have "wf_fs w'" by simp
  then show ?case by (simp add: wf_fs_def)
next
  case (entered w u w')
  from entered.prems(3) have "keys_absolute (files w)" by (simp add: wf_config_def)
  then have "wf_fs w'" using absolute_workdir entered.hyps by (rule os_chdir_establishes_wf)
  then show ?case by (simp add: wf_fs_def)
qed (auto simp: wf_config_def wf_fs_def cwd_ok_def list_one_run dest: os_chdir_failed)

lemma main_step_wf_config:
  assumes "main_step T ds c c'" and "tools_ok T" and "workdir \<notin> set (artefacts workdir ds)"
    and "wf_config ds w0 c"
  shows "wf_config ds w0 c'"
  using main_step_wf [OF assms] main_step_preserves_inv [OF assms(1), of w0] assms(4)
  by (simp add: wf_config_def)

lemma workdir_not_artefact: "workdir \<notin> set (artefacts workdir documents)"
  by (simp add: artefacts_of_def documents_def workdir_def html_file_of_def py_replace_def
      join_path_def)

section \<open>The invariant\<close>

text \<open>
  C22: When the tools keep their contracts and the working directory is no artefact of a
  document, a run that starts with absolute names in the map of files keeps them
  absolute in every configuration it reaches, and from the return of \<open>os.chdir\<close> on
  every configuration is well-formed: the script is in its working directory, which
  exists, whatever the directory it was started in.
\<close>

theorem reachable_wf_config:
  assumes "tools_ok T" and "workdir \<notin> set (artefacts workdir ds)"
    and "keys_absolute (files w0)" and "main_reachable T ds (Entry, w0) c"
  shows "wf_config ds w0 c"
  using assms(4)
proof (induction rule: main_reachable.induct)
  case start
  from assms(3) show ?case by (simp add: wf_config_def main_inv_def)
next
  case (step c c')
  from step.hyps(2) assms(1,2) step.IH show ?case by (rule main_step_wf_config)
qed

theorem reachable_wf_config_witness:
  "tools_ok demo_tools \<and> workdir \<notin> set (artefacts workdir documents) \<and>
   keys_absolute (files project_world) \<and> \<not> wf_fs project_world \<and>
   main_reachable demo_tools documents (Entry, project_world)
     (main_steps demo_tools documents 34 (Entry, project_world)) \<and>
   wf_config documents project_world (main_steps demo_tools documents 34 (Entry, project_world))"
proof -
  have keys: "keys_absolute (files project_world)"
    by (simp add: keys_absolute_def project_world_def workdir_def)
  have lost: "\<not> wf_fs project_world"
    by (simp add: wf_fs_def cwd_ok_def project_world_def workdir_def)
  note reach = main_reachable_steps [of demo_tools documents "(Entry, project_world)" 34]
  from reachable_wf_config [OF tools_ok_demo_tools workdir_not_artefact keys reach]
    tools_ok_demo_tools workdir_not_artefact keys lost reach
  show ?thesis by blast
qed

end
