(* ===== verification/Isolation.thy ===== *)
theory Isolation
  imports Refinement
begin

text \<open>
  The jobs of a batch do not disturb each other.

  The only thing the jobs of \<open>src/convert_to_pdf.py\<close> share is the file system. A job
  reads its source and what the tools read for every document (the style sheet that
  line 24 names), and it writes its HTML file and its PDF. \<open>tools_local\<close> is the part
  of the contract of the tools that says so: the outcome of a call depends on the files
  of the \<open>footprint\<close> of the job only. When in addition no job writes into the
  footprint of another (\<open>apart\<close>), every job of the batch has the result that it has
  when it runs alone in the initial state, and it leaves its artefacts as it leaves
  them when it runs alone; so neither the results nor the final files depend on the
  order of the list of documents in line 66.
\<close>

section \<open>Footprints\<close>

definition agree_on :: "path set \<Rightarrow> files \<Rightarrow> files \<Rightarrow> bool" where
  "agree_on P f g \<longleftrightarrow> (\<forall>p \<in> P. f p = g p)"

text \<open>
  The files a job depends on in the directory \<open>dir\<close>: its source, its two artefacts,
  and the files \<open>shared\<close> that the tools read for every document.
\<close>

definition footprint :: "path \<Rightarrow> path set \<Rightarrow> job \<Rightarrow> path set" where
  "footprint dir shared j = insert (join_path dir (fst j)) (set (artefacts_of dir j) \<union> shared)"

text \<open>The stores \<open>s\<close> and \<open>t\<close> look the same to the job \<open>j\<close>.\<close>

definition same_for :: "path set \<Rightarrow> job \<Rightarrow> fs \<Rightarrow> fs \<Rightarrow> bool" where
  "same_for shared j s t \<longleftrightarrow>
     cwd t = cwd s \<and> agree_on (footprint (cwd s) shared j) (files s) (files t)"

section \<open>Tools that look at the footprint only\<close>

definition pandoc_local :: "tools \<Rightarrow> path set \<Rightarrow> bool" where
  "pandoc_local T shared \<longleftrightarrow>
     (\<forall>md html dir f g.
        agree_on (insert (join_path dir md) (insert (join_path dir html) shared)) f g \<longrightarrow>
        fst (run_process T (cmd_html md html) dir f) = fst (run_process T (cmd_html md html) dir g) \<and>
        snd (run_process T (cmd_html md html) dir f) (join_path dir html)
          = snd (run_process T (cmd_html md html) dir g) (join_path dir html))"

definition renderer_local :: "tools \<Rightarrow> path set \<Rightarrow> bool" where
  "renderer_local T shared \<longleftrightarrow>
     (\<forall>html pdf dir f g.
        agree_on (insert (join_path dir html) (insert (join_path dir pdf) shared)) f g \<longrightarrow>
        fst (write_pdf T html pdf dir f) = fst (write_pdf T html pdf dir g) \<and>
        snd (write_pdf T html pdf dir f) (join_path dir pdf)
          = snd (write_pdf T html pdf dir g) (join_path dir pdf))"

definition tools_local :: "tools \<Rightarrow> path set \<Rightarrow> bool" where
  "tools_local T shared \<longleftrightarrow> pandoc_local T shared \<and> renderer_local T shared"

text \<open>
  No two jobs share an artefact, and no job writes what another job or the tools read.
\<close>

definition apart :: "path \<Rightarrow> path set \<Rightarrow> job list \<Rightarrow> bool" where
  "apart dir shared docs \<longleftrightarrow>
     distinct (artefacts dir docs) \<and>
     shared \<inter> set (artefacts dir docs) = {} \<and>
     (\<forall>a \<in> set docs. \<forall>b \<in> set docs.
        a \<noteq> b \<longrightarrow> join_path dir (fst a) \<notin> set (artefacts_of dir b))"

lemmas isolation_defs =
  agree_on_def footprint_def same_for_def pandoc_local_def renderer_local_def tools_local_def
  apart_def

section \<open>Agreement\<close>

lemma agree_on_refl [simp]: "agree_on P f f"
  by (simp add: agree_on_def)

lemma agree_on_sym: "agree_on P f g \<Longrightarrow> agree_on P g f"
  by (simp add: agree_on_def)

lemma agree_on_mono: "agree_on P f g \<Longrightarrow> Q \<subseteq> P \<Longrightarrow> agree_on Q f g"
  by (auto simp: agree_on_def)

lemma agree_on_only_changes: "only_changes Q f g \<Longrightarrow> P \<inter> Q = {} \<Longrightarrow> agree_on P f g"
  by (auto simp: agree_on_def only_changes_def)

lemma agree_on_trans: "agree_on P f g \<Longrightarrow> agree_on P g h \<Longrightarrow> agree_on P f h"
  by (simp add: agree_on_def)

text \<open>Two calls that write the same value to the one file they change keep agreement.\<close>

lemma agree_on_written:
  assumes "agree_on P f g" and "only_changes {x} f f'" and "only_changes {x} g g'"
    and "f' x = g' x"
  shows "agree_on P f' g'"
  unfolding agree_on_def
proof
  fix p assume "p \<in> P"
  with assms show "f' p = g' p" by (cases "p = x") (auto simp: agree_on_def only_changes_def)
qed

lemma agree_on_upd: "agree_on P f g \<Longrightarrow> agree_on P (f(x := v)) (g(x := v))"
  by (simp add: agree_on_def)

section \<open>The steps of a job respect the footprint\<close>

lemma same_for_cwd: "same_for shared j s t \<Longrightarrow> cwd t = cwd s"
  by (simp add: same_for_def)

lemma same_for_refl [simp]: "same_for shared j s s"
  by (simp add: same_for_def)

lemma source_exists_local: "same_for shared j s t \<Longrightarrow> exists_at s (fst j) = exists_at t (fst j)"
  by (simp add: same_for_def exists_at_def lookup_def abspath_def agree_on_def footprint_def)

lemma to_html_local:
  assumes "pandoc_contract T" and "pandoc_local T shared" and "same_for shared j s t"
  shows "fst (to_html (steps_of T) j s) = fst (to_html (steps_of T) j t) \<and>
         same_for shared j (snd (to_html (steps_of T) j s)) (snd (to_html (steps_of T) j t))"
proof -
  obtain md pdf where j: "j = (md, pdf)" by (cases j)
  let ?html = "join_path (cwd s) (html_file_of md)"
  let ?run = "\<lambda>f. run_process T (cmd_html md (html_file_of md)) (cwd s) f"
  from assms(3) have dir: "cwd t = cwd s"
    and agree: "agree_on (footprint (cwd s) shared j) (files s) (files t)"
    by (simp_all add: same_for_def)
  from assms(1) obtain cp f1 where s: "?run (files s) = (Inr cp, f1)"
    and fs: "only_changes {?html} (files s) f1" by (rule pandoc_contract_run)
  from assms(1) obtain cp' g1 where t: "?run (files t) = (Inr cp', g1)"
    and ft: "only_changes {?html} (files t) g1" by (rule pandoc_contract_run)
  from agree j have "agree_on (insert (join_path (cwd s) md) (insert ?html shared)) (files s) (files t)"
    by (auto simp: footprint_def artefacts_of_def elim: agree_on_mono)
  with assms(2) s t have same: "cp' = cp" "f1 ?html = g1 ?html"
    unfolding pandoc_local_def by (metis fst_conv snd_conv sum.inject(2))+
  from agree fs ft same(2) have "agree_on (footprint (cwd s) shared j) f1 g1"
    by (rule agree_on_written)
  with s t same(1) dir j show ?thesis by (simp add: steps_of_def same_for_def)
qed

lemma to_pdf_local:
  assumes "renderer_contract T" and "renderer_local T shared" and "same_for shared j s t"
  shows "fst (to_pdf (steps_of T) j s) = fst (to_pdf (steps_of T) j t) \<and>
         same_for shared j (snd (to_pdf (steps_of T) j s)) (snd (to_pdf (steps_of T) j t))"
proof (cases "import_module T")
  case (Inl e)
  with assms(3) show ?thesis by (simp add: steps_of_def)
next
  case (Inr u)
  obtain md pdf where j: "j = (md, pdf)" by (cases j)
  let ?pdf = "join_path (cwd s) pdf"
  let ?run = "\<lambda>f. write_pdf T (html_file_of md) pdf (cwd s) f"
  from assms(3) have dir: "cwd t = cwd s"
    and agree: "agree_on (footprint (cwd s) shared j) (files s) (files t)"
    by (simp_all add: same_for_def)
  obtain r f2 r' g2 where s: "?run (files s) = (r, f2)" and t: "?run (files t) = (r', g2)"
    by (cases "?run (files s)"; cases "?run (files t)")
  with assms(1) have fs: "only_changes {?pdf} (files s) f2" and ft: "only_changes {?pdf} (files t) g2"
    by (auto simp: renderer_contract_def)
  from agree j have "agree_on (insert (join_path (cwd s) (html_file_of md)) (insert ?pdf shared))
    (files s) (files t)"
    by (auto simp: footprint_def artefacts_of_def elim: agree_on_mono)
  with assms(2) s t have same: "r' = r" "f2 ?pdf = g2 ?pdf"
    unfolding renderer_local_def by (metis fst_conv snd_conv)+
  from agree fs ft same(2) have "agree_on (footprint (cwd s) shared j) f2 g2"
    by (rule agree_on_written)
  with s t same(1) dir j Inr show ?thesis
    by (simp add: steps_of_def same_for_def split: sum.splits)
qed

lemma cleanup_local:
  "same_for shared j s t \<Longrightarrow>
   same_for shared j (cleanup (steps_of T) j s) (cleanup (steps_of T) j t)"
  by (simp add: same_for_def steps_of_def abspath_def agree_on_upd)

lemma steps_of_congruence:
  assumes "tools_ok T" and "tools_local T shared"
  shows "step_congruence (steps_of T) j (same_for shared j)"
  unfolding step_congruence_def
proof (intro allI impI)
  fix s t assume same: "same_for shared j s t"
  from assms have "pandoc_contract T" "pandoc_local T shared"
    and "renderer_contract T" "renderer_local T shared"
    by (simp_all add: tools_ok_def tools_local_def)
  with same source_exists_local [OF same] cleanup_local [OF same, of T]
  show "source_exists (steps_of T) j s = source_exists (steps_of T) j t \<and>
      fst (to_html (steps_of T) j s) = fst (to_html (steps_of T) j t) \<and>
      same_for shared j (snd (to_html (steps_of T) j s)) (snd (to_html (steps_of T) j t)) \<and>
      fst (to_pdf (steps_of T) j s) = fst (to_pdf (steps_of T) j t) \<and>
      same_for shared j (snd (to_pdf (steps_of T) j s)) (snd (to_pdf (steps_of T) j t)) \<and>
      same_for shared j (cleanup (steps_of T) j s) (cleanup (steps_of T) j t)"
    by (simp add: to_html_local to_pdf_local)
qed

text \<open>A job gives the same result, and leaves the same footprint, in stores that agree on it.\<close>

lemma run_job_local:
  assumes "tools_ok T" and "tools_local T shared" and "same_for shared j s t"
  shows "fst (run_job (steps_of T) j s) = fst (run_job (steps_of T) j t)"
    and "same_for shared j (snd (run_job (steps_of T) j s)) (snd (run_job (steps_of T) j t))"
  using run_job_congruence [OF steps_of_congruence [OF assms(1,2)] assms(3)] by simp_all

section \<open>A job in a batch and the same job alone\<close>

lemma pdf_in_artefacts_of: "join_path dir (snd doc) \<in> set (artefacts_of dir doc)"
  by (cases doc) (simp add: artefacts_of_def)

lemma distinct_artefacts_docs: "distinct (artefacts dir docs) \<Longrightarrow> distinct docs"
proof (induction docs)
  case Nil
  show ?case by simp
next
  case (Cons doc docs)
  have "doc \<notin> set docs"
  proof
    assume "doc \<in> set docs"
    then have "set (artefacts_of dir doc) \<subseteq> set (artefacts dir docs)"
      by (auto simp: artefacts_def)
    with pdf_in_artefacts_of [of dir doc] Cons.prems show False by auto
  qed
  with Cons show ?case by simp
qed

lemma nth_not_in_take: "distinct xs \<Longrightarrow> i < length xs \<Longrightarrow> xs ! i \<notin> set (take i xs)"
  by (auto simp: in_set_conv_nth distinct_conv_nth)

text \<open>Nothing that the other jobs write is in the footprint of the job at position \<open>i\<close>.\<close>

lemma apart_footprint:
  assumes "apart dir shared docs" and "i < length docs" and "set others \<subseteq> set docs"
    and "docs ! i \<notin> set others"
    and "set (artefacts_of dir (docs ! i)) \<inter> set (artefacts dir others) = {}"
  shows "footprint dir shared (docs ! i) \<inter> set (artefacts dir others) = {}"
proof -
  from assms(3) have sub: "set (artefacts dir others) \<subseteq> set (artefacts dir docs)"
    by (auto simp: artefacts_def)
  with assms(1) have "shared \<inter> set (artefacts dir others) = {}" by (auto simp: apart_def)
  moreover have "join_path dir (fst (docs ! i)) \<notin> set (artefacts dir others)"
  proof
    assume "join_path dir (fst (docs ! i)) \<in> set (artefacts dir others)"
    then obtain b where b: "b \<in> set others"
      and "join_path dir (fst (docs ! i)) \<in> set (artefacts_of dir b)"
      by (auto simp: artefacts_def)
    moreover from b assms(3,4) have "b \<in> set docs" "docs ! i \<noteq> b" by auto
    moreover from assms(2) have "docs ! i \<in> set docs" by simp
    ultimately show False using assms(1) by (simp add: apart_def)
  qed
  ultimately show ?thesis using assms(5) by (auto simp: footprint_def)
qed

lemma job_in_batch_alone:
  assumes "tools_ok T" and "tools_local T shared" and "apart (cwd s) shared docs"
    and "run_jobs (steps_of T) docs s = (rs, s')" and "i < length docs"
  shows "rs ! i = fst (run_job (steps_of T) (docs ! i) s)"
    and "agree_on (set (artefacts_of (cwd s) (docs ! i))) (files s')
           (files (snd (run_job (steps_of T) (docs ! i) s)))"
proof -
  let ?j = "docs ! i" and ?own = "set (artefacts_of (cwd s) (docs ! i))"
  from run_jobs_nth [OF assms(1,4,5)] obtain si si' where
    job: "run_job (steps_of T) ?j si = (rs ! i, si')" and dir: "cwd si = cwd s"
    and before: "only_changes (set (artefacts (cwd s) (take i docs))) (files s) (files si)"
    and after: "only_changes (set (artefacts (cwd s) (drop (Suc i) docs))) (files si') (files s')"
    by blast
  from assms(3) have names: "distinct (artefacts (cwd s) docs)" by (simp add: apart_def)
  then have "distinct docs" by (rule distinct_artefacts_docs)
  with assms(5) have "?j \<notin> set (take i docs)" by (simp add: nth_not_in_take)
  with apart_footprint [OF assms(3,5) set_take_subset _ distinct_artefacts_nth(2) [OF names assms(5)]]
  have "footprint (cwd s) shared ?j \<inter> set (artefacts (cwd s) (take i docs)) = {}" by simp
  with before dir have "same_for shared ?j s si"
    by (simp add: same_for_def agree_on_only_changes)
  from run_job_local [OF assms(1,2) this] job
  have res: "rs ! i = fst (run_job (steps_of T) ?j s)"
    and left: "same_for shared ?j (snd (run_job (steps_of T) ?j s)) si'"
    by simp_all
  have "cwd (snd (run_job (steps_of T) ?j s)) = cwd s"
    by (rule run_job_cwd [of T ?j s "fst (run_job (steps_of T) ?j s)"]) simp
  with left have "agree_on (footprint (cwd s) shared ?j)
    (files (snd (run_job (steps_of T) ?j s))) (files si')" by (simp add: same_for_def)
  then have own: "agree_on ?own (files (snd (run_job (steps_of T) ?j s))) (files si')"
    by (rule agree_on_mono) (auto simp: footprint_def)
  from after distinct_artefacts_nth(3) [OF names assms(5)]
  have "agree_on ?own (files si') (files s')" by (rule agree_on_only_changes)
  with own have "agree_on ?own (files (snd (run_job (steps_of T) ?j s))) (files s')"
    by (rule agree_on_trans)
  then have "agree_on ?own (files s') (files (snd (run_job (steps_of T) ?j s)))"
    by (rule agree_on_sym)
  with res show "rs ! i = fst (run_job (steps_of T) ?j s)"
    and "agree_on ?own (files s') (files (snd (run_job (steps_of T) ?j s)))"
    by simp_all
qed

text \<open>The results of a batch are the results of its jobs alone, in list order.\<close>

lemma run_jobs_alone:
  assumes "tools_ok T" and "tools_local T shared" and "apart (cwd s) shared docs"
  shows "fst (run_jobs (steps_of T) docs s) = map (\<lambda>j. fst (run_job (steps_of T) j s)) docs"
proof (rule nth_equalityI)
  show "length (fst (run_jobs (steps_of T) docs s))
    = length (map (\<lambda>j. fst (run_job (steps_of T) j s)) docs)" by simp
  fix i assume "i < length (fst (run_jobs (steps_of T) docs s))"
  then have "i < length docs" by simp
  with job_in_batch_alone(1) [OF assms, of "fst (run_jobs (steps_of T) docs s)"
      "snd (run_jobs (steps_of T) docs s)" i]
  show "fst (run_jobs (steps_of T) docs s) ! i = map (\<lambda>j. fst (run_job (steps_of T) j s)) docs ! i"
    by simp
qed

text \<open>The files after a batch: each artefact as its job leaves it alone, the rest untouched.\<close>

lemma run_jobs_files:
  assumes "tools_ok T" and "tools_local T shared" and "apart (cwd s) shared docs"
  shows "files (snd (run_jobs (steps_of T) docs s)) p =
     (if p \<in> set (artefacts (cwd s) docs)
      then files (snd (run_job (steps_of T)
             (SOME j. j \<in> set docs \<and> p \<in> set (artefacts_of (cwd s) j)) s)) p
      else files s p)"
proof (cases "p \<in> set (artefacts (cwd s) docs)")
  case False
  with run_jobs_frame [OF assms(1), of docs s "fst (run_jobs (steps_of T) docs s)"
      "snd (run_jobs (steps_of T) docs s)"]
  show ?thesis by (simp add: only_changes_def)
next
  case True
  let ?own = "\<lambda>j. j \<in> set docs \<and> p \<in> set (artefacts_of (cwd s) j)"
  from True have "\<exists>j. ?own j" by (auto simp: artefacts_def)
  then have "?own (SOME j. ?own j)" by (rule someI_ex)
  then obtain i where i: "i < length docs" and j: "docs ! i = (SOME j. ?own j)"
    and p: "p \<in> set (artefacts_of (cwd s) (docs ! i))"
    by (auto simp: in_set_conv_nth)
  from job_in_batch_alone(2) [OF assms _ i, of "fst (run_jobs (steps_of T) docs s)"
      "snd (run_jobs (steps_of T) docs s)"] p j True
  show ?thesis by (simp add: agree_on_def)
qed

lemma set_artefacts: "set (artefacts dir docs) = (\<Union>j \<in> set docs. set (artefacts_of dir j))"
  by (simp add: artefacts_def)

lemma succeeded_count_map:
  "distinct docs \<Longrightarrow>
   succeeded_count (map f docs) = card {j \<in> set docs. f j = Succeeded}"
  by (simp add: succeeded_count_def length_filter_map comp_def distinct_length_filter
      Collect_conj_eq Int_commute)

lemma apart_distinct: "apart dir shared docs \<Longrightarrow> distinct docs"
  by (auto simp: apart_def dest: distinct_artefacts_docs)

lemma run_batch_files_jobs:
  assumes "tools_ok T"
  shows "files (state_of (run_batch T docs) w) = files (snd (run_jobs (steps_of T) docs (fs_of w)))"
  using run_batch_final_files [OF assms, of docs w] by (metis fs_of_sel(2))

lemma run_jobs_files_order:
  assumes "tools_ok T" and "tools_local T shared"
    and "apart (cwd s) shared docs" and "apart (cwd s) shared docs'" and "set docs' = set docs"
  shows "files (snd (run_jobs (steps_of T) docs' s)) = files (snd (run_jobs (steps_of T) docs s))"
  using assms(3,4) by (simp add: run_jobs_files [OF assms(1,2)] set_artefacts assms(5) fun_eq_iff)

lemma run_jobs_tally_order:
  assumes "tools_ok T" and "tools_local T shared"
    and "apart (cwd s) shared docs" and "apart (cwd s) shared docs'" and "set docs' = set docs"
  shows "tally (fst (run_jobs (steps_of T) docs' s)) = tally (fst (run_jobs (steps_of T) docs s))"
proof -
  let ?rs = "fst (run_jobs (steps_of T) docs s)" and ?rs' = "fst (run_jobs (steps_of T) docs' s)"
  from assms(3,4) have distinct: "distinct docs" "distinct docs'" by (auto dest: apart_distinct)
  with assms(5) have "length docs' = length docs" by (metis distinct_card)
  then have "length ?rs' = length ?rs" by simp
  moreover from assms(3,4) distinct have "succeeded_count ?rs' = succeeded_count ?rs"
    by (simp add: run_jobs_alone [OF assms(1,2)] succeeded_count_map assms(5))
  ultimately show ?thesis
    using succeeded_failed_count [of ?rs'] succeeded_failed_count [of ?rs] by (simp add: tally_def)
qed

section \<open>The sample tools\<close>

lemma tools_local_demo_tools: "tools_local demo_tools shared"
  by (auto simp: tools_local_def pandoc_local_def renderer_local_def demo_tools_def
      demo_pandoc_def demo_write_pdf_def agree_on_def split: option.splits)

lemma apart_two_docs:
  "apart (cwd one_doc_world) {} [(''a.md'', ''a.pdf''), (''b.md'', ''b.pdf'')]"
  by (simp add: apart_def artefacts_of_def html_file_of_def py_replace_def join_path_def
      one_doc_world_def)

text \<open>
  The three documents of \<open>main\<close> are apart in every directory, in either order, with
  the style sheet of line 24 as the file that every conversion reads.
\<close>

lemma apart_documents:
  "apart dir {join_path dir ''style.css''} documents"
  "apart dir {join_path dir ''style.css''} (rev documents)"
  by (simp_all add: apart_def artefacts_of_def documents_def html_file_of_def py_replace_def
      join_path_def)

section \<open>Isolation and order\<close>

text \<open>
  C23: When the tools keep their contracts and look at the footprint of a job only, and
  the jobs are apart, every job of a batch has the result that it has alone in the
  initial state, and after the whole run its HTML file and its PDF are as the job
  alone leaves them.
\<close>

theorem job_isolated:
  assumes "tools_ok T" and "tools_local T shared" and "apart (cwd w) shared docs"
    and "i < length docs"
  shows "fst (run_jobs (steps_of T) docs (fs_of w)) ! i
           = fst (run_job (steps_of T) (docs ! i) (fs_of w)) \<and>
         agree_on (set (artefacts_of (cwd w) (docs ! i)))
           (files (state_of (run_batch T docs) w))
           (files (state_of (convert_one T (docs ! i) (0, 0)) w))"
proof -
  obtain md pdf where j: "docs ! i = (md, pdf)" by (cases "docs ! i")
  with convert_one_refines [OF assms(1), of md pdf "(0, 0)" w]
  have "files (state_of (convert_one T (docs ! i) (0, 0)) w)
      = files (snd (run_job (steps_of T) (docs ! i) (fs_of w)))"
    by (simp split: prod.splits)
  with job_in_batch_alone [of T shared "fs_of w" docs
      "fst (run_jobs (steps_of T) docs (fs_of w))" "snd (run_jobs (steps_of T) docs (fs_of w))" i]
    assms
  show ?thesis by (simp add: run_batch_files_jobs [OF assms(1)])
qed

theorem job_isolated_witness:
  "tools_ok demo_tools \<and> tools_local demo_tools {} \<and>
   apart (cwd one_doc_world) {} [(''a.md'', ''a.pdf''), (''b.md'', ''b.pdf'')] \<and>
   (1::nat) < length [(''a.md'', ''a.pdf''), (''b.md'', ''b.pdf'')] \<and>
   fst (run_jobs (steps_of demo_tools) [(''a.md'', ''a.pdf''), (''b.md'', ''b.pdf'')]
          (fs_of one_doc_world)) ! 1
     = fst (run_job (steps_of demo_tools) ([(''a.md'', ''a.pdf''), (''b.md'', ''b.pdf'')] ! 1)
              (fs_of one_doc_world)) \<and>
   agree_on (set (artefacts_of (cwd one_doc_world) ([(''a.md'', ''a.pdf''), (''b.md'', ''b.pdf'')] ! 1)))
     (files (state_of (run_batch demo_tools [(''a.md'', ''a.pdf''), (''b.md'', ''b.pdf'')])
               one_doc_world))
     (files (state_of (convert_one demo_tools ([(''a.md'', ''a.pdf''), (''b.md'', ''b.pdf'')] ! 1)
               (0, 0)) one_doc_world))"
proof -
  have i: "(1::nat) < length [(''a.md'', ''a.pdf''), (''b.md'', ''b.pdf'')]" by simp
  from job_isolated [OF tools_ok_demo_tools tools_local_demo_tools apart_two_docs i]
    tools_ok_demo_tools tools_local_demo_tools [of "{}"] apart_two_docs i
  show ?thesis by blast
qed

text \<open>
  C24: Under the same assumptions the order of the list of documents does not matter:
  two lists of the same documents leave the same files and have the same number of
  successful conversions, so the summary line is the same.
\<close>

theorem order_irrelevant:
  assumes "tools_ok T" and "tools_local T shared"
    and "apart (cwd w) shared docs" and "apart (cwd w) shared docs'" and "set docs' = set docs"
  shows "files (state_of (run_batch T docs') w) = files (state_of (run_batch T docs) w) \<and>
         result_of (convert_loop T docs' (0, 0)) w = result_of (convert_loop T docs (0, 0)) w"
  using run_jobs_files_order [of T shared "fs_of w" docs docs']
    run_jobs_tally_order [of T shared "fs_of w" docs docs'] assms
  by (simp add: run_batch_files_jobs [OF assms(1)] convert_loop_result_tally [OF assms(1)])

theorem order_irrelevant_witness:
  "tools_ok demo_tools \<and> tools_local demo_tools {join_path workdir ''style.css''} \<and>
   apart workdir {join_path workdir ''style.css''} documents \<and>
   apart workdir {join_path workdir ''style.css''} (rev documents) \<and>
   set (rev documents) = set documents \<and>
   files (state_of (run_batch demo_tools (rev documents)) (project_world\<lparr>cwd := workdir\<rparr>))
     = files (state_of (run_batch demo_tools documents) (project_world\<lparr>cwd := workdir\<rparr>)) \<and>
   result_of (convert_loop demo_tools (rev documents) (0, 0)) (project_world\<lparr>cwd := workdir\<rparr>)
     = result_of (convert_loop demo_tools documents (0, 0)) (project_world\<lparr>cwd := workdir\<rparr>)"
proof -
  let ?w = "project_world\<lparr>cwd := workdir\<rparr>"
  note names = apart_documents [of workdir]
  have same: "set (rev documents) = set documents" by simp
  from order_irrelevant [of demo_tools "{join_path workdir ''style.css''}" ?w documents
      "rev documents"] tools_ok_demo_tools tools_local_demo_tools names same
  show ?thesis by simp
qed

end
