(* ===== verification/Simulation.thy ===== *)
theory Simulation
  imports Refinement MainMachine
begin

text \<open>
  The machine of the script and the specification, step by step.

  \<open>Refinement\<close> relates a whole run of \<open>run_batch\<close> to a whole run of the specification.
  A run that is stopped between two documents has no result to compare; what it has
  is the configuration at the head of the first loop (line 80 of
  \<open>src/convert_to_pdf.py\<close>). \<open>loop_head\<close> is the configuration that the
  specification prescribes there: the counters are the tally of the results of the
  jobs done, the files are those that the specification leaves after these jobs, and
  the output is the banner and the transcript of these jobs. Under the contracts
  every head of the loop that the machine reaches is of this form, so a run that ends
  there has done exactly a front part of the batch of the specification.

  \<open>listing_head\<close> is the same for the second loop (lines 93 to 104): all jobs are
  done and a front part of the documents has its line. Under the contracts every
  configuration of the second loop that the machine reaches is of this form, a run
  ends by returning from \<open>main\<close> and no exception leaves it.
\<close>

section \<open>The configuration at the head of the loop\<close>

definition loop_head :: "tools \<Rightarrow> docs \<Rightarrow> docs \<Rightarrow> world \<Rightarrow> mconfig" where
  "loop_head T finished rest w0 =
     (case run_jobs (steps_of T) finished (fs_of w0) of
        (rs, s') \<Rightarrow>
          (Loop rest (tally rs), with_out s' (out w0 @ banner_lines @ transcript finished rs)))"

text \<open>
  The configuration that the specification prescribes in the second loop (lines 93 to
  104), when the documents \<open>listed\<close> have their line: all jobs are done, the files are
  those that the specification leaves, and the output is the banner, the transcript of
  all jobs, the summary and the lines of the documents listed, read from these files.
\<close>

definition listing_head :: "tools \<Rightarrow> docs \<Rightarrow> docs \<Rightarrow> docs \<Rightarrow> world \<Rightarrow> mconfig" where
  "listing_head T ds listed rest w0 =
     (case run_jobs (steps_of T) ds (fs_of w0) of
        (rs, s') \<Rightarrow>
          (Listing rest,
           with_out s' (out w0 @ banner_lines @ transcript ds rs @ summary_lines (tally rs)
                          @ map (listing_line s') listed)))"

section \<open>The machine reaches it\<close>

lemma loop_head_reachable:
  assumes "tools_ok T"
  shows "(main_step T (finished @ rest))\<^sup>*\<^sup>* (Banner, w0) (loop_head T finished rest w0)"
proof -
  let ?ds = "finished @ rest" and ?w1 = "printed w0 banner_lines"
  have "main_step T ?ds (Banner, w0) (Loop ?ds (0, 0), ?w1)" by (rule main_step.announced)
  also note convert_loop_prefix_reaches [of T ?ds finished rest "(0, 0)" ?w1]
  finally show ?thesis
    using convert_loop_refines [OF assms, of finished 0 0 ?w1]
    by (auto simp: loop_head_def tally_def fs_of_def split: prod.splits)
qed

lemma main_reachable_control_inv:
  "main_reachable T ds c0 c \<Longrightarrow> control_inv ds (fst c0) \<Longrightarrow> control_inv ds (fst c)"
  by (induction rule: main_reachable.induct) (auto dest: main_step_control_inv)

lemma rank_loop_head [simp]:
  "control_rank n (fst (loop_head T finished rest w0)) = 9 * length rest + n + 2"
  by (simp add: loop_head_def split: prod.splits)

text \<open>Every head of the loop that a run reaches is the one of the specification.\<close>

lemma reachable_loop_head:
  assumes "tools_ok T"
    and "main_reachable T ds (Banner, w0) c" and "fst c = Loop rest counts"
  shows "\<exists>finished. ds = finished @ rest \<and> c = loop_head T finished rest w0"
proof -
  from main_reachable_control_inv [OF assms(2)] assms(3) have "suffix rest ds" by simp
  then obtain finished where ds: "ds = finished @ rest" by (auto simp: suffix_def)
  from assms(1) have head: "(main_step T ds)\<^sup>*\<^sup>* (Banner, w0) (loop_head T finished rest w0)"
    unfolding ds by (rule loop_head_reachable)
  from assms(2) have "(main_step T ds)\<^sup>*\<^sup>* (Banner, w0) c"
    by (simp add: main_reachable_iff)
  then have "c = loop_head T finished rest w0"
    using head by (rule main_reachable_same_rank) (simp add: assms(3))
  with ds show ?thesis by blast
qed

section \<open>The second loop and the end of the run\<close>

lemma listing_line_with_out_fun: "listing_line (with_out s ls) = listing_line s"
  by (rule ext) simp

lemma listing_head_reachable:
  assumes "tools_ok T"
  shows "(main_step T (listed @ rest))\<^sup>*\<^sup>* (Banner, w0)
           (listing_head T (listed @ rest) listed rest w0)"
proof -
  let ?ds = "listed @ rest"
  obtain rs s' where jobs: "run_jobs (steps_of T) ?ds (fs_of w0) = (rs, s')"
    by (cases "run_jobs (steps_of T) ?ds (fs_of w0)")
  let ?w1 = "with_out s' (out w0 @ banner_lines @ transcript ?ds rs)"
  let ?w2 = "printed ?w1 (summary_lines (tally rs))"
  from loop_head_reachable [OF assms, of ?ds "[]" w0] jobs
  have a: "(main_step T ?ds)\<^sup>*\<^sup>* (Banner, w0) (Loop [] (tally rs), ?w1)"
    by (simp add: loop_head_def)
  have b: "main_step T ?ds (Loop [] (tally rs), ?w1) (Listing ?ds, ?w2)"
    by (rule main_step.summarised)
  have c: "(main_step T ?ds)\<^sup>*\<^sup>* (Listing ?ds, ?w2)
      (Listing rest, printed ?w2 (map (listing_line ?w2) listed))"
    by (rule listing_prefix_reaches)
  from a b have "(main_step T ?ds)\<^sup>*\<^sup>* (Banner, w0) (Listing ?ds, ?w2)"
    by (rule rtranclp.rtrancl_into_rtrancl)
  then have "(main_step T ?ds)\<^sup>*\<^sup>* (Banner, w0)
      (Listing rest, printed ?w2 (map (listing_line ?w2) listed))"
    using c by (rule rtranclp_trans)
  then show ?thesis
    unfolding listing_head_def jobs prod.case
    by (simp only: with_out_printed listing_line_with_out_fun append_assoc)
qed

lemma rank_listing_head [simp]:
  "control_rank n (fst (listing_head T ds listed rest w0)) = length rest + 1"
  by (simp add: listing_head_def split: prod.splits)

text \<open>Every configuration of the second loop that a run reaches is the one of the specification.\<close>

lemma reachable_listing_head:
  assumes "tools_ok T"
    and "main_reachable T ds (Banner, w0) c" and "fst c = Listing rest"
  shows "\<exists>listed. ds = listed @ rest \<and> c = listing_head T ds listed rest w0"
proof -
  from main_reachable_control_inv [OF assms(2)] assms(3) have "suffix rest ds" by simp
  then obtain listed where ds: "ds = listed @ rest" by (auto simp: suffix_def)
  from assms(1) have head: "(main_step T ds)\<^sup>*\<^sup>* (Banner, w0) (listing_head T ds listed rest w0)"
    unfolding ds by (rule listing_head_reachable)
  from assms(2) have "(main_step T ds)\<^sup>*\<^sup>* (Banner, w0) c"
    by (simp add: main_reachable_iff)
  then have "c = listing_head T ds listed rest w0"
    using head by (rule main_reachable_same_rank) (simp add: assms(3))
  with ds show ?thesis by blast
qed

text \<open>Under the contracts a run ends by returning from \<open>main\<close>, in the state of \<open>run_batch\<close>.\<close>

lemma exited_reachable:
  assumes "tools_ok T"
  shows "(main_step T ds)\<^sup>*\<^sup>* (Banner, w0) (Exited, state_of (run_batch T ds) w0)"
  using run_batch_reaches [of T ds w0] run_batch_refines [OF assms]
  by (simp split: prod.splits)

lemma reachable_halted:
  assumes "tools_ok T"
    and "main_reachable T ds (Banner, w0) c" and "halted (fst c)"
  shows "c = (Exited, state_of (run_batch T ds) w0)"
proof -
  from assms(2) have "(main_step T ds)\<^sup>*\<^sup>* (Banner, w0) c"
    by (simp add: main_reachable_iff)
  with main_step_deterministic show ?thesis
    using exited_reachable [OF assms(1)]
    by (rule rtranclp_final_unique)
      (use assms(3) in \<open>auto simp: halted_no_step dest: halted_no_step [of "fst c" T ds "snd c"]\<close>)
qed

lemma contracts_never_abort:
  assumes "tools_ok T" and "main_reachable T ds (Banner, w0) c"
  shows "fst c \<noteq> Aborted e"
  using reachable_halted [OF assms] by auto

section \<open>Simulation\<close>

text \<open>
  C18: When the tools keep their contracts, every head of the first loop that a run of
  the script reaches matches a run of the specification over the documents done so
  far: these and the documents still to visit make up the list, the files are those
  that \<open>batch_spec\<close> leaves for them, the two counters are the tally of their
  results, and the output is the banner followed by their transcript.
\<close>

theorem loop_head_simulates:
  assumes "tools_ok T"
    and "main_reachable T ds (Banner, w0) c" and "fst c = Loop rest counts"
  shows "\<exists>finished rs.
           ds = finished @ rest \<and>
           batch_spec (steps_of T) finished (fs_of w0) rs (fs_of (snd c)) \<and>
           counts = tally rs \<and>
           out (snd c) = out w0 @ banner_lines @ transcript finished rs"
proof -
  from reachable_loop_head [OF assms] obtain finished where ds: "ds = finished @ rest"
    and c: "c = loop_head T finished rest w0" by blast
  obtain rs s' where jobs: "run_jobs (steps_of T) finished (fs_of w0) = (rs, s')"
    by (cases "run_jobs (steps_of T) finished (fs_of w0)")
  with c assms(3) have "fs_of (snd c) = s'" "counts = tally rs"
    "out (snd c) = out w0 @ banner_lines @ transcript finished rs"
    by (simp_all add: loop_head_def)
  with ds jobs show ?thesis by (auto simp: batch_spec_iff)
qed

theorem loop_head_simulates_witness:
  "tools_ok demo_tools \<and>
   main_reachable demo_tools [(''b.md'', ''b.pdf''), (''a.md'', ''a.pdf'')] (Banner, one_doc_world)
     (main_steps demo_tools [(''b.md'', ''b.pdf''), (''a.md'', ''a.pdf'')] 9 (Banner, one_doc_world)) \<and>
   fst (main_steps demo_tools [(''b.md'', ''b.pdf''), (''a.md'', ''a.pdf'')] 9 (Banner, one_doc_world))
     = Loop [(''a.md'', ''a.pdf'')] (1, 0) \<and>
   (\<exists>finished rs.
      [(''b.md'', ''b.pdf''), (''a.md'', ''a.pdf'')] = finished @ [(''a.md'', ''a.pdf'')] \<and>
      batch_spec (steps_of demo_tools) finished (fs_of one_doc_world) rs
        (fs_of (snd (main_steps demo_tools [(''b.md'', ''b.pdf''), (''a.md'', ''a.pdf'')] 9
                       (Banner, one_doc_world)))) \<and>
      (1, 0) = tally rs \<and>
      out (snd (main_steps demo_tools [(''b.md'', ''b.pdf''), (''a.md'', ''a.pdf'')] 9
                 (Banner, one_doc_world)))
        = out one_doc_world @ banner_lines @ transcript finished rs)"
proof -
  let ?ds = "[(''b.md'', ''b.pdf''), (''a.md'', ''a.pdf'')]"
  have nine: "(9::nat) = Suc (Suc (Suc (Suc (Suc (Suc (Suc (Suc (Suc 0))))))))" by simp
  have at: "fst (main_steps demo_tools ?ds 9 (Banner, one_doc_world)) = Loop [(''a.md'', ''a.pdf'')] (1, 0)"
    unfolding nine
    by (simp add: main_steps_Suc next_main_def next_config_simps machine_defs run_defs)
  note reach = main_reachable_steps [of demo_tools ?ds "(Banner, one_doc_world)" 9]
  from loop_head_simulates [OF tools_ok_demo_tools reach at] tools_ok_demo_tools reach at
  show ?thesis by blast
qed

text \<open>
  C19: When the tools keep their contracts, every configuration of the second loop that a
  run of the script reaches matches the run of the specification over all documents:
  the documents listed and those still to list make up the list, the files are those
  that \<open>batch_spec\<close> leaves, and the output is the banner, the transcript, the summary
  of the tally and one line for each document listed, read from these files.
\<close>

theorem listing_simulates:
  assumes "tools_ok T"
    and "main_reachable T ds (Banner, w0) c" and "fst c = Listing rest"
  shows "\<exists>listed rs s'.
           ds = listed @ rest \<and>
           batch_spec (steps_of T) ds (fs_of w0) rs s' \<and>
           fs_of (snd c) = s' \<and>
           out (snd c) = out w0 @ banner_lines @ transcript ds rs @ summary_lines (tally rs)
                           @ map (listing_line s') listed"
proof -
  from reachable_listing_head [OF assms] obtain listed where ds: "ds = listed @ rest"
    and c: "c = listing_head T ds listed rest w0" by blast
  obtain rs s' where jobs: "run_jobs (steps_of T) ds (fs_of w0) = (rs, s')"
    by (cases "run_jobs (steps_of T) ds (fs_of w0)")
  with c have "fs_of (snd c) = s'"
    "out (snd c) = out w0 @ banner_lines @ transcript ds rs @ summary_lines (tally rs)
                     @ map (listing_line s') listed"
    by (simp_all add: listing_head_def)
  with ds jobs show ?thesis unfolding batch_spec_iff by blast
qed

theorem listing_simulates_witness:
  "tools_ok demo_tools \<and>
   main_reachable demo_tools [(''b.md'', ''b.pdf''), (''a.md'', ''a.pdf'')] (Banner, one_doc_world)
     (main_steps demo_tools [(''b.md'', ''b.pdf''), (''a.md'', ''a.pdf'')] 12 (Banner, one_doc_world)) \<and>
   fst (main_steps demo_tools [(''b.md'', ''b.pdf''), (''a.md'', ''a.pdf'')] 12 (Banner, one_doc_world))
     = Listing [(''a.md'', ''a.pdf'')] \<and>
   (\<exists>listed rs s'.
      [(''b.md'', ''b.pdf''), (''a.md'', ''a.pdf'')] = listed @ [(''a.md'', ''a.pdf'')] \<and>
      batch_spec (steps_of demo_tools) [(''b.md'', ''b.pdf''), (''a.md'', ''a.pdf'')]
        (fs_of one_doc_world) rs s' \<and>
      fs_of (snd (main_steps demo_tools [(''b.md'', ''b.pdf''), (''a.md'', ''a.pdf'')] 12
                    (Banner, one_doc_world))) = s' \<and>
      out (snd (main_steps demo_tools [(''b.md'', ''b.pdf''), (''a.md'', ''a.pdf'')] 12
                 (Banner, one_doc_world)))
        = out one_doc_world @ banner_lines
            @ transcript [(''b.md'', ''b.pdf''), (''a.md'', ''a.pdf'')] rs
            @ summary_lines (tally rs) @ map (listing_line s') listed)"
proof -
  let ?ds = "[(''b.md'', ''b.pdf''), (''a.md'', ''a.pdf'')]"
  have twelve: "(12::nat) = Suc (Suc (Suc (Suc (Suc (Suc (Suc (Suc (Suc (Suc (Suc (Suc 0)))))))))))"
    by simp
  have at: "fst (main_steps demo_tools ?ds 12 (Banner, one_doc_world)) = Listing [(''a.md'', ''a.pdf'')]"
    unfolding twelve
    by (simp add: main_steps_Suc next_main_def next_config_simps machine_defs run_defs)
  note reach = main_reachable_steps [of demo_tools ?ds "(Banner, one_doc_world)" 12]
  from listing_simulates [OF tools_ok_demo_tools reach at] tools_ok_demo_tools reach at
  show ?thesis by blast
qed

end
