(* ===== verification/Interrupt.thy ===== *)
theory Interrupt
  imports Simulation
begin

text \<open>
  A run that is stopped.

  The script cannot be cancelled from inside, but it can be terminated from outside
  at any moment (section 5 of the specification). The configurations of the machine
  of \<open>MainMachine\<close> are the moments at which that can happen. This theory says what
  the files are like at such a moment after the banner (lines 77 to 104 of
  \<open>src/convert_to_pdf.py\<close>): the jobs done so far are a front part of the list, a
  configuration inside a call of \<open>markdown_to_pdf\<close> is one that the machine of
  \<open>Pipeline\<close> reaches from the head of the loop, the running job has changed its own
  two artefacts only, the second loop changes no file, and so every job that has
  succeeded before still has its PDF and no HTML file.
\<close>

section \<open>The documents done at a control point\<close>

text \<open>
  The documents that the first loop has not finished: those to visit and the running
  one; none in the second loop and at the return.
\<close>

fun unfinished :: "control \<Rightarrow> docs option" where
  "unfinished (Loop rest counts) = Some rest"
| "unfinished (InJob md_file pdf_file rest counts ph) = Some ((md_file, pdf_file) # rest)"
| "unfinished (Listing rest) = Some []"
| "unfinished Exited = Some []"
| "unfinished _ = None"

text \<open>
  Every job of the list \<open>finished\<close> that has succeeded has, in the files \<open>f\<close>, no HTML
  file and a PDF that is a non-empty regular file; \<open>w0\<close> is the state in which the batch
  started.
\<close>

definition succeeded_kept :: "tools \<Rightarrow> docs \<Rightarrow> world \<Rightarrow> files \<Rightarrow> bool" where
  "succeeded_kept T finished w0 f \<longleftrightarrow>
     (\<forall>i < length finished.
        fst (run_jobs (steps_of T) finished (fs_of w0)) ! i = Succeeded \<longrightarrow>
        f (abspath w0 (html_file_of (fst (finished ! i)))) = None \<and>
        nonempty_file f (abspath w0 (snd (finished ! i))))"

section \<open>A job changes its own artefacts only\<close>

lemma job_step_frame:
  assumes "job_step T md pdf c c'" and "tools_ok T"
  shows "only_changes (set (artefacts_of (cwd (snd c)) (md, pdf))) (files (snd c)) (files (snd c')) \<and>
         cwd (snd c') = cwd (snd c)"
  using assms
proof (induction rule: job_step.induct)
  case (spawned w cp f)
  from spawned(2) have "pandoc_contract T" by (simp add: tools_ok_def)
  then obtain cp' f' where "run_process T (cmd_html md (html_file_of md)) (cwd w) (files w) = (Inr cp', f')"
    and "only_changes {join_path (cwd w) (html_file_of md)} (files w) f'"
    by (rule pandoc_contract_run)
  with spawned(1) show ?case by (auto simp: artefacts_of_def only_changes_def)
next
  case (spawn_raised w e f)
  from spawn_raised(2) have "pandoc_contract T" by (simp add: tools_ok_def)
  then obtain cp' f' where "run_process T (cmd_html md (html_file_of md)) (cwd w) (files w) = (Inr cp', f')"
    by (rule pandoc_contract_run)
  with spawn_raised(1) show ?case by simp
next
  case (rendered w u f)
  then show ?case by (auto simp: tools_ok_def renderer_contract_def artefacts_of_def only_changes_def)
next
  case (render_raised w e f)
  then show ?case by (auto simp: tools_ok_def renderer_contract_def artefacts_of_def only_changes_def)
next
  case (cleaned w u w')
  with os_remove_only_changes [of w "html_file_of md"] os_remove_cwd [of "html_file_of md" w]
  show ?case by (auto simp: artefacts_of_def only_changes_def abspath_def)
next
  case (clean_raised w e w')
  then show ?case by (auto dest: os_remove_failed)
next
  case (handled e w b w')
  then show ?case by (auto simp: pdf_except_run split: if_splits)
next
  case (escaped e w e' w')
  then show ?case by (auto simp: pdf_except_run split: if_splits)
qed simp_all

lemma reachable_frame:
  assumes "reachable T md pdf w1 c" and "tools_ok T"
  shows "only_changes (set (artefacts_of (cwd w1) (md, pdf))) (files w1) (files (snd c)) \<and>
         cwd (snd c) = cwd w1"
  using assms(1)
proof (induction rule: reachable.induct)
  case start
  show ?case by simp
next
  case (step c c')
  with job_step_frame [OF step.hyps(2) assms(2)] show ?case
    by (auto dest: only_changes_trans)
qed

section \<open>Jobs that have succeeded\<close>

lemma succeeded_in_jobs:
  assumes "tools_ok T" and "distinct (artefacts (cwd s) docs)" and "i < length docs"
    and "docs ! i = (md, pdf)" and "fst (run_jobs (steps_of T) docs s) ! i = Succeeded"
  shows "files (snd (run_jobs (steps_of T) docs s)) (join_path (cwd s) (html_file_of md)) = None \<and>
         nonempty_file (files (snd (run_jobs (steps_of T) docs s))) (join_path (cwd s) pdf)"
proof -
  let ?html = "join_path (cwd s) (html_file_of md)" and ?pdf = "join_path (cwd s) pdf"
  obtain rs s' where jobs: "run_jobs (steps_of T) docs s = (rs, s')"
    by (cases "run_jobs (steps_of T) docs s")
  from run_jobs_nth [OF assms(1) jobs assms(3)] assms(4) obtain si si' where
    job: "run_job (steps_of T) (md, pdf) si = (rs ! i, si')" and dir: "cwd si = cwd s"
    and after: "only_changes (set (artefacts (cwd s) (drop (Suc i) docs))) (files si') (files s')"
    by auto
  from distinct_artefacts_nth(1,3) [OF assms(2,3)] assms(4)
  have sep: "?html \<noteq> ?pdf" and "{?html, ?pdf} \<inter> set (artefacts (cwd s) (drop (Suc i) docs)) = {}"
    by (simp_all add: artefacts_of_def)
  with after have same: "files s' ?html = files si' ?html" "files s' ?pdf = files si' ?pdf"
    by (auto simp: only_changes_def)
  from assms(1) have "files si' ?html = None \<and> nonempty_file (files si') ?pdf"
    by (cases rule: run_job_cases [where s = si and md = md and pdf = pdf])
      (use job jobs assms(5) sep dir in \<open>auto simp: nonempty_file_def abspath_def\<close>)
  with same jobs show ?thesis by (simp add: nonempty_file_def)
qed

section \<open>Inside a call of \<open>markdown_to_pdf\<close>\<close>

text \<open>
  A configuration inside a call is one that the machine of \<open>Pipeline\<close> reaches from the
  head of the loop at which the call started.
\<close>

lemma reachable_in_job:
  assumes "tools_ok T" and "main_reachable T ds (Banner, w0) c"
    and "fst c = InJob md pdf rest counts ph"
  shows "\<exists>finished. ds = finished @ (md, pdf) # rest \<and>
           reachable T md pdf (snd (loop_head T finished ((md, pdf) # rest) w0)) (ph, snd c)"
  using assms(2,3)
proof (induction arbitrary: ph rule: main_reachable.induct)
  case start
  then show ?case by simp
next
  case (step c c')
  from step.hyps(2) step.prems show ?case
  proof (cases rule: main_step.cases)
    case (called w md_file pdf_file rest' counts')
    with step.prems have c: "fst c = Loop ((md, pdf) # rest) counts" and c': "c' = (InJob md pdf rest counts Started, snd c)"
      and ph: "ph = Started" by simp_all
    from reachable_loop_head [OF assms(1) step.hyps(1) c] obtain finished where
      "ds = finished @ (md, pdf) # rest" "c = loop_head T finished ((md, pdf) # rest) w0" by blast
    with c' ph show ?thesis by (auto intro: reachable.start)
  next
    case (inside md_file pdf_file ph0 w ph' w' rest' counts')
    with step.prems have c: "fst c = InJob md pdf rest counts ph0" and job: "job_step T md pdf (ph0, snd c) (ph, snd c')"
      by simp_all
    from step.IH [OF c] obtain finished where "ds = finished @ (md, pdf) # rest"
      and "reachable T md pdf (snd (loop_head T finished ((md, pdf) # rest) w0)) (ph0, snd c)"
      by blast
    with job show ?thesis by (auto intro: reachable.step)
  qed simp_all
qed

section \<open>What a stopped run leaves\<close>

lemma loop_head_fs [simp]:
  "files (snd (loop_head T finished rest w0)) = files (snd (run_jobs (steps_of T) finished (fs_of w0)))"
  "cwd (snd (loop_head T finished rest w0)) = cwd w0"
  using run_jobs_cwd [of T finished "fs_of w0"]
  by (auto simp: loop_head_def split: prod.splits)

lemma succeeded_kept_loop_head:
  assumes "tools_ok T" and "distinct (artefacts (cwd w0) finished)"
  shows "succeeded_kept T finished w0 (files (snd (loop_head T finished rest w0)))"
  unfolding succeeded_kept_def
proof (intro allI impI)
  fix i assume "i < length finished"
    and "fst (run_jobs (steps_of T) finished (fs_of w0)) ! i = Succeeded"
  with succeeded_in_jobs [of T "fs_of w0" finished i "fst (finished ! i)" "snd (finished ! i)"] assms
  show "files (snd (loop_head T finished rest w0)) (abspath w0 (html_file_of (fst (finished ! i)))) = None \<and>
      nonempty_file (files (snd (loop_head T finished rest w0))) (abspath w0 (snd (finished ! i)))"
    by (simp add: abspath_def)
qed

lemma listing_head_fs [simp]:
  "files (snd (listing_head T ds listed rest w0)) = files (snd (run_jobs (steps_of T) ds (fs_of w0)))"
  by (simp add: listing_head_def split: prod.splits)

lemma succeeded_kept_after_loop:
  assumes "tools_ok T" and "distinct (artefacts (cwd w0) ds)"
    and "files w = files (snd (run_jobs (steps_of T) ds (fs_of w0)))"
  shows "succeeded_kept T ds w0 (files w)"
  using succeeded_kept_loop_head [OF assms(1,2), of "[]"] assms(3) by simp

text \<open>A change outside the artefacts of the finished jobs keeps what they have left.\<close>

lemma succeeded_kept_frame:
  assumes "succeeded_kept T finished w0 f" and "only_changes P f g"
    and "P \<inter> set (artefacts (cwd w0) finished) = {}"
  shows "succeeded_kept T finished w0 g"
  unfolding succeeded_kept_def
proof (intro allI impI)
  fix i assume i: "i < length finished"
    and ok: "fst (run_jobs (steps_of T) finished (fs_of w0)) ! i = Succeeded"
  let ?html = "abspath w0 (html_file_of (fst (finished ! i)))" and ?pdf = "abspath w0 (snd (finished ! i))"
  from artefacts_of_nth [OF i, of "cwd w0"] have "{?html, ?pdf} \<subseteq> set (artefacts (cwd w0) finished)"
    by (cases "finished ! i") (simp add: artefacts_of_def abspath_def)
  with assms(2,3) have "g ?html = f ?html" "g ?pdf = f ?pdf"
    by (auto simp: only_changes_def)
  with assms(1) i ok show "g ?html = None \<and> nonempty_file g ?pdf"
    by (simp add: succeeded_kept_def nonempty_file_def)
qed

text \<open>The running job keeps what the jobs before it have left.\<close>

lemma succeeded_kept_in_job:
  assumes "tools_ok T" and "distinct (artefacts (cwd w0) (finished @ (md, pdf) # rest))"
    and "reachable T md pdf (snd (loop_head T finished ((md, pdf) # rest) w0)) (ph, w)"
  shows "succeeded_kept T finished w0 (files w)"
proof -
  let ?head = "snd (loop_head T finished ((md, pdf) # rest) w0)"
  from assms(2) have names: "distinct (artefacts (cwd w0) finished)"
    and apart: "set (artefacts_of (cwd w0) (md, pdf)) \<inter> set (artefacts (cwd w0) finished) = {}"
    by auto
  from reachable_frame [OF assms(3,1)]
  have "only_changes (set (artefacts_of (cwd w0) (md, pdf))) (files ?head) (files w)"
    by simp
  with succeeded_kept_loop_head [OF assms(1) names] show ?thesis
    using apart by (rule succeeded_kept_frame)
qed

text \<open>
  C20: When the tools keep their contracts and no two jobs share an artefact, a run that
  is stopped anywhere after the banner, between two documents, inside a call of
  \<open>markdown_to_pdf\<close>, in the second loop or at the return of \<open>main\<close>, has lost
  nothing of what it had done: the documents done and those not finished make up the
  list, and every job done that succeeded has its PDF, a non-empty regular file, and no
  HTML file.
\<close>

theorem stopped_run_keeps_succeeded:
  assumes "tools_ok T" and "distinct (artefacts (cwd w0) ds)"
    and "main_reachable T ds (Banner, w0) c" and "unfinished (fst c) = Some todo"
  shows "\<exists>finished. ds = finished @ todo \<and> succeeded_kept T finished w0 (files (snd c))"
proof (cases "fst c")
  case (Loop rest counts)
  from reachable_loop_head [OF assms(1,3) Loop]
  obtain finished where ds: "ds = finished @ rest" and c: "c = loop_head T finished rest w0"
    by blast
  from assms(2) ds have "distinct (artefacts (cwd w0) finished)" by simp
  with assms(1) have "succeeded_kept T finished w0 (files (snd c))"
    unfolding c by (rule succeeded_kept_loop_head)
  with ds Loop assms(4) show ?thesis by auto
next
  case (InJob md pdf rest counts ph)
  from reachable_in_job [OF assms(1,3) InJob]
  obtain finished where ds: "ds = finished @ (md, pdf) # rest"
    and "reachable T md pdf (snd (loop_head T finished ((md, pdf) # rest) w0)) (ph, snd c)"
    by blast
  with assms(1,2) have "succeeded_kept T finished w0 (files (snd c))"
    by (auto intro: succeeded_kept_in_job)
  with ds InJob assms(4) show ?thesis by auto
next
  case (Listing rest)
  from reachable_listing_head [OF assms(1,3) Listing]
  have "files (snd c) = files (snd (run_jobs (steps_of T) ds (fs_of w0)))" by auto
  with assms(1,2) have "succeeded_kept T ds w0 (files (snd c))" by (rule succeeded_kept_after_loop)
  with Listing assms(4) show ?thesis by auto
next
  case Exited
  with reachable_halted [OF assms(1,3)]
  have c: "c = (Exited, state_of (run_batch T ds) w0)" by simp
  from run_batch_final_files [OF assms(1), of ds w0]
  have "files (fs_of (snd c)) = files (snd (run_jobs (steps_of T) ds (fs_of w0)))"
    unfolding c by simp
  then have "files (snd c) = files (snd (run_jobs (steps_of T) ds (fs_of w0)))" by simp
  with assms(1,2) have "succeeded_kept T ds w0 (files (snd c))" by (rule succeeded_kept_after_loop)
  with Exited assms(4) show ?thesis by auto
qed (use assms(4) in simp_all)

theorem stopped_run_keeps_succeeded_witness:
  "tools_ok demo_tools \<and>
   distinct (artefacts (cwd two_doc_world) [(''b.md'', ''b.pdf''), (''c.md'', ''c.pdf'')]) \<and>
   main_reachable demo_tools [(''b.md'', ''b.pdf''), (''c.md'', ''c.pdf'')] (Banner, two_doc_world)
     (main_steps demo_tools [(''b.md'', ''b.pdf''), (''c.md'', ''c.pdf'')] 15 (Banner, two_doc_world)) \<and>
   fst (main_steps demo_tools [(''b.md'', ''b.pdf''), (''c.md'', ''c.pdf'')] 15 (Banner, two_doc_world))
     = InJob ''c.md'' ''c.pdf'' [] (1, 0) Cleaning \<and>
   (\<exists>finished.
      [(''b.md'', ''b.pdf''), (''c.md'', ''c.pdf'')] = finished @ [(''c.md'', ''c.pdf'')] \<and>
      succeeded_kept demo_tools finished two_doc_world
        (files (snd (main_steps demo_tools [(''b.md'', ''b.pdf''), (''c.md'', ''c.pdf'')] 15
                       (Banner, two_doc_world)))))"
proof -
  let ?ds = "[(''b.md'', ''b.pdf''), (''c.md'', ''c.pdf'')]"
  let ?c = "main_steps demo_tools ?ds 15 (Banner, two_doc_world)"
  have names: "distinct (artefacts (cwd two_doc_world) ?ds)"
    by (simp add: artefacts_of_def html_file_of_def py_replace_def join_path_def)
  have fifteen: "(15::nat) = Suc (Suc (Suc (Suc (Suc (Suc (Suc (Suc (Suc (Suc (Suc (Suc (Suc (Suc (Suc 0))))))))))))))"
    by simp
  have at: "fst ?c = InJob ''c.md'' ''c.pdf'' [] (1, 0) Cleaning"
    unfolding fifteen
    by (simp add: main_steps_Suc next_main_def next_config_simps machine_defs run_defs)
  then have todo: "unfinished (fst ?c) = Some [(''c.md'', ''c.pdf'')]" by simp
  note reach = main_reachable_steps [of demo_tools ?ds "(Banner, two_doc_world)" 15]
  from stopped_run_keeps_succeeded [OF tools_ok_demo_tools names reach todo]
    tools_ok_demo_tools names reach at
  show ?thesis by blast
qed

end
