(* ===== verification/Names.thy ===== *)
theory Names
  imports Converter
begin

text \<open>
  The name of the intermediate HTML file, line 16 of \<open>src/convert_to_pdf.py\<close>:
  \<open>md_file.replace('.md', '.html')\<close>. The replacement is not tied to the end of the
  name: it rewrites every occurrence of \<open>.md\<close>, in directory names too, and leaves
  a name without \<open>.md\<close> as it is. The lemmas say which names the function maps to
  which, and when the HTML file is the source itself.
\<close>

section \<open>Every occurrence is replaced\<close>

text \<open>
  C34: The first occurrence of \<open>.md\<close> becomes \<open>.html\<close> wherever it is, and the rest of the
  name is rewritten in the same way: a directory named \<open>docs.md.d\<close> becomes
  \<open>docs.html.d\<close> in the name of the HTML file.
\<close>

theorem html_file_of_every_occurrence:
  assumes "\<not> sublist ''.md'' base"
  shows "html_file_of (base @ ''.md'' @ rest) = base @ ''.html'' @ html_file_of rest"
  using replace_scan_last_occ [of "CHR ''.''" "''md''" base "''.html''" rest] assms
  by (simp add: html_file_of_def py_replace_def)

theorem html_file_of_every_occurrence_witness:
  "\<not> sublist ''.md'' ''docs'' \<and>
   html_file_of (''docs'' @ ''.md'' @ ''.d/guide.md'') = ''docs'' @ ''.html'' @ html_file_of ''.d/guide.md'' \<and>
   html_file_of ''docs.md.d/guide.md'' = ''docs.html.d/guide.html''"
proof -
  have clean: "\<not> sublist ''.md'' ''docs''"
    by (simp add: sublist_Cons_right)
  have "html_file_of ''docs.md.d/guide.md'' = ''docs.html.d/guide.html''"
    by (simp add: html_file_of_def py_replace_def)
  with html_file_of_every_occurrence [OF clean, of "''.d/guide.md''"] clean show ?thesis by blast
qed

section \<open>When the HTML file is the source\<close>

lemma count_scan_md: "count_scan ''.md'' md = 0 \<longleftrightarrow> \<not> sublist ''.md'' md"
  by (rule count_scan_zero_iff) simp

lemma length_html_file_of:
  "length (html_file_of md) = length md + 2 * count_scan ''.md'' md"
  using length_replace_scan [of "''.md''" "''.html''" md]
  by (simp add: html_file_of_def py_replace_def)

text \<open>
  C33: The HTML file has the name of the Markdown file exactly when that name does not
  contain \<open>.md\<close>: exactly then \<open>markdown_to_pdf\<close> writes and removes its own source.
\<close>

theorem html_file_of_fixed_point:
  "html_file_of md = md \<longleftrightarrow> \<not> sublist ''.md'' md"
proof
  assume "html_file_of md = md"
  with length_html_file_of [of md] have "count_scan ''.md'' md = 0" by simp
  then show "\<not> sublist ''.md'' md" by (simp add: count_scan_md)
next
  assume "\<not> sublist ''.md'' md"
  then show "html_file_of md = md" by (rule html_file_of_no_md)
qed

theorem html_file_of_fixed_point_witness:
  "\<not> sublist ''.md'' ''notes.markdown'' \<and> html_file_of ''notes.markdown'' = ''notes.markdown'' \<and>
   html_file_of ''a.md'' \<noteq> ''a.md'' \<and> sublist ''.md'' ''a.md''"
proof -
  have clean: "\<not> sublist ''.md'' ''notes.markdown''"
    by (simp add: sublist_Cons_right)
  have changed: "html_file_of ''a.md'' \<noteq> ''a.md''"
    by (simp add: html_file_of_def py_replace_def)
  from html_file_of_fixed_point [of "''notes.markdown''"] html_file_of_fixed_point [of "''a.md''"]
    clean changed
  show ?thesis by blast
qed

end
