(* ===== verification/Report.thy ===== *)
theory Report
  imports Converter
begin

text \<open>
  The two loops of \<open>main\<close> as sequences and the lines of its report.

  The first loop handles the documents in list order, so a loop over a list is the
  loop over its front followed by the loop over its back, with the counters and the
  state handed over. The second loop reads the directory and changes nothing. The
  summary line can be read back: \<open>read_summary\<close> recovers both counters from it. The
  size in a listing line is the double nearest to the size in bytes, divided by
  \<open>2 ^ 20\<close> and rounded to hundredths: below \<open>2 ^ 53\<close> bytes that is the size itself,
  from there on the line can be one hundredth off.
\<close>

section \<open>A reader for the summary line\<close>

text \<open>
  \<open>read_summary\<close> takes the line apart at its fixed words and reads the two numbers
  with \<open>int_of_str\<close>; it is used to state the round trip and models no code.
\<close>

definition strip_prefix :: "string \<Rightarrow> string \<Rightarrow> string option" where
  "strip_prefix p s = (if prefix p s then Some (drop (length p) s) else None)"

definition read_summary :: "string \<Rightarrow> (int \<times> int) option" where
  "read_summary line =
     (case strip_prefix ''Summary: '' line of
        None \<Rightarrow> None
      | Some r1 \<Rightarrow>
          let a = takeWhile (\<lambda>c. c \<noteq> CHR '' '') r1
          in case strip_prefix '' successful, '' (drop (length a) r1) of
               None \<Rightarrow> None
             | Some r2 \<Rightarrow>
                 let b = takeWhile (\<lambda>c. c \<noteq> CHR '' '') r2
                 in if drop (length b) r2 = '' failed''
                    then Some (int_of_str a, int_of_str b) else None)"

section \<open>The first loop in list order\<close>

text \<open>
  The first loop over \<open>xs @ ys\<close> is the loop over \<open>xs\<close> followed, unless an exception
  ended it, by the loop over \<open>ys\<close> from the counters and the state that the first
  part left.
\<close>

theorem convert_loop_append:
  "run_state (convert_loop T (xs @ ys) counts) w =
     (case run_state (convert_loop T xs counts) w of
        (Inl e, w1) \<Rightarrow> (Inl e, w1)
      | (Inr counts1, w1) \<Rightarrow> run_state (convert_loop T ys counts1) w1)"
proof (induction xs arbitrary: counts w)
  case Nil
  show ?case by simp
next
  case (Cons doc xs)
  show ?case
    by (cases "run_state (convert_one T doc counts) w")
      (simp add: Cons.IH split: sum.splits)
qed

section \<open>The second loop only reads\<close>

text \<open>
  The second loop never raises and changes neither the files nor the directory; it
  prints one line for each document, computed from the files as they are when the
  loop starts.
\<close>

theorem list_pdfs_reads_only:
  "run_state (list_pdfs docs) w = (Inr (), printed w (map (listing_line w) docs)) \<and>
   same_files w (state_of (list_pdfs docs) w)"
  using list_pdfs_same_files [of docs]
  by (simp add: list_pdfs_run state_io_rel_def)

theorem list_pdfs_reads_only_witness:
  "run_state (list_pdfs [(''a.md'', ''a.pdf''), (''b.md'', ''b.pdf'')]) stale_world
     = (Inr (), printed stale_world [''  '' @ tick @ '' a.pdf (7.68 MB)'',
                                     ''  '' @ cross @ '' b.pdf (NOT FOUND)'']) \<and>
   same_files stale_world
     (state_of (list_pdfs [(''a.md'', ''a.pdf''), (''b.md'', ''b.pdf'')]) stale_world)"
proof -
  have lines: "map (listing_line stale_world) [(''a.md'', ''a.pdf''), (''b.md'', ''b.pdf'')]
      = [''  '' @ tick @ '' a.pdf (7.68 MB)'', ''  '' @ cross @ '' b.pdf (NOT FOUND)'']"
    by (simp add: run_defs)
  from list_pdfs_reads_only [of "[(''a.md'', ''a.pdf''), (''b.md'', ''b.pdf'')]" stale_world]
  show ?thesis unfolding lines .
qed

section \<open>The summary line can be read back\<close>

lemma space_not_in_str_nat: "CHR '' '' \<notin> set (str_nat n)"
  using str_nat_digits [of n] by auto

lemma space_not_in_py_str_int: "CHR '' '' \<notin> set (py_str_int i)"
  by (simp add: py_str_int_def space_not_in_str_nat)

lemma takeWhile_until_space:
  "CHR '' '' \<notin> set a \<Longrightarrow> takeWhile (\<lambda>c. c \<noteq> CHR '' '') (a @ CHR '' '' # r) = a"
  by (induction a) auto

lemma strip_prefix_append: "strip_prefix p (p @ s) = Some s"
  by (simp add: strip_prefix_def)

lemma read_summary_parts:
  assumes "CHR '' '' \<notin> set a" and "CHR '' '' \<notin> set b"
  shows "read_summary (''Summary: '' @ a @ '' successful, '' @ b @ '' failed'')
           = Some (int_of_str a, int_of_str b)"
proof -
  let ?r2 = "b @ '' failed''"
  let ?r1 = "a @ '' successful, '' @ ?r2"
  have 1: "strip_prefix ''Summary: '' (''Summary: '' @ ?r1) = Some ?r1"
    by (rule strip_prefix_append)
  have 2: "takeWhile (\<lambda>c. c \<noteq> CHR '' '') ?r1 = a"
    using takeWhile_until_space [OF assms(1)] by simp
  have 3: "drop (length a) ?r1 = '' successful, '' @ ?r2" by simp
  have 4: "strip_prefix '' successful, '' ('' successful, '' @ ?r2) = Some ?r2"
    by (rule strip_prefix_append)
  have 5: "takeWhile (\<lambda>c. c \<noteq> CHR '' '') ?r2 = b"
    using takeWhile_until_space [OF assms(2)] by simp
  have 6: "drop (length b) ?r2 = '' failed''" by simp
  show ?thesis
    unfolding read_summary_def 1 option.case Let_def 2 3 4 5 6 by simp
qed

text \<open>
  C35: Reading the summary line gives back the two counters, for all values of the
  counters.
\<close>

theorem read_summary_summary_line:
  "read_summary (summary_line success_count fail_count) = Some (success_count, fail_count)"
  unfolding summary_line_def
  by (simp only: read_summary_parts [OF space_not_in_py_str_int space_not_in_py_str_int]
      int_of_str_py_str_int)

section \<open>The size in a listing line\<close>

text \<open>Below \<open>2 ^ 53\<close> bytes the division of line 101 is exact.\<close>

lemma found_line_exact:
  assumes "bytes < 2 ^ 53"
  shows "found_line pdf_file bytes
           = ''  '' @ tick @ '' '' @ pdf_file @ '' ('' @ format_2f bytes (1024 * 1024) @ '' MB)''"
  using assms by (simp add: found_line_def)




text \<open>
  C37: A PDF of less than 5243 bytes is listed with \<open>0.00 MB\<close>: the listing cannot tell
  a small PDF from an empty file.
\<close>

theorem found_line_small:
  assumes "bytes < 5243"
  shows "found_line pdf_file bytes = ''  '' @ tick @ '' '' @ pdf_file @ '' (0.00 MB)''"
proof -
  from assms have "round_half_even (100 * nearest_double bytes) (1024 * 1024) = 0"
    by (auto simp: round_half_even_def Let_def)
  then show ?thesis
    by (simp add: found_line_def format_2f_def str_nat.simps digit_char_def)
qed

theorem found_line_small_witness:
  "(5242::nat) < 5243 \<and> found_line ''a.pdf'' 5242 = ''  '' @ tick @ '' '' @ ''a.pdf'' @ '' (0.00 MB)'' \<and>
   found_line ''a.pdf'' 0 = found_line ''a.pdf'' 5242 \<and>
   found_line ''a.pdf'' 5243 = ''  '' @ tick @ '' a.pdf (0.01 MB)''"
proof -
  have "found_line ''a.pdf'' 5243 = ''  '' @ tick @ '' a.pdf (0.01 MB)''"
    by (simp add: run_defs)
  moreover have "found_line ''a.pdf'' 0 = ''  '' @ tick @ '' '' @ ''a.pdf'' @ '' (0.00 MB)''"
    by (simp add: run_defs)
  ultimately show ?thesis using found_line_small [of 5242 "''a.pdf''"] by simp
qed

end
