(* ===== verification/Spec2Isabelle.thy ===== *)
theory Spec2Isabelle
  imports Wellformed Isolation Interrupt Names Report
begin

text \<open>
  Verification of \<open>src/convert_to_pdf.py\<close>, a script that converts a fixed list of
  Markdown documents to PDF. For each document it checks that the source exists, runs
  \<open>pandoc\<close> to produce an HTML file, renders that file to PDF with WeasyPrint, removes
  the HTML file, and counts successes and failures; at the end it prints a summary and
  the size of every PDF it finds. The script has two functions, \<open>markdown_to_pdf\<close>
  (lines 10 to 58) and \<open>main\<close> (lines 61 to 104); everything else it does is a call to
  Python's library, to the operating system, or to one of the two external tools.

  \<^bold>\<open>The model.\<close> A function of the script is a computation in the state monad of
  \<open>HOL-Library.State_Monad\<close> over the record \<open>world\<close>: the current directory, the
  files, and the lines printed so far. Its result is a sum, \<open>Inr\<close> the value that the
  Python function returns and \<open>Inl\<close> the exception that leaves it, so every \<open>raise\<close>,
  every \<open>except\<close> clause and every early \<open>return\<close> is a branch of the model. The two
  tools are a parameter \<open>T :: tools\<close>: what \<open>subprocess.run\<close>, the import of WeasyPrint
  and \<open>write_pdf\<close> return or raise and how they change the files. A theorem that does
  not mention a contract holds for every \<open>T\<close>.

  \<^bold>\<open>Theories.\<close>
  \<^item> \<open>Prelude\<close>: names of the basic types, the theorem collections \<open>py_defs\<close>,
    \<open>frame_simps\<close> and \<open>io_intros\<close>, run equations of the state monad, rules that
    build a relation between the states before and after a computation along its
    syntax, and \<open>fuel_run\<close>, the iteration of a successor function with fuel, with
    the lemmas that both state machines share.
  \<^item> \<open>PyStr\<close>: the string operations the script uses. \<open>py_replace\<close> is \<open>str.replace\<close>
    (line 16), \<open>py_repeat\<close> is \<open>"=" * 60\<close> (line 72), \<open>py_str_int\<close> is the formatting of
    the counters (line 94), \<open>nearest_double\<close> is the double that the division of two
    integers gives (line 101) and \<open>format_2f\<close> is \<open>{size_mb:.2f}\<close> (line 102). The
    lemmas characterise \<open>replace\<close> by the occurrences of the pattern, relate it to
    \<open>split\<close> and \<open>join\<close>, invert \<open>str\<close> on integers and bound the error of the two
    roundings.
  \<^item> \<open>PyExn\<close>: exception classes with single inheritance, \<open>issubclass\<close> through the
    method resolution order, and \<open>isinstance\<close>; the subclass relation is an order with
    top \<open>BaseException\<close>, which decides which \<open>except\<close> clause of lines 53 to 58 handles
    an exception.
  \<^item> \<open>FileSys\<close>: the record \<open>fs\<close> and \<open>os.chdir\<close> (line 64), \<open>Path.exists\<close> (lines 81
    and 100), \<open>os.remove\<close> (line 48) and \<open>Path.stat\<close> (line 101), with the errors they
    raise and what they leave unchanged.
  \<^item> \<open>World\<close>: \<open>world\<close> extends \<open>fs\<close> by the output; \<open>py_print\<close> is \<open>print\<close>;
    \<open>subprocess_run\<close> (line 31), \<open>import_weasyprint\<close> (line 41) and \<open>html_write_pdf\<close>
    (line 44) call the tools. \<open>extends\<close> and \<open>same_files\<close> are the two frame relations.
  \<^item> \<open>Tools\<close>: sample tools and sample directories, at which the theorems with
    hypotheses are applied.
  \<^item> \<open>Converter\<close>: the script, statement by statement. \<open>html_file_of\<close>, \<open>cmd_html\<close>,
    \<open>pdf_step\<close> (the \<open>try\<close> body), \<open>pdf_except\<close> (the \<open>except\<close> clauses) and
    \<open>markdown_to_pdf\<close>; \<open>convert_one\<close> and \<open>convert_loop\<close> (the first loop with its two
    counters), \<open>list_one\<close> and \<open>list_pdfs\<close> (the second loop), \<open>run_batch\<close> (lines 72 to
    104 with the list of documents as a parameter), \<open>main\<close>, \<open>run_module\<close> (lines
    107 and 108 with \<open>__name__\<close> as a parameter) and \<open>exit_status\<close>. Its
    lemmas give the result and the final state of each function by cases on what the
    tools return, the frame of each function, the count of the first loop, and which
    exceptions leave which function.
  \<^item> \<open>Names\<close>: which names \<open>html_file_of\<close> maps to which: every occurrence of \<open>.md\<close>
    is replaced, and a name is its own HTML name exactly when it does not contain
    \<open>.md\<close>.
  \<^item> \<open>Report\<close>: the first loop over a list is the loop over its front followed by
    the loop over its back; the second loop only reads; the summary line can be read
    back with \<open>read_summary\<close>; the size in a listing line is that of a double,
    rounded to hundredths of a megabyte.
  \<^item> \<open>Contracts\<close>: what the script may expect of the tools (\<open>tools_ok\<close>) and of the
    names of its documents (\<open>distinct (artefacts dir docs)\<close>).
  \<^item> \<open>Branches\<close>: every way through \<open>markdown_to_pdf\<close> once the child process has
    run, with the exact result, files and output: library missing, renderer raises,
    removal fails, success.
  \<^item> \<open>Pipeline\<close>: \<open>markdown_to_pdf\<close> as a state machine. \<open>phase\<close> names the control
    points of lines 10 to 58, \<open>job_step\<close> has one rule per statement that calls a tool
    or decides where control goes, \<open>next_config\<close> computes the successor and
    \<open>steps_from\<close> runs it with fuel. The machine is a second reading of the same
    lines: its lemmas tie it to the function (it reaches the result of
    \<open>markdown_to_pdf\<close> within seven transitions), and its theorem is about the
    configurations in between, in every one of which \<open>config_inv\<close> holds.
  \<^item> \<open>MainMachine\<close>: the whole script as a state machine. \<open>control\<close> names the
    control points of lines 61 to 104 and holds the local variables of \<open>main\<close> there;
    \<open>main_step\<close> has one rule for each call, each test and each group of \<open>print\<close>
    statements of \<open>main\<close>, and runs the transitions of \<open>Pipeline\<close> inside a call of
    \<open>markdown_to_pdf\<close>; \<open>next_main\<close> computes the successor
    and \<open>main_steps\<close> runs it with fuel. The lemmas tie the machine to \<open>main\<close> (it
    is deterministic, never stuck and ends in the result and state of \<open>main\<close>); the
    theorem is that \<open>main_inv\<close> holds in every reachable configuration, for all
    tools.
  \<^item> \<open>BatchSpec\<close>: the batch converter of \<open>spec.md\<close> over an abstract store: the results
    \<open>Succeeded\<close>, \<open>SourceMissing\<close> and \<open>ConversionFailed\<close>, the interface \<open>steps\<close>, the
    rules \<open>job_spec\<close> and \<open>batch_spec\<close>, and the functions \<open>run_job\<close> and \<open>run_jobs\<close>
    that compute them.
  \<^item> \<open>Refinement\<close>: \<open>steps_of\<close> instantiates the interface of \<open>BatchSpec\<close> with the file
    system and the tools; under the contracts the loop body, the first loop and
    \<open>run_batch\<close> agree with \<open>run_job\<close> and \<open>run_jobs\<close> on the result, the files and the
    output.
  \<^item> \<open>Simulation\<close>: the machine against the specification at the head of the first
    loop and in the second loop. \<open>loop_head\<close> is the configuration that the
    specification prescribes after the jobs done so far, \<open>listing_head\<close> the one
    after all jobs and the documents listed so far; under the contracts every
    configuration that the machine reaches at these control points is of this form,
    and every run ends by returning from \<open>main\<close>.
  \<^item> \<open>Interrupt\<close>: what a run leaves that is stopped after the banner.
    \<open>unfinished\<close> gives the documents that the first loop has not finished at a
    control point. A configuration inside a call of \<open>markdown_to_pdf\<close> is one that
    the machine of \<open>Pipeline\<close> reaches from the head of the loop; the running job
    changes its own artefacts only; every job done that succeeded keeps its PDF.
  \<^item> \<open>Wellformed\<close>: the representation invariant \<open>wf_fs\<close> of the file system
    (absolute names in the map of files, the current directory an absolute path of an
    existing directory). Every call on the file system keeps it; under the contracts
    every transition of \<open>main_step\<close> keeps it, and \<open>os.chdir\<close> establishes it.
  \<^item> \<open>Isolation\<close>: the \<open>footprint\<close> of a job (the files that lines 22 to 44 name),
    tools that look at the footprint only (\<open>tools_local\<close>) and lists of documents in
    which no job writes what another reads (\<open>apart\<close>). Under them a job of a batch
    behaves as it does alone, and the order of the list does not matter.
  \<^item> This theory: the properties of a whole run that section 8 of the specification
    asks for, the two scenarios it gives, and \<open>main\<close> against the specification.

  \<^bold>\<open>Assumptions and bounds.\<close>
  \<^item> Strings are lists of bytes and the three symbols the script prints are their
    UTF-8 encodings. \<open>print\<close> does not fail: standard output accepts these bytes.
  \<^item> Python divides two integers to the nearest double, ties to even. For the divisor
    \<open>1024 * 1024\<close> of line 101 the value of that double is \<open>nearest_double n\<close> over
    \<open>2 ^ 20\<close>, where \<open>nearest_double n\<close> is \<open>n\<close> rounded to 53 binary digits: \<open>n\<close> itself
    below \<open>2 ^ 53\<close>. This holds while the quotient is in the range of the normal
    doubles, so for every size that \<open>st_size\<close> can hold (less than \<open>2 ^ 63\<close>).
    \<open>format_2f n d\<close> rounds the exact value \<open>n / d\<close> of a double to two decimals, half to
    even, as \<open>format\<close> does.
  \<^item> Paths are compared as strings after joining them to the current directory. Links,
    permissions, \<open>.\<close> and \<open>..\<close> are not modelled, and a directory does not have to
    exist for a file to be created in it. So \<open>Path.exists\<close> never raises; in Python
    it raises \<open>PermissionError\<close> for a directory that may not be searched.
  \<^item> The tools are total functions of the command line, the directory and the files:
    a tool always returns or raises. \<open>subprocess.run\<close> in line 31 has no timeout, and
    a \<open>pandoc\<close> that never returns is not expressed.
  \<^item> \<open>os.remove\<close> of a directory raises \<open>IsADirectoryError\<close>, as on Linux; macOS raises
    \<open>PermissionError\<close>. Both are instances of \<open>OSError\<close> and go the same way through
    the \<open>except\<close> clauses; only the text of the message differs.
  \<^item> \<open>exit_status\<close> is 0 when \<open>main\<close> returns and 1 when an instance of \<open>Exception\<close>
    leaves it; for \<open>SystemExit\<close> and \<open>KeyboardInterrupt\<close> the status depends on data the
    model does not hold and is \<open>None\<close>.
  \<^item> Nothing but the script and the tools it calls changes the files during a run.
  \<^item> All recursion is structural on the list of documents or terminates by a measure
    on a string, so the functions of the script are total. Fuel occurs in the two
    machines only. A run of \<open>steps_from\<close> in \<open>Pipeline\<close> makes at most seven
    transitions, one for each rank of \<open>phase_rank\<close>, so fuel 7 always reaches the final
    configuration. A run of \<open>main_steps\<close> in \<open>MainMachine\<close> over \<open>n\<close> documents makes
    at most \<open>10 * n + 4\<close> transitions, the value of \<open>control_rank\<close> at the entry: nine
    for a document in the first loop, one in the second, and four for \<open>os.chdir\<close>, the
    banner, the summary and the return; for the three documents of \<open>main\<close> fuel 34 is
    enough, and more fuel changes nothing.
  \<^item> \<open>tools_local\<close> is an assumption on the tools like the contracts: the outcome of
    a conversion depends on the source, the HTML file, the PDF and the style sheet only.
    Only the theorems of \<open>Isolation\<close> assume it.

  \<^bold>\<open>What the theorems show.\<close> For all tools: the two counters add up to the
  number of documents; a conversion that returns \<open>True\<close> has removed the HTML file;
  a missing source touches nothing; every way through \<open>markdown_to_pdf\<close> has the
  stated result, files and output; an exception leaves the script only from
  \<open>os.chdir\<close>, from \<open>subprocess.run\<close> or when it is no instance of \<open>Exception\<close>.
  Under the contracts: \<open>main\<close> returns, its files and its output are those of the
  specification, every job that succeeded has a non-empty PDF and no HTML file after
  the whole run, and the other jobs leave their artefacts as the failed step left
  them; the run changes no file but the artefacts of its documents; every reachable
  configuration of the machine is well-formed; no exception leaves \<open>main\<close> after
  \<open>os.chdir\<close>; a run that is stopped between two
  documents has done a front part of the batch of the specification, one that is
  stopped in the second loop has done the whole batch and printed a front part of the
  listing, and a run that is stopped anywhere after the banner has kept the PDF of
  every job done that succeeded; each job behaves
  in the batch as it does alone, so the order of the documents does not matter. For
  all tools again: at every control point of a run the counters are in step with the
  documents visited. The theorems also show where script and specification part: an
  exception
  from \<open>subprocess.run\<close> or from \<open>os.chdir\<close> ends the run with status 1; a failed
  removal of the HTML file makes a finished conversion count as failed; a name without
  \<open>.md\<close> makes the source its own HTML file, which a successful run deletes; the
  listing shows a PDF left by an earlier run, and from \<open>2 ^ 53\<close> bytes on it shows the
  size of a double, which can differ from the size of the file in the last digit.

  \<^bold>\<open>Not modelled.\<close> The conversion from Markdown to HTML inside \<open>pandoc\<close> and the
  rendering inside WeasyPrint (external programs: only their exit code, their error
  text, the exceptions they raise and the files they write are visible to the script);
  the text of a traceback; signals; the environment of the child process; the import
  of the standard library in lines 6 to 8, which binds names and has no other effect.
\<close>

section \<open>Evaluation of the specification on sample runs\<close>

lemmas spec_eval_defs = run_job_def refinement_defs run_defs

lemma job_names_a: "distinct (artefacts dir [(''a.md'', ''a.pdf'')])"
  by (simp add: artefacts_of_def html_file_of_def py_replace_def join_path_def)

lemma job_names_b: "distinct (artefacts dir [(''b.md'', ''b.pdf'')])"
  by (simp add: artefacts_of_def html_file_of_def py_replace_def join_path_def)

section \<open>\<open>main\<close> implements the specification\<close>

text \<open>
  C1: When the tools keep their contracts and the working directory of the script
  exists, \<open>main\<close> returns normally; the files it leaves are those that the
  specification leaves for the three documents, run in the working directory, for some
  list of results, and what it prints is the report of these results.
\<close>

theorem main_implements_spec:
  assumes "tools_ok T" and "is_dir w workdir"
  shows "\<exists>rs s'. batch_spec (steps_of T) documents (fs_of (w\<lparr>cwd := workdir\<rparr>)) rs s' \<and>
           run_state (main T) w = (Inr (), with_out s' (out w @ report documents rs s'))"
proof -
  let ?w1 = "w\<lparr>cwd := workdir\<rparr>"
  have abs: "abspath w workdir = workdir" by (simp add: abspath_def workdir_def)
  obtain rs s' where jobs: "run_jobs (steps_of T) documents (fs_of ?w1) = (rs, s')"
    by (cases "run_jobs (steps_of T) documents (fs_of ?w1)")
  with run_batch_refines [OF assms(1), of documents ?w1]
  have "run_state (run_batch T documents) ?w1
      = (Inr (), with_out s' (out w @ report documents rs s'))"
    by simp
  with os_chdir_ok [OF assms(2)] abs jobs show ?thesis
    by (auto simp: main_run batch_spec_iff)
qed

theorem main_implements_spec_witness:
  "tools_ok demo_tools \<and> is_dir project_world workdir \<and>
   (\<exists>rs s'. batch_spec (steps_of demo_tools) documents (fs_of (project_world\<lparr>cwd := workdir\<rparr>)) rs s' \<and>
      run_state (main demo_tools) project_world
        = (Inr (), with_out s' (out project_world @ report documents rs s')))"
proof -
  have dir: "is_dir project_world workdir"
    by (simp add: is_dir_def project_world_def eval_defs workdir_def)
  from main_implements_spec [OF tools_ok_demo_tools dir] tools_ok_demo_tools dir
  show ?thesis by blast
qed

section \<open>The artefacts of each job after the run\<close>

text \<open>
  C2: When the tools keep their contracts and no two jobs share an artefact, every job
  that succeeded has, after the whole run, no HTML file and a PDF that is a non-empty
  regular file.
\<close>

theorem succeeded_job_artefacts:
  assumes "tools_ok T" and "distinct (artefacts (cwd w) docs)" and "i < length docs"
    and "docs ! i = (md, pdf)"
    and "fst (run_jobs (steps_of T) docs (fs_of w)) ! i = Succeeded"
  shows "files (state_of (run_batch T docs) w) (abspath w (html_file_of md)) = None \<and>
         nonempty_file (files (state_of (run_batch T docs) w)) (abspath w pdf)"
proof -
  from assms(1-4) obtain si si' where
    job: "run_job (steps_of T) (md, pdf) si = (fst (run_jobs (steps_of T) docs (fs_of w)) ! i, si')"
    and cwd: "cwd si = cwd w"
    and same: "\<forall>p \<in> {abspath w (html_file_of md), abspath w pdf}.
           files si p = files w p \<and> files (state_of (run_batch T docs) w) p = files si' p"
    and sep: "abspath w (html_file_of md) \<noteq> abspath w pdf"
    by (rule job_of_batch)
  from cwd have abs: "abspath si p = abspath w p" for p by (simp add: abspath_def)
  from assms(1) show ?thesis
    by (cases rule: run_job_cases [where s = si and md = md and pdf = pdf])
      (use job assms(5) same sep abs in \<open>auto simp: nonempty_file_def\<close>)
qed

theorem succeeded_job_artefacts_witness:
  "tools_ok demo_tools \<and> distinct (artefacts (cwd one_doc_world) [(''b.md'', ''b.pdf'')]) \<and>
   (0::nat) < length [(''b.md'', ''b.pdf'')] \<and> [(''b.md'', ''b.pdf'')] ! 0 = (''b.md'', ''b.pdf'') \<and>
   fst (run_jobs (steps_of demo_tools) [(''b.md'', ''b.pdf'')] (fs_of one_doc_world)) ! 0 = Succeeded \<and>
   files (state_of (run_batch demo_tools [(''b.md'', ''b.pdf'')]) one_doc_world)
     (abspath one_doc_world (html_file_of ''b.md'')) = None \<and>
   nonempty_file (files (state_of (run_batch demo_tools [(''b.md'', ''b.pdf'')]) one_doc_world))
     (abspath one_doc_world ''b.pdf'')"
proof -
  have ok: "fst (run_jobs (steps_of demo_tools) [(''b.md'', ''b.pdf'')] (fs_of one_doc_world)) ! 0
      = Succeeded"
    by (simp add: spec_eval_defs)
  from succeeded_job_artefacts [OF tools_ok_demo_tools job_names_b _ _ ok, of "''b.md''" "''b.pdf''"]
    tools_ok_demo_tools job_names_b ok
  show ?thesis by simp
qed

text \<open>
  C27: Under the same assumptions a job whose source is missing creates nothing: after
  the whole run its HTML file and its PDF are as they were before the run.
\<close>

theorem missing_job_untouched:
  assumes "tools_ok T" and "distinct (artefacts (cwd w) docs)" and "i < length docs"
    and "docs ! i = (md, pdf)"
    and "fst (run_jobs (steps_of T) docs (fs_of w)) ! i = SourceMissing"
  shows "lookup (state_of (run_batch T docs) w) (html_file_of md) = lookup w (html_file_of md) \<and>
         lookup (state_of (run_batch T docs) w) pdf = lookup w pdf"
proof -
  from assms(1-4) obtain si si' where
    job: "run_job (steps_of T) (md, pdf) si = (fst (run_jobs (steps_of T) docs (fs_of w)) ! i, si')"
    and same: "\<forall>p \<in> {abspath w (html_file_of md), abspath w pdf}.
           files si p = files w p \<and> files (state_of (run_batch T docs) w) p = files si' p"
    by (rule job_of_batch)
  from assms(1) have "si' = si"
    by (cases rule: run_job_cases [where s = si and md = md and pdf = pdf])
      (use job assms(5) in auto)
  with same run_batch_cwd [of T docs w] show ?thesis
    by (simp add: lookup_def abspath_def)
qed

theorem missing_job_untouched_witness:
  "tools_ok demo_tools \<and> distinct (artefacts (cwd empty_world) [(''a.md'', ''a.pdf'')]) \<and>
   (0::nat) < length [(''a.md'', ''a.pdf'')] \<and> [(''a.md'', ''a.pdf'')] ! 0 = (''a.md'', ''a.pdf'') \<and>
   fst (run_jobs (steps_of demo_tools) [(''a.md'', ''a.pdf'')] (fs_of empty_world)) ! 0
     = SourceMissing \<and>
   lookup (state_of (run_batch demo_tools [(''a.md'', ''a.pdf'')]) empty_world) (html_file_of ''a.md'')
     = lookup empty_world (html_file_of ''a.md'') \<and>
   lookup (state_of (run_batch demo_tools [(''a.md'', ''a.pdf'')]) empty_world) ''a.pdf''
     = lookup empty_world ''a.pdf''"
proof -
  have missing: "fst (run_jobs (steps_of demo_tools) [(''a.md'', ''a.pdf'')] (fs_of empty_world)) ! 0
      = SourceMissing"
    by (simp add: spec_eval_defs)
  from missing_job_untouched [OF tools_ok_demo_tools job_names_a _ _ missing,
      of "''a.md''" "''a.pdf''"] tools_ok_demo_tools job_names_a missing
  show ?thesis by simp
qed

text \<open>
  C28: Under the same assumptions a job whose conversion to HTML failed produces no PDF:
  after the whole run the PDF is as it was before the run.
\<close>

theorem tool_failure_no_pdf:
  assumes "tools_ok T" and "distinct (artefacts (cwd w) docs)" and "i < length docs"
    and "docs ! i = (md, pdf)"
    and "fst (run_jobs (steps_of T) docs (fs_of w)) ! i = ConversionFailed (ExternalToolFailure err)"
  shows "lookup (state_of (run_batch T docs) w) pdf = lookup w pdf"
proof -
  from assms(1-4) obtain si si' where
    job: "run_job (steps_of T) (md, pdf) si = (fst (run_jobs (steps_of T) docs (fs_of w)) ! i, si')"
    and cwd: "cwd si = cwd w"
    and same: "\<forall>p \<in> {abspath w (html_file_of md), abspath w pdf}.
           files si p = files w p \<and> files (state_of (run_batch T docs) w) p = files si' p"
    and sep: "abspath w (html_file_of md) \<noteq> abspath w pdf"
    by (rule job_of_batch)
  from cwd have abs: "abspath si p = abspath w p" for p by (simp add: abspath_def)
  from assms(1) have "files si' (abspath w pdf) = files si (abspath w pdf)"
    by (cases rule: run_job_cases [where s = si and md = md and pdf = pdf])
      (use job assms(5) sep abs in \<open>auto simp: only_changes_def\<close>)
  with same run_batch_cwd [of T docs w] show ?thesis
    by (simp add: lookup_def abspath_def)
qed

theorem tool_failure_no_pdf_witness:
  "tools_ok broken_pandoc_tools \<and> distinct (artefacts (cwd one_doc_world) [(''b.md'', ''b.pdf'')]) \<and>
   (0::nat) < length [(''b.md'', ''b.pdf'')] \<and> [(''b.md'', ''b.pdf'')] ! 0 = (''b.md'', ''b.pdf'') \<and>
   fst (run_jobs (steps_of broken_pandoc_tools) [(''b.md'', ''b.pdf'')] (fs_of one_doc_world)) ! 0
     = ConversionFailed (ExternalToolFailure ''pandoc: style.css: withBinaryFile: does not exist'') \<and>
   lookup (state_of (run_batch broken_pandoc_tools [(''b.md'', ''b.pdf'')]) one_doc_world) ''b.pdf''
     = lookup one_doc_world ''b.pdf''"
proof -
  have failed: "fst (run_jobs (steps_of broken_pandoc_tools) [(''b.md'', ''b.pdf'')]
      (fs_of one_doc_world)) ! 0
      = ConversionFailed (ExternalToolFailure ''pandoc: style.css: withBinaryFile: does not exist'')"
    by (simp add: spec_eval_defs)
  from tool_failure_no_pdf [OF tools_ok_broken_pandoc_tools job_names_b _ _ failed,
      of "''b.md''"] tools_ok_broken_pandoc_tools job_names_b failed
  show ?thesis by simp
qed

text \<open>
  When the tools keep their contracts, no two jobs share an artefact and the
  working directory is none of the artefacts, the working directory is still an
  existing directory, and still the current one, after the whole run.
\<close>

theorem run_batch_keeps_directory:
  assumes "tools_ok T" and "distinct (artefacts (cwd w) docs)"
    and "cwd w \<notin> set (artefacts (cwd w) docs)" and "cwd_ok w"
  shows "cwd_ok (state_of (run_batch T docs) w) \<and> cwd (state_of (run_batch T docs) w) = cwd w"
proof -
  obtain rs s' where jobs: "run_jobs (steps_of T) docs (fs_of w) = (rs, s')"
    by (cases "run_jobs (steps_of T) docs (fs_of w)")
  then have spec: "batch_spec (steps_of T) docs (fs_of w) rs s'" by (simp add: batch_spec_iff)
  from assms(4) have start: "dir_at (cwd w) (fs_of w)" by (simp add: dir_at_def cwd_ok_def)
  from spec steps_of_keep_directory [OF assms(1,3)] start have "dir_at (cwd w) s'"
    by (rule batch_spec_invariant)
  with run_batch_final_files [OF assms(1), of docs w] jobs
  show ?thesis
    by (auto simp: dir_at_def cwd_ok_def fs_of_def)
qed

theorem run_batch_keeps_directory_witness:
  "tools_ok demo_tools \<and> distinct (artefacts (cwd one_doc_world) [(''b.md'', ''b.pdf'')]) \<and>
   cwd one_doc_world \<notin> set (artefacts (cwd one_doc_world) [(''b.md'', ''b.pdf'')]) \<and>
   cwd_ok one_doc_world \<and>
   cwd_ok (state_of (run_batch demo_tools [(''b.md'', ''b.pdf'')]) one_doc_world) \<and>
   cwd (state_of (run_batch demo_tools [(''b.md'', ''b.pdf'')]) one_doc_world) = cwd one_doc_world"
proof -
  have names: "distinct (artefacts (cwd one_doc_world) [(''b.md'', ''b.pdf'')])"
    by (simp add: artefacts_of_def html_file_of_def py_replace_def join_path_def)
  have apart: "cwd one_doc_world \<notin> set (artefacts (cwd one_doc_world) [(''b.md'', ''b.pdf'')])"
    by (simp add: artefacts_of_def html_file_of_def py_replace_def join_path_def one_doc_world_def)
  have dir: "cwd_ok one_doc_world"
    by (simp add: cwd_ok_def eval_defs)
  from run_batch_keeps_directory [OF tools_ok_demo_tools names apart dir]
    tools_ok_demo_tools names apart dir
  show ?thesis by blast
qed

section \<open>What a run may change\<close>

text \<open>
  C25: When the tools keep their contracts, a run over any list of documents
  changes no file but the HTML files and the PDFs of its documents, and it stays
  in its directory: every other file, the sources and the style sheet among them, is
  after the run as it was before.
\<close>

theorem run_batch_changes_only_artefacts:
  assumes "tools_ok T"
  shows "only_changes (set (artefacts (cwd w) docs)) (files w) (files (state_of (run_batch T docs) w)) \<and>
         cwd (state_of (run_batch T docs) w) = cwd w"
proof -
  obtain rs s' where jobs: "run_jobs (steps_of T) docs (fs_of w) = (rs, s')"
    by (cases "run_jobs (steps_of T) docs (fs_of w)")
  from run_batch_final_files [OF assms, of docs w] jobs
  have "files (state_of (run_batch T docs) w) = files s'" by (metis fs_of_sel(2) snd_conv)
  with run_jobs_frame [OF assms jobs] show ?thesis by (simp add: run_batch_cwd)
qed

theorem run_batch_changes_only_artefacts_witness:
  "tools_ok demo_tools \<and>
   only_changes (set (artefacts (cwd one_doc_world) [(''b.md'', ''b.pdf'')])) (files one_doc_world)
     (files (state_of (run_batch demo_tools [(''b.md'', ''b.pdf'')]) one_doc_world)) \<and>
   cwd (state_of (run_batch demo_tools [(''b.md'', ''b.pdf'')]) one_doc_world) = cwd one_doc_world \<and>
   files (state_of (run_batch demo_tools [(''b.md'', ''b.pdf'')]) one_doc_world) ''/w/b.md''
     = Some (regular 2000)"
proof -
  have source: "files (state_of (run_batch demo_tools [(''b.md'', ''b.pdf'')]) one_doc_world)
      ''/w/b.md'' = Some (regular 2000)"
    by (simp add: spec_eval_defs)
  from run_batch_changes_only_artefacts [OF tools_ok_demo_tools, of one_doc_world "[(''b.md'', ''b.pdf'')]"]
    tools_ok_demo_tools source
  show ?thesis by blast
qed

text \<open>
  C26: \<open>main\<close> does not touch what it reads. When the tools keep their contracts and the
  working directory exists, the three Markdown sources and the style sheet are after the
  run of \<open>main\<close> as they were before: no HTML file and no PDF of the list has the name
  of a source or of the style sheet.
\<close>

theorem main_keeps_sources:
  assumes "tools_ok T" and "is_dir w workdir"
  shows "files (state_of (main T) w) (join_path workdir ''style.css'')
           = files w (join_path workdir ''style.css'') \<and>
         (\<forall>(md_file, pdf_file) \<in> set documents.
            files (state_of (main T) w) (join_path workdir md_file)
              = files w (join_path workdir md_file))"
proof -
  let ?w1 = "w\<lparr>cwd := workdir\<rparr>"
  have abs: "abspath w workdir = workdir" by (simp add: abspath_def workdir_def)
  with os_chdir_ok [OF assms(2)]
  have main: "state_of (main T) w = state_of (run_batch T documents) ?w1"
    by (simp add: main_run)
  obtain rs s' where jobs: "run_jobs (steps_of T) documents (fs_of ?w1) = (rs, s')"
    by (cases "run_jobs (steps_of T) documents (fs_of ?w1)")
  with run_batch_final_files [OF assms(1), of documents ?w1]
  have "files (state_of (run_batch T documents) ?w1) = files s'"
    by (metis fs_of_sel(2) snd_conv)
  moreover from run_jobs_frame [OF assms(1) jobs]
  have "only_changes (set (artefacts workdir documents)) (files w) (files s')" by simp
  ultimately have same: "files (state_of (main T) w) p = files w p"
    if "p \<notin> set (artefacts workdir documents)" for p
    using that main by (simp add: only_changes_def)
  have "join_path workdir x \<notin> set (artefacts workdir documents)"
    if "x \<in> set (''style.css'' # map fst documents)" for x
    using that unfolding artefacts_documents
    by (auto simp: documents_def dest!: join_path_inj [rotated 2])
  with same show ?thesis by (simp add: documents_def)
qed

theorem main_keeps_sources_witness:
  "tools_ok demo_tools \<and> is_dir project_world workdir \<and>
   files (state_of (main demo_tools) project_world) (join_path workdir ''style.css'')
     = files project_world (join_path workdir ''style.css'') \<and>
   files (state_of (main demo_tools) project_world) (join_path workdir ''REFERENCE_MANUAL.md'')
     = files project_world (join_path workdir ''REFERENCE_MANUAL.md'') \<and>
   files (state_of (main demo_tools) project_world) (join_path workdir ''IMPLEMENTATION_GUIDE.md'')
     = files project_world (join_path workdir ''IMPLEMENTATION_GUIDE.md'') \<and>
   files (state_of (main demo_tools) project_world) (join_path workdir ''ARCHITECTURE.md'')
     = files project_world (join_path workdir ''ARCHITECTURE.md'')"
proof -
  have dir: "is_dir project_world workdir"
    by (simp add: is_dir_def project_world_def eval_defs workdir_def)
  from main_keeps_sources [OF tools_ok_demo_tools dir] tools_ok_demo_tools dir
  show ?thesis by (simp add: documents_def)
qed

section \<open>The scenarios of the specification\<close>

text \<open>
  C29: The first scenario. For the one job \<open>a.md\<close> to \<open>a.pdf\<close> in a directory with neither
  file, and for all tools, the run prints the banner, the warning, the summary
  \<open>0 successful, 1 failed\<close> and the line \<open>a.pdf (NOT FOUND)\<close>, and changes nothing else.
\<close>

theorem scenario_source_missing:
  assumes "\<not> exists_at w ''a.md''" and "\<not> exists_at w ''a.pdf''"
  shows "run_state (run_batch T [(''a.md'', ''a.pdf'')]) w =
     (Inr (),
      printed w
        [rule60, ''IOC_Config Documentation - PDF Generation'', rule60, [],
         warning_sign @ '' File not found: a.md'', [],
         rule60, ''Summary: 0 successful, 1 failed'', rule60,
         CHR 0x0A # ''Generated PDF files:'',
         ''  '' @ cross @ '' a.pdf (NOT FOUND)''])"
  using assms
  by (simp add: run_batch_run convert_one_run listing_line_def not_found_line_def exists_at_def
      summary_line_def py_str_int_def str_nat.simps digit_char_def)

theorem scenario_source_missing_witness:
  "\<not> exists_at empty_world ''a.md'' \<and> \<not> exists_at empty_world ''a.pdf'' \<and>
   run_state (run_batch demo_tools [(''a.md'', ''a.pdf'')]) empty_world =
     (Inr (),
      printed empty_world
        [rule60, ''IOC_Config Documentation - PDF Generation'', rule60, [],
         warning_sign @ '' File not found: a.md'', [],
         rule60, ''Summary: 0 successful, 1 failed'', rule60,
         CHR 0x0A # ''Generated PDF files:'',
         ''  '' @ cross @ '' a.pdf (NOT FOUND)''])"
proof -
  have md: "\<not> exists_at empty_world ''a.md''" and pdf: "\<not> exists_at empty_world ''a.pdf''"
    by (simp_all add: eval_defs)
  from scenario_source_missing [OF md pdf] md pdf show ?thesis by blast
qed

text \<open>
  C30: The second scenario. For the one job \<open>b.md\<close> to \<open>b.pdf\<close> with the source present
  and both external steps successful, the run returns normally, \<open>b.html\<close> does not
  exist afterwards, \<open>b.pdf\<close> is a non-empty regular file and the summary is
  \<open>1 successful, 0 failed\<close>.
\<close>

theorem scenario_success:
  assumes "tools_ok T" and "exists_at w ''b.md''"
    and "fst (to_html (steps_of T) (''b.md'', ''b.pdf'') (fs_of w)) = Inr ()"
    and "fst (to_pdf (steps_of T) (''b.md'', ''b.pdf'')
               (snd (to_html (steps_of T) (''b.md'', ''b.pdf'') (fs_of w)))) = Inr ()"
  shows "\<exists>w'. run_state (run_batch T [(''b.md'', ''b.pdf'')]) w = (Inr (), w') \<and>
           \<not> exists_at w' ''b.html'' \<and> nonempty_file (files w') (abspath w' ''b.pdf'') \<and>
           ''Summary: 1 successful, 0 failed'' \<in> set (out w')"
proof -
  let ?j = "(''b.md'', ''b.pdf'')"
  have html: "html_file_of ''b.md'' = ''b.html''"
    by (simp add: html_file_of_def py_replace_def)
  have sep: "join_path (cwd w) ''b.html'' \<noteq> join_path (cwd w) ''b.pdf''"
    by (simp add: join_path_def)
  from assms(2-4) have ok: "fst (run_job (steps_of T) ?j (fs_of w)) = Succeeded"
    by (intro run_job_succeeds) simp_all
  from assms(1) obtain s' where job: "run_job (steps_of T) ?j (fs_of w) = (Succeeded, s')"
    and gone: "files s' (abspath w ''b.html'') = None"
    and there: "nonempty_file (files s') (abspath w ''b.pdf'')"
    and cwd: "cwd s' = cwd w"
    by (cases rule: run_job_cases [where s = "fs_of w" and md = "''b.md''" and pdf = "''b.pdf''"])
      (use ok html sep in \<open>auto simp: nonempty_file_def abspath_def\<close>)
  with run_batch_refines [OF assms(1), of "[?j]" w] show ?thesis
    by (simp add: report_def exists_at_def lookup_def abspath_def
        summary_line_def py_str_int_def str_nat.simps digit_char_def)
qed

theorem scenario_success_witness:
  "tools_ok demo_tools \<and> exists_at one_doc_world ''b.md'' \<and>
   fst (to_html (steps_of demo_tools) (''b.md'', ''b.pdf'') (fs_of one_doc_world)) = Inr () \<and>
   fst (to_pdf (steps_of demo_tools) (''b.md'', ''b.pdf'')
          (snd (to_html (steps_of demo_tools) (''b.md'', ''b.pdf'') (fs_of one_doc_world)))) = Inr () \<and>
   (\<exists>w'. run_state (run_batch demo_tools [(''b.md'', ''b.pdf'')]) one_doc_world = (Inr (), w') \<and>
           \<not> exists_at w' ''b.html'' \<and> nonempty_file (files w') (abspath w' ''b.pdf'') \<and>
           ''Summary: 1 successful, 0 failed'' \<in> set (out w'))"
proof -
  have src: "exists_at one_doc_world ''b.md''"
    by (simp add: eval_defs)
  have html: "fst (to_html (steps_of demo_tools) (''b.md'', ''b.pdf'') (fs_of one_doc_world)) = Inr ()"
    by (simp add: spec_eval_defs)
  have pdf: "fst (to_pdf (steps_of demo_tools) (''b.md'', ''b.pdf'')
          (snd (to_html (steps_of demo_tools) (''b.md'', ''b.pdf'') (fs_of one_doc_world)))) = Inr ()"
    by (simp add: spec_eval_defs)
  from scenario_success [OF tools_ok_demo_tools src html pdf] tools_ok_demo_tools src html pdf
  show ?thesis by blast
qed

text \<open>
  C31: The listing reads the directory, not the results. When the source of a job is
  missing and a PDF of that name is left from an earlier run, the run counts the job
  as failed and then lists the old PDF with its size as a generated file.
\<close>

theorem stale_pdf_listed:
  assumes "\<not> exists_at w md" and "lookup w pdf = Some st"
  shows "out (state_of (run_batch T [(md, pdf)]) w) =
     out w @
       [rule60, ''IOC_Config Documentation - PDF Generation'', rule60, [],
        warning_sign @ '' File not found: '' @ md, [],
        rule60, ''Summary: 0 successful, 1 failed'', rule60,
        CHR 0x0A # ''Generated PDF files:'',
        found_line pdf (st_size st)]"
  using assms
  by (simp add: run_batch_run convert_one_run listing_line_def
      summary_line_def py_str_int_def str_nat.simps digit_char_def)

theorem stale_pdf_listed_witness:
  "\<not> exists_at stale_world ''a.md'' \<and> lookup stale_world ''a.pdf'' = Some (regular 8053064) \<and>
   out (state_of (run_batch demo_tools [(''a.md'', ''a.pdf'')]) stale_world) =
     out stale_world @
       [rule60, ''IOC_Config Documentation - PDF Generation'', rule60, [],
        warning_sign @ '' File not found: '' @ ''a.md'', [],
        rule60, ''Summary: 0 successful, 1 failed'', rule60,
        CHR 0x0A # ''Generated PDF files:'',
        found_line ''a.pdf'' (st_size (regular 8053064))] \<and>
   found_line ''a.pdf'' (st_size (regular 8053064)) = ''  '' @ tick @ '' a.pdf (7.68 MB)''"
proof -
  have md: "\<not> exists_at stale_world ''a.md''"
    and pdf: "lookup stale_world ''a.pdf'' = Some (regular 8053064)"
    by (simp_all add: eval_defs)
  have "found_line ''a.pdf'' (st_size (regular 8053064)) = ''  '' @ tick @ '' a.pdf (7.68 MB)''"
    by (simp add: run_defs)
  with stale_pdf_listed [OF md pdf] md pdf show ?thesis by blast
qed

end
